theory Spec2Isabelle
  imports Main "HOL-Library.Word"
begin

unbundle bit_operations_syntax

section \<open>Data model (arm64\_disasm.h)\<close>

datatype reg_type_t =
    REG_TYPE_X | REG_TYPE_W | REG_TYPE_SP | REG_TYPE_XZR | REG_TYPE_WZR
  | REG_TYPE_V | REG_TYPE_B | REG_TYPE_H | REG_TYPE_S | REG_TYPE_D | REG_TYPE_Q

text \<open>
  \<open>inst_type_t\<close> is a C enum of 113 constants. It is kept as the integer it is in C, each
  constant with the value the enum declaration gives it; the decoders do arithmetic on
  it (\<open>INST_TYPE_ASR + 1\<close>).
\<close>

type_synonym inst_type_t = nat

definition INST_TYPE_UNKNOWN :: inst_type_t where "INST_TYPE_UNKNOWN = 0"
definition INST_TYPE_LDR :: inst_type_t where "INST_TYPE_LDR = 1"
definition INST_TYPE_LDRB :: inst_type_t where "INST_TYPE_LDRB = 2"
definition INST_TYPE_LDRH :: inst_type_t where "INST_TYPE_LDRH = 3"
definition INST_TYPE_LDRSW :: inst_type_t where "INST_TYPE_LDRSW = 4"
definition INST_TYPE_LDRSB :: inst_type_t where "INST_TYPE_LDRSB = 5"
definition INST_TYPE_LDRSH :: inst_type_t where "INST_TYPE_LDRSH = 6"
definition INST_TYPE_STR :: inst_type_t where "INST_TYPE_STR = 7"
definition INST_TYPE_STRB :: inst_type_t where "INST_TYPE_STRB = 8"
definition INST_TYPE_STRH :: inst_type_t where "INST_TYPE_STRH = 9"
definition INST_TYPE_STP :: inst_type_t where "INST_TYPE_STP = 10"
definition INST_TYPE_LDP :: inst_type_t where "INST_TYPE_LDP = 11"
definition INST_TYPE_MOV :: inst_type_t where "INST_TYPE_MOV = 12"
definition INST_TYPE_MOVZ :: inst_type_t where "INST_TYPE_MOVZ = 13"
definition INST_TYPE_MOVN :: inst_type_t where "INST_TYPE_MOVN = 14"
definition INST_TYPE_MOVK :: inst_type_t where "INST_TYPE_MOVK = 15"
definition INST_TYPE_ADD :: inst_type_t where "INST_TYPE_ADD = 16"
definition INST_TYPE_SUB :: inst_type_t where "INST_TYPE_SUB = 17"
definition INST_TYPE_ADDS :: inst_type_t where "INST_TYPE_ADDS = 18"
definition INST_TYPE_SUBS :: inst_type_t where "INST_TYPE_SUBS = 19"
definition INST_TYPE_ADR :: inst_type_t where "INST_TYPE_ADR = 20"
definition INST_TYPE_ADRP :: inst_type_t where "INST_TYPE_ADRP = 21"
definition INST_TYPE_B :: inst_type_t where "INST_TYPE_B = 22"
definition INST_TYPE_BL :: inst_type_t where "INST_TYPE_BL = 23"
definition INST_TYPE_BR :: inst_type_t where "INST_TYPE_BR = 24"
definition INST_TYPE_BLR :: inst_type_t where "INST_TYPE_BLR = 25"
definition INST_TYPE_RET :: inst_type_t where "INST_TYPE_RET = 26"
definition INST_TYPE_CBZ :: inst_type_t where "INST_TYPE_CBZ = 27"
definition INST_TYPE_CBNZ :: inst_type_t where "INST_TYPE_CBNZ = 28"
definition INST_TYPE_TBZ :: inst_type_t where "INST_TYPE_TBZ = 29"
definition INST_TYPE_TBNZ :: inst_type_t where "INST_TYPE_TBNZ = 30"
definition INST_TYPE_AND :: inst_type_t where "INST_TYPE_AND = 31"
definition INST_TYPE_ORR :: inst_type_t where "INST_TYPE_ORR = 32"
definition INST_TYPE_EOR :: inst_type_t where "INST_TYPE_EOR = 33"
definition INST_TYPE_LSL :: inst_type_t where "INST_TYPE_LSL = 34"
definition INST_TYPE_LSR :: inst_type_t where "INST_TYPE_LSR = 35"
definition INST_TYPE_ASR :: inst_type_t where "INST_TYPE_ASR = 36"
definition INST_TYPE_ROR :: inst_type_t where "INST_TYPE_ROR = 37"
definition INST_TYPE_CMP :: inst_type_t where "INST_TYPE_CMP = 38"
definition INST_TYPE_CMN :: inst_type_t where "INST_TYPE_CMN = 39"
definition INST_TYPE_TST :: inst_type_t where "INST_TYPE_TST = 40"
definition INST_TYPE_MUL :: inst_type_t where "INST_TYPE_MUL = 41"
definition INST_TYPE_MADD :: inst_type_t where "INST_TYPE_MADD = 42"
definition INST_TYPE_MSUB :: inst_type_t where "INST_TYPE_MSUB = 43"
definition INST_TYPE_SDIV :: inst_type_t where "INST_TYPE_SDIV = 44"
definition INST_TYPE_UDIV :: inst_type_t where "INST_TYPE_UDIV = 45"
definition INST_TYPE_SMULL :: inst_type_t where "INST_TYPE_SMULL = 46"
definition INST_TYPE_UMULL :: inst_type_t where "INST_TYPE_UMULL = 47"
definition INST_TYPE_CSEL :: inst_type_t where "INST_TYPE_CSEL = 48"
definition INST_TYPE_CSINC :: inst_type_t where "INST_TYPE_CSINC = 49"
definition INST_TYPE_CSINV :: inst_type_t where "INST_TYPE_CSINV = 50"
definition INST_TYPE_CSNEG :: inst_type_t where "INST_TYPE_CSNEG = 51"
definition INST_TYPE_CSET :: inst_type_t where "INST_TYPE_CSET = 52"
definition INST_TYPE_CSETM :: inst_type_t where "INST_TYPE_CSETM = 53"
definition INST_TYPE_CINC :: inst_type_t where "INST_TYPE_CINC = 54"
definition INST_TYPE_CINV :: inst_type_t where "INST_TYPE_CINV = 55"
definition INST_TYPE_CNEG :: inst_type_t where "INST_TYPE_CNEG = 56"
definition INST_TYPE_CLZ :: inst_type_t where "INST_TYPE_CLZ = 57"
definition INST_TYPE_CLS :: inst_type_t where "INST_TYPE_CLS = 58"
definition INST_TYPE_RBIT :: inst_type_t where "INST_TYPE_RBIT = 59"
definition INST_TYPE_REV :: inst_type_t where "INST_TYPE_REV = 60"
definition INST_TYPE_REV16 :: inst_type_t where "INST_TYPE_REV16 = 61"
definition INST_TYPE_REV32 :: inst_type_t where "INST_TYPE_REV32 = 62"
definition INST_TYPE_EXTR :: inst_type_t where "INST_TYPE_EXTR = 63"
definition INST_TYPE_LDXR :: inst_type_t where "INST_TYPE_LDXR = 64"
definition INST_TYPE_STXR :: inst_type_t where "INST_TYPE_STXR = 65"
definition INST_TYPE_LDAXR :: inst_type_t where "INST_TYPE_LDAXR = 66"
definition INST_TYPE_STLXR :: inst_type_t where "INST_TYPE_STLXR = 67"
definition INST_TYPE_LDAR :: inst_type_t where "INST_TYPE_LDAR = 68"
definition INST_TYPE_STLR :: inst_type_t where "INST_TYPE_STLR = 69"
definition INST_TYPE_LDADD :: inst_type_t where "INST_TYPE_LDADD = 70"
definition INST_TYPE_LDCLR :: inst_type_t where "INST_TYPE_LDCLR = 71"
definition INST_TYPE_LDEOR :: inst_type_t where "INST_TYPE_LDEOR = 72"
definition INST_TYPE_LDSET :: inst_type_t where "INST_TYPE_LDSET = 73"
definition INST_TYPE_LDSMAX :: inst_type_t where "INST_TYPE_LDSMAX = 74"
definition INST_TYPE_LDSMIN :: inst_type_t where "INST_TYPE_LDSMIN = 75"
definition INST_TYPE_LDUMAX :: inst_type_t where "INST_TYPE_LDUMAX = 76"
definition INST_TYPE_LDUMIN :: inst_type_t where "INST_TYPE_LDUMIN = 77"
definition INST_TYPE_SWP :: inst_type_t where "INST_TYPE_SWP = 78"
definition INST_TYPE_CAS :: inst_type_t where "INST_TYPE_CAS = 79"
definition INST_TYPE_NOP :: inst_type_t where "INST_TYPE_NOP = 80"
definition INST_TYPE_MRS :: inst_type_t where "INST_TYPE_MRS = 81"
definition INST_TYPE_MSR :: inst_type_t where "INST_TYPE_MSR = 82"
definition INST_TYPE_DMB :: inst_type_t where "INST_TYPE_DMB = 83"
definition INST_TYPE_DSB :: inst_type_t where "INST_TYPE_DSB = 84"
definition INST_TYPE_ISB :: inst_type_t where "INST_TYPE_ISB = 85"
definition INST_TYPE_SVC :: inst_type_t where "INST_TYPE_SVC = 86"
definition INST_TYPE_HVC :: inst_type_t where "INST_TYPE_HVC = 87"
definition INST_TYPE_SMC :: inst_type_t where "INST_TYPE_SMC = 88"
definition INST_TYPE_FMOV :: inst_type_t where "INST_TYPE_FMOV = 89"
definition INST_TYPE_FADD :: inst_type_t where "INST_TYPE_FADD = 90"
definition INST_TYPE_FSUB :: inst_type_t where "INST_TYPE_FSUB = 91"
definition INST_TYPE_FMUL :: inst_type_t where "INST_TYPE_FMUL = 92"
definition INST_TYPE_FDIV :: inst_type_t where "INST_TYPE_FDIV = 93"
definition INST_TYPE_FABS :: inst_type_t where "INST_TYPE_FABS = 94"
definition INST_TYPE_FNEG :: inst_type_t where "INST_TYPE_FNEG = 95"
definition INST_TYPE_FSQRT :: inst_type_t where "INST_TYPE_FSQRT = 96"
definition INST_TYPE_FMADD :: inst_type_t where "INST_TYPE_FMADD = 97"
definition INST_TYPE_FMSUB :: inst_type_t where "INST_TYPE_FMSUB = 98"
definition INST_TYPE_FNMADD :: inst_type_t where "INST_TYPE_FNMADD = 99"
definition INST_TYPE_FNMSUB :: inst_type_t where "INST_TYPE_FNMSUB = 100"
definition INST_TYPE_FCMP :: inst_type_t where "INST_TYPE_FCMP = 101"
definition INST_TYPE_FCMPE :: inst_type_t where "INST_TYPE_FCMPE = 102"
definition INST_TYPE_FCCMP :: inst_type_t where "INST_TYPE_FCCMP = 103"
definition INST_TYPE_FCSEL :: inst_type_t where "INST_TYPE_FCSEL = 104"
definition INST_TYPE_FCVT :: inst_type_t where "INST_TYPE_FCVT = 105"
definition INST_TYPE_FCVTZS :: inst_type_t where "INST_TYPE_FCVTZS = 106"
definition INST_TYPE_FCVTZU :: inst_type_t where "INST_TYPE_FCVTZU = 107"
definition INST_TYPE_SCVTF :: inst_type_t where "INST_TYPE_SCVTF = 108"
definition INST_TYPE_UCVTF :: inst_type_t where "INST_TYPE_UCVTF = 109"
definition INST_TYPE_FRINT :: inst_type_t where "INST_TYPE_FRINT = 110"
definition INST_TYPE_FMAX :: inst_type_t where "INST_TYPE_FMAX = 111"
definition INST_TYPE_FMIN :: inst_type_t where "INST_TYPE_FMIN = 112"

datatype addr_mode_t =
    ADDR_MODE_NONE | ADDR_MODE_IMM_UNSIGNED | ADDR_MODE_IMM_SIGNED
  | ADDR_MODE_PRE_INDEX | ADDR_MODE_POST_INDEX | ADDR_MODE_REG_OFFSET
  | ADDR_MODE_REG_EXTEND | ADDR_MODE_LITERAL

text \<open>
  \<open>extend_t\<close> is a C enum whose declared constants are 0..8; the decoders also store
  \<open>EXTEND_LSL + 1\<close>, \<open>+ 2\<close> and \<open>+ 3\<close> in it, so it is kept as an integer too.
\<close>

type_synonym extend_t = nat

definition EXTEND_UXTB :: extend_t where "EXTEND_UXTB = 0"
definition EXTEND_UXTH :: extend_t where "EXTEND_UXTH = 1"
definition EXTEND_UXTW :: extend_t where "EXTEND_UXTW = 2"
definition EXTEND_UXTX :: extend_t where "EXTEND_UXTX = 3"
definition EXTEND_SXTB :: extend_t where "EXTEND_SXTB = 4"
definition EXTEND_SXTH :: extend_t where "EXTEND_SXTH = 5"
definition EXTEND_SXTW :: extend_t where "EXTEND_SXTW = 6"
definition EXTEND_SXTX :: extend_t where "EXTEND_SXTX = 7"
definition EXTEND_LSL :: extend_t where "EXTEND_LSL = 8"

record disasm_inst_t =
  raw :: "32 word"
  address :: "64 word"
  type :: inst_type_t
  mnemonic :: string
  rd :: "8 word"
  rn :: "8 word"
  rm :: "8 word"
  rt2 :: "8 word"
  ra :: "8 word"
  rd_type :: reg_type_t
  rn_type :: reg_type_t
  rm_type :: reg_type_t
  imm :: "64 word"
  has_imm :: bool
  addr_mode :: addr_mode_t
  extend_type :: extend_t
  shift_amount :: "8 word"
  cond :: "8 word"
  is_64bit :: bool
  set_flags :: bool
  is_acquire :: bool
  is_release :: bool

section \<open>Bit utilities (the macros BITS, BIT, SIGN\_EXTEND)\<close>

text \<open>
  \<open>BITS(val, start, end)\<close> is \<open>((val) >> (start)) & ((1ULL << ((end) - (start) + 1)) - 1)\<close>:
  the shift is done on the 32-bit operand, the mask is 64 bits wide, so the result is a
  64-bit value that the assignment to the local variable then truncates.
\<close>

definition BITS :: "32 word \<Rightarrow> nat \<Rightarrow> nat \<Rightarrow> 64 word" where
  "BITS val start endb = ucast (drop_bit start val) AND (push_bit (endb - start + 1) 1 - 1)"

definition BIT :: "32 word \<Rightarrow> nat \<Rightarrow> 32 word" where
  "BIT val pos = drop_bit pos val AND 1"

text \<open>
  \<open>SIGN_EXTEND(val, bits)\<close> is \<open>((int64_t)(val) << (64 - bits)) >> (64 - bits)\<close>, with an
  arithmetic right shift; the argument is the value already converted to \<open>int64_t\<close>.
\<close>

definition SIGN_EXTEND :: "64 word \<Rightarrow> nat \<Rightarrow> 64 word" where
  "SIGN_EXTEND val bits = signed_drop_bit (64 - bits) (push_bit (64 - bits) val)"

text \<open>\<open>SAFE_STRCPY\<close> copies at most 15 characters into the 16-byte mnemonic buffer.\<close>

definition SAFE_STRCPY :: "string \<Rightarrow> string" where
  "SAFE_STRCPY src = take 15 src"

section \<open>The table engine (arm64\_decode\_table.h, arm64\_disasm.c)\<close>

text \<open>
  A decoder receives the word, the address and the record it may write to; it returns
  its verdict together with the record as it left it. A decoder that rejects has often
  written some fields already, and the next decoder starts from that record.
\<close>

type_synonym decode_func_t = "32 word \<Rightarrow> 64 word \<Rightarrow> disasm_inst_t \<Rightarrow> bool \<times> disasm_inst_t"

text \<open>A table row: mask, value, decoder, and the name kept for debugging.\<close>

type_synonym decode_entry_t = "32 word \<times> 32 word \<times> decode_func_t \<times> string"

definition DECODE_ENTRY :: "32 word \<Rightarrow> 32 word \<Rightarrow> decode_func_t \<Rightarrow> string \<Rightarrow> decode_entry_t" where
  "DECODE_ENTRY m v fn n = (m, v, fn, n)"

fun decode_with_table :: "decode_entry_t list \<Rightarrow> decode_func_t" where
  "decode_with_table [] inst addr result = (False, result)"
| "decode_with_table ((m, v, decoder, n) # table) inst addr result =
     (if inst AND m = v then
        (case decoder inst addr result of
           (True, result') \<Rightarrow> (True, result')
         | (False, result') \<Rightarrow> decode_with_table table inst addr result')
      else decode_with_table table inst addr result)"

section \<open>Branch and system decoders\<close>

text \<open>\<open>snprintf(result->mnemonic, sizeof(result->mnemonic), ...)\<close> keeps 15 characters.\<close>

definition snprintf_mnemonic :: "string \<Rightarrow> string" where
  "snprintf_mnemonic s = take 15 s"

definition decode_uncond_branch_imm :: decode_func_t where
  "decode_uncond_branch_imm inst addr result =
     (let op = (ucast (BIT inst 31) :: 8 word);
          imm26 = (ucast (BITS inst 0 25) :: 32 word);
          result = result\<lparr>imm := push_bit 2 (SIGN_EXTEND (scast imm26) 26), has_imm := True\<rparr>
      in if op = 0
         then (True, result\<lparr>mnemonic := SAFE_STRCPY ''b'', type := INST_TYPE_B\<rparr>)
         else (True, result\<lparr>mnemonic := SAFE_STRCPY ''bl'', type := INST_TYPE_BL\<rparr>))"

definition cond_names :: "string list" where
  "cond_names = [''eq'', ''ne'', ''cs'', ''cc'', ''mi'', ''pl'', ''vs'', ''vc'',
                 ''hi'', ''ls'', ''ge'', ''lt'', ''gt'', ''le'', ''al'', ''nv'']"

definition decode_cond_branch_imm :: decode_func_t where
  "decode_cond_branch_imm inst addr result =
     (let imm19 = (ucast (BITS inst 5 23) :: 32 word);
          cond = (ucast (BITS inst 0 3) :: 8 word);
          result = result\<lparr>imm := push_bit 2 (SIGN_EXTEND (scast imm19) 19), has_imm := True,
                          type := INST_TYPE_B\<rparr>
      in if cond < 16
         then (True, result\<lparr>mnemonic := snprintf_mnemonic (''b.'' @ cond_names ! unat cond)\<rparr>)
         else (False, result))"

definition decode_compare_branch :: decode_func_t where
  "decode_compare_branch inst addr result =
     (let sf = (ucast (BIT inst 31) :: 8 word);
          op = (ucast (BIT inst 24) :: 8 word);
          imm19 = (ucast (BITS inst 5 23) :: 32 word);
          rt = (ucast (BITS inst 0 4) :: 8 word);
          result = result\<lparr>rd := rt, rd_type := (if sf \<noteq> 0 then REG_TYPE_X else REG_TYPE_W),
                          imm := push_bit 2 (SIGN_EXTEND (scast imm19) 19), has_imm := True,
                          is_64bit := (sf \<noteq> 0)\<rparr>
      in if op = 0
         then (True, result\<lparr>mnemonic := SAFE_STRCPY ''cbz'', type := INST_TYPE_CBZ\<rparr>)
         else (True, result\<lparr>mnemonic := SAFE_STRCPY ''cbnz'', type := INST_TYPE_CBNZ\<rparr>))"

definition decode_test_branch :: decode_func_t where
  "decode_test_branch inst addr result =
     (let b5 = (ucast (BIT inst 31) :: 8 word);
          op = (ucast (BIT inst 24) :: 8 word);
          b40 = (ucast (BITS inst 19 23) :: 8 word);
          imm14 = (ucast (BITS inst 5 18) :: 16 word);
          rt = (ucast (BITS inst 0 4) :: 8 word);
          bit_pos = (push_bit 5 b5 OR b40 :: 8 word);
          result = result\<lparr>rd := rt, rd_type := (if bit_pos < 32 then REG_TYPE_W else REG_TYPE_X),
                          imm := push_bit 2 (SIGN_EXTEND (scast imm14) 14),
                          shift_amount := bit_pos, has_imm := True, is_64bit := (bit_pos \<ge> 32)\<rparr>
      in if op = 0
         then (True, result\<lparr>mnemonic := SAFE_STRCPY ''tbz'', type := INST_TYPE_TBZ\<rparr>)
         else (True, result\<lparr>mnemonic := SAFE_STRCPY ''tbnz'', type := INST_TYPE_TBNZ\<rparr>))"

definition decode_uncond_branch_reg :: decode_func_t where
  "decode_uncond_branch_reg inst addr result =
     (let opc = (ucast (BITS inst 21 24) :: 8 word);
          op2 = (ucast (BITS inst 16 20) :: 8 word);
          op3 = (ucast (BITS inst 10 15) :: 8 word);
          rn' = (ucast (BITS inst 5 9) :: 8 word);
          op4 = (ucast (BITS inst 0 4) :: 8 word);
          result = result\<lparr>rn := rn', rn_type := REG_TYPE_X, has_imm := False, is_64bit := True\<rparr>
      in if op2 \<noteq> 31 \<or> op4 \<noteq> 0 then (False, result)
         else if opc = 0 then
           (if op3 = 0 then (True, result\<lparr>mnemonic := SAFE_STRCPY ''br'', type := INST_TYPE_BR\<rparr>)
            else (False, result))
         else if opc = 1 then
           (if op3 = 0 then (True, result\<lparr>mnemonic := SAFE_STRCPY ''blr'', type := INST_TYPE_BLR\<rparr>)
            else (False, result))
         else if opc = 2 then
           (if op3 = 0 then (True, result\<lparr>mnemonic := SAFE_STRCPY ''ret'', type := INST_TYPE_RET\<rparr>)
            else (False, result))
         else if opc = 4 then
           (if op3 = 0 \<and> rn' = 31
            then (True, result\<lparr>mnemonic := SAFE_STRCPY ''eret'', type := INST_TYPE_RET\<rparr>)
            else (False, result))
         else if opc = 5 then
           (if op3 = 0 \<and> rn' = 31
            then (True, result\<lparr>mnemonic := SAFE_STRCPY ''drps'', type := INST_TYPE_RET\<rparr>)
            else (False, result))
         else (False, result))"

definition hint_names :: "string list" where
  "hint_names = [''nop'', ''yield'', ''wfe'', ''wfi'', ''sev'', ''sevl'']"

definition decode_system :: decode_func_t where
  "decode_system inst addr result =
     (let op0 = (ucast (BITS inst 19 20) :: 8 word);
          op1 = (ucast (BITS inst 16 18) :: 8 word);
          crn = (ucast (BITS inst 12 15) :: 8 word);
          crm = (ucast (BITS inst 8 11) :: 8 word);
          op2 = (ucast (BITS inst 5 7) :: 8 word);
          rt = (ucast (BITS inst 0 4) :: 8 word);
          L = (ucast (BIT inst 21) :: 8 word)
      in if op0 = 0 \<and> op1 = 3 \<and> crn = 2 \<and> rt = 31 \<and> crm = 0 \<and> op2 < 6
         then (True, result\<lparr>mnemonic := SAFE_STRCPY (hint_names ! unat op2), type := INST_TYPE_NOP\<rparr>)
         else if L = 1 \<and> rt \<noteq> 31
         then (True, result\<lparr>rd := rt, rd_type := REG_TYPE_X, is_64bit := True, has_imm := False,
                             mnemonic := SAFE_STRCPY ''mrs'', type := INST_TYPE_MRS\<rparr>)
         else (False, result))"

definition branch_decode_table :: "decode_entry_t list" where
  "branch_decode_table =
     [DECODE_ENTRY 0x7C000000 0x14000000 decode_uncond_branch_imm ''decode_uncond_branch_imm'',
      DECODE_ENTRY 0x7E000000 0x34000000 decode_compare_branch ''decode_compare_branch'',
      DECODE_ENTRY 0x7E000000 0x36000000 decode_test_branch ''decode_test_branch'',
      DECODE_ENTRY 0xFF000010 0x54000000 decode_cond_branch_imm ''decode_cond_branch_imm'',
      DECODE_ENTRY 0xFE000000 0xD6000000 decode_uncond_branch_reg ''decode_uncond_branch_reg'',
      DECODE_ENTRY 0xFFC00000 0xD5000000 decode_system ''decode_system'']"

definition decode_branch :: decode_func_t where
  "decode_branch inst addr result = decode_with_table branch_decode_table inst addr result"

section \<open>Data-processing (immediate) decoders\<close>

definition decode_pc_rel_addr :: decode_func_t where
  "decode_pc_rel_addr inst addr result =
     (let op = (ucast (BIT inst 31) :: 8 word);
          immlo = (ucast (BITS inst 29 30) :: 8 word);
          immhi = (ucast (BITS inst 5 23) :: 32 word);
          rd' = (ucast (BITS inst 0 4) :: 8 word);
          result = result\<lparr>rd := rd', rd_type := REG_TYPE_X, has_imm := True, is_64bit := True\<rparr>;
          imm21 = (push_bit 2 immhi OR ucast immlo :: 32 word)
      in if op = 0
         then (True, result\<lparr>imm := SIGN_EXTEND (scast imm21) 21,
                             mnemonic := SAFE_STRCPY ''adr'', type := INST_TYPE_ADR\<rparr>)
         else (True, result\<lparr>imm := push_bit 12 (SIGN_EXTEND (scast imm21) 21),
                             mnemonic := SAFE_STRCPY ''adrp'', type := INST_TYPE_ADRP\<rparr>))"

definition decode_add_sub_imm :: decode_func_t where
  "decode_add_sub_imm inst addr result =
     (let sf = (ucast (BIT inst 31) :: 8 word);
          op = (ucast (BIT inst 30) :: 8 word);
          S = (ucast (BIT inst 29) :: 8 word);
          shift = (ucast (BITS inst 22 23) :: 8 word);
          imm12 = (ucast (BITS inst 10 21) :: 16 word);
          rn' = (ucast (BITS inst 5 9) :: 8 word);
          rd' = (ucast (BITS inst 0 4) :: 8 word)
      in if shift > 1 then (False, result)
         else
          (let result = result\<lparr>rd := rd', rn := rn', imm := ucast imm12,
                               shift_amount := (if shift = 1 then 12 else 0),
                               has_imm := True, is_64bit := (sf \<noteq> 0), set_flags := (S \<noteq> 0),
                               rd_type := (if sf \<noteq> 0 then REG_TYPE_X else REG_TYPE_W),
                               rn_type := (if sf \<noteq> 0 then REG_TYPE_X else REG_TYPE_W)\<rparr>;
               result =
                 (if op = 0 then
                    (let result = result\<lparr>mnemonic := SAFE_STRCPY (if S \<noteq> 0 then ''adds'' else ''add''),
                                         type := (if S \<noteq> 0 then INST_TYPE_ADDS else INST_TYPE_ADD)\<rparr>
                     in if S = 0 \<and> imm12 = 0 \<and> shift = 0
                        then result\<lparr>mnemonic := SAFE_STRCPY ''mov'', type := INST_TYPE_MOV,
                                    has_imm := False, rm := rn', rm_type := rn_type result\<rparr>
                        else result)
                  else result\<lparr>mnemonic := SAFE_STRCPY (if S \<noteq> 0 then ''subs'' else ''sub''),
                              type := (if S \<noteq> 0 then INST_TYPE_SUBS else INST_TYPE_SUB)\<rparr>);
               result =
                 (if S \<noteq> 0 \<and> rd' = 31 then
                    (if op = 1
                     then result\<lparr>mnemonic := SAFE_STRCPY ''cmp'', type := INST_TYPE_CMP\<rparr>
                     else result\<lparr>mnemonic := SAFE_STRCPY ''cmn'', type := INST_TYPE_CMN\<rparr>)
                      \<lparr>rd_type := (if sf \<noteq> 0 then REG_TYPE_X else REG_TYPE_W)\<rparr>
                  else result);
               result =
                 (if S = 0 then
                    (let result = (if rn' = 31 then result\<lparr>rn_type := REG_TYPE_SP\<rparr> else result)
                     in if rd' = 31 then result\<lparr>rd_type := REG_TYPE_SP\<rparr> else result)
                  else result)
           in (True, result)))"

definition decode_logical_imm :: decode_func_t where
  "decode_logical_imm inst addr result =
     (let sf = (ucast (BIT inst 31) :: 8 word);
          opc = (ucast (BITS inst 29 30) :: 8 word);
          immr = (ucast (BITS inst 16 21) :: 8 word);
          imms = (ucast (BITS inst 10 15) :: 8 word);
          rn' = (ucast (BITS inst 5 9) :: 8 word);
          rd' = (ucast (BITS inst 0 4) :: 8 word);
          result = result\<lparr>imm := scast (push_bit 6 (ucast immr) OR ucast imms :: 32 word),
                          rd := rd', rn := rn', has_imm := True, is_64bit := (sf \<noteq> 0),
                          rd_type := (if sf \<noteq> 0 then REG_TYPE_X else REG_TYPE_W),
                          rn_type := (if sf \<noteq> 0 then REG_TYPE_X else REG_TYPE_W)\<rparr>
      in if opc = 0 then (True, result\<lparr>mnemonic := SAFE_STRCPY ''and'', type := INST_TYPE_AND\<rparr>)
         else if opc = 1 then
           (let result = result\<lparr>mnemonic := SAFE_STRCPY ''orr'', type := INST_TYPE_ORR\<rparr>
            in (True, if rn' = 31
                      then result\<lparr>mnemonic := SAFE_STRCPY ''mov'', type := INST_TYPE_MOV\<rparr>
                      else result))
         else if opc = 2 then (True, result\<lparr>mnemonic := SAFE_STRCPY ''eor'', type := INST_TYPE_EOR\<rparr>)
         else if opc = 3 then
           (let result = result\<lparr>mnemonic := SAFE_STRCPY ''ands'', type := INST_TYPE_AND,
                                set_flags := True\<rparr>
            in (True, if rd' = 31 then result\<lparr>mnemonic := SAFE_STRCPY ''tst''\<rparr> else result))
         else (False, result))"

definition decode_move_wide_imm :: decode_func_t where
  "decode_move_wide_imm inst addr result =
     (let sf = (ucast (BIT inst 31) :: 8 word);
          opc = (ucast (BITS inst 29 30) :: 8 word);
          hw = (ucast (BITS inst 21 22) :: 8 word);
          imm16 = (ucast (BITS inst 5 20) :: 16 word);
          rd' = (ucast (BITS inst 0 4) :: 8 word)
      in if sf = 0 \<and> hw \<ge> 2 then (False, result)
         else
          (let result = result\<lparr>rd := rd', imm := ucast imm16, shift_amount := hw * 16,
                               has_imm := True, is_64bit := (sf \<noteq> 0),
                               rd_type := (if sf \<noteq> 0 then REG_TYPE_X else REG_TYPE_W)\<rparr>
           in if opc = 0 then (True, result\<lparr>mnemonic := SAFE_STRCPY ''movn'', type := INST_TYPE_MOVN\<rparr>)
              else if opc = 2 then (True, result\<lparr>mnemonic := SAFE_STRCPY ''movz'', type := INST_TYPE_MOVZ\<rparr>)
              else if opc = 3 then (True, result\<lparr>mnemonic := SAFE_STRCPY ''movk'', type := INST_TYPE_MOVK\<rparr>)
              else (False, result)))"

definition decode_bitfield :: decode_func_t where
  "decode_bitfield inst addr result =
     (let sf = (ucast (BIT inst 31) :: 8 word);
          opc = (ucast (BITS inst 29 30) :: 8 word);
          N = (ucast (BIT inst 22) :: 8 word);
          immr = (ucast (BITS inst 16 21) :: 8 word);
          imms = (ucast (BITS inst 10 15) :: 8 word);
          rn' = (ucast (BITS inst 5 9) :: 8 word);
          rd' = (ucast (BITS inst 0 4) :: 8 word)
      in if N \<noteq> sf then (False, result)
         else
          (let result = result\<lparr>rd := rd', rn := rn', has_imm := True, is_64bit := (sf \<noteq> 0),
                               rd_type := (if sf \<noteq> 0 then REG_TYPE_X else REG_TYPE_W),
                               rn_type := (if sf \<noteq> 0 then REG_TYPE_X else REG_TYPE_W),
                               imm := scast (push_bit 6 (ucast immr) OR ucast imms :: 32 word),
                               shift_amount := immr\<rparr>
           in if opc = 0 then
                (let result = result\<lparr>mnemonic := SAFE_STRCPY ''sbfm'', type := INST_TYPE_LSL\<rparr>
                 in (True, if immr \<noteq> 0 \<and> imms = (if sf \<noteq> 0 then 63 else 31)
                           then result\<lparr>mnemonic := SAFE_STRCPY ''asr'', type := INST_TYPE_ASR\<rparr>
                           else result))
              else if opc = 1 then
                (True, result\<lparr>mnemonic := SAFE_STRCPY ''bfm'', type := INST_TYPE_LSL\<rparr>)
              else if opc = 2 then
                (let result = result\<lparr>mnemonic := SAFE_STRCPY ''ubfm'', type := INST_TYPE_LSL\<rparr>;
                     result = (if imms = (if sf \<noteq> 0 then 63 else 31)
                               then result\<lparr>mnemonic := SAFE_STRCPY ''lsr'', type := INST_TYPE_LSR\<rparr>
                               else result)
                 in (True, if immr = 0 \<and> imms < (if sf \<noteq> 0 then 63 else 31)
                           then result\<lparr>mnemonic := SAFE_STRCPY ''lsl'', type := INST_TYPE_LSL\<rparr>
                           else result))
              else (False, result)))"

definition decode_extract :: decode_func_t where
  "decode_extract inst addr result =
     (let sf = (ucast (BIT inst 31) :: 8 word);
          N = (ucast (BIT inst 22) :: 8 word);
          rm' = (ucast (BITS inst 16 20) :: 8 word);
          imms = (ucast (BITS inst 10 15) :: 8 word);
          rn' = (ucast (BITS inst 5 9) :: 8 word);
          rd' = (ucast (BITS inst 0 4) :: 8 word)
      in if sf \<noteq> N then (False, result)
         else if sf = 0 \<and> imms \<ge> 32 then (False, result)
         else
          (let result = result\<lparr>rd := rd', rn := rn', rm := rm', imm := ucast imms,
                               has_imm := True, is_64bit := (sf \<noteq> 0),
                               rd_type := (if sf \<noteq> 0 then REG_TYPE_X else REG_TYPE_W),
                               rn_type := (if sf \<noteq> 0 then REG_TYPE_X else REG_TYPE_W),
                               rm_type := (if sf \<noteq> 0 then REG_TYPE_X else REG_TYPE_W)\<rparr>
           in if rn' = rm'
              then (True, result\<lparr>mnemonic := SAFE_STRCPY ''ror'', type := INST_TYPE_ROR\<rparr>)
              else (True, result\<lparr>mnemonic := SAFE_STRCPY ''extr'', type := INST_TYPE_EXTR\<rparr>)))"

definition data_proc_imm_decode_table :: "decode_entry_t list" where
  "data_proc_imm_decode_table =
     [DECODE_ENTRY 0x1F000000 0x10000000 decode_pc_rel_addr ''decode_pc_rel_addr'',
      DECODE_ENTRY 0x1F000000 0x11000000 decode_add_sub_imm ''decode_add_sub_imm'',
      DECODE_ENTRY 0x1F800000 0x12000000 decode_logical_imm ''decode_logical_imm'',
      DECODE_ENTRY 0x1F800000 0x12800000 decode_move_wide_imm ''decode_move_wide_imm'',
      DECODE_ENTRY 0x1F800000 0x13000000 decode_bitfield ''decode_bitfield'',
      DECODE_ENTRY 0x7FA00000 0x13800000 decode_extract ''decode_extract'']"

definition decode_data_proc_imm :: decode_func_t where
  "decode_data_proc_imm inst addr result =
     decode_with_table data_proc_imm_decode_table inst addr result"

section \<open>Data-processing (register) decoders\<close>

definition decode_add_sub_shifted_reg :: decode_func_t where
  "decode_add_sub_shifted_reg inst addr result =
     (let sf = (ucast (BIT inst 31) :: 8 word);
          op = (ucast (BIT inst 30) :: 8 word);
          S = (ucast (BIT inst 29) :: 8 word);
          shift = (ucast (BITS inst 22 23) :: 8 word);
          rm' = (ucast (BITS inst 16 20) :: 8 word);
          imm6 = (ucast (BITS inst 10 15) :: 8 word);
          rn' = (ucast (BITS inst 5 9) :: 8 word);
          rd' = (ucast (BITS inst 0 4) :: 8 word);
          result = result\<lparr>rd := rd', rn := rn', rm := rm', shift_amount := imm6,
                          has_imm := False, is_64bit := (sf \<noteq> 0), set_flags := (S \<noteq> 0),
                          rd_type := (if sf \<noteq> 0 then REG_TYPE_X else REG_TYPE_W),
                          rn_type := (if sf \<noteq> 0 then REG_TYPE_X else REG_TYPE_W),
                          rm_type := (if sf \<noteq> 0 then REG_TYPE_X else REG_TYPE_W)\<rparr>
      in if shift \<noteq> 0 \<and> shift \<noteq> 1 \<and> shift \<noteq> 2 then (False, result)
         else
          (let result = result\<lparr>extend_type :=
                            (if shift = 0 then EXTEND_LSL
                             else if shift = 1 then EXTEND_LSL + 1 else EXTEND_LSL + 2)\<rparr>;
               result =
                 (if op = 0
                  then result\<lparr>mnemonic := SAFE_STRCPY (if S \<noteq> 0 then ''adds'' else ''add''),
                              type := (if S \<noteq> 0 then INST_TYPE_ADDS else INST_TYPE_ADD)\<rparr>
                  else result\<lparr>mnemonic := SAFE_STRCPY (if S \<noteq> 0 then ''subs'' else ''sub''),
                              type := (if S \<noteq> 0 then INST_TYPE_SUBS else INST_TYPE_SUB)\<rparr>);
               result =
                 (if S \<noteq> 0 \<and> rd' = 31
                  then result\<lparr>mnemonic := SAFE_STRCPY (if op = 1 then ''cmp'' else ''cmn''),
                              type := (if op = 1 then INST_TYPE_CMP else INST_TYPE_CMN),
                              rd_type := (if sf \<noteq> 0 then REG_TYPE_X else REG_TYPE_W)\<rparr>
                  else result);
               result =
                 (if op = 1 \<and> rn' = 31 \<and> S = 0
                  then result\<lparr>mnemonic := SAFE_STRCPY ''neg'',
                              rn_type := (if sf \<noteq> 0 then REG_TYPE_X else REG_TYPE_W)\<rparr>
                  else result);
               result =
                 (if S = 0 \<and> \<not> (op = 1 \<and> rn' = 31 \<and> rd' \<noteq> 31) then
                    (let result = (if rn' = 31 then result\<lparr>rn_type := REG_TYPE_SP\<rparr> else result)
                     in if rd' = 31 then result\<lparr>rd_type := REG_TYPE_SP\<rparr> else result)
                  else result)
           in (True, result)))"

definition decode_logical_shifted_reg :: decode_func_t where
  "decode_logical_shifted_reg inst addr result =
     (let sf = (ucast (BIT inst 31) :: 8 word);
          opc = (ucast (BITS inst 29 30) :: 8 word);
          shift = (ucast (BITS inst 22 23) :: 8 word);
          N = (ucast (BIT inst 21) :: 8 word);
          rm' = (ucast (BITS inst 16 20) :: 8 word);
          imm6 = (ucast (BITS inst 10 15) :: 8 word);
          rn' = (ucast (BITS inst 5 9) :: 8 word);
          rd' = (ucast (BITS inst 0 4) :: 8 word);
          result = result\<lparr>rd := rd', rn := rn', rm := rm', shift_amount := imm6,
                          has_imm := False, is_64bit := (sf \<noteq> 0),
                          rd_type := (if sf \<noteq> 0 then REG_TYPE_X else REG_TYPE_W),
                          rn_type := (if sf \<noteq> 0 then REG_TYPE_X else REG_TYPE_W),
                          rm_type := (if sf \<noteq> 0 then REG_TYPE_X else REG_TYPE_W),
                          extend_type := EXTEND_LSL + unat shift\<rparr>;
          op_code = (push_bit 1 opc OR N :: 8 word)
      in if op_code = 0 then (True, result\<lparr>mnemonic := SAFE_STRCPY ''and'', type := INST_TYPE_AND\<rparr>)
         else if op_code = 1 then (True, result\<lparr>mnemonic := SAFE_STRCPY ''bic'', type := INST_TYPE_AND\<rparr>)
         else if op_code = 2 then
           (let result = result\<lparr>mnemonic := SAFE_STRCPY ''orr'', type := INST_TYPE_ORR\<rparr>
            in (True, if rn' = 31 \<and> imm6 = 0 \<and> shift = 0
                      then result\<lparr>mnemonic := SAFE_STRCPY ''mov'', type := INST_TYPE_MOV\<rparr>
                      else result))
         else if op_code = 3 then
           (let result = result\<lparr>mnemonic := SAFE_STRCPY ''orn'', type := INST_TYPE_ORR\<rparr>
            in (True, if rn' = 31 then result\<lparr>mnemonic := SAFE_STRCPY ''mvn''\<rparr> else result))
         else if op_code = 4 then (True, result\<lparr>mnemonic := SAFE_STRCPY ''eor'', type := INST_TYPE_EOR\<rparr>)
         else if op_code = 5 then (True, result\<lparr>mnemonic := SAFE_STRCPY ''eon'', type := INST_TYPE_EOR\<rparr>)
         else if op_code = 6 then
           (let result = result\<lparr>mnemonic := SAFE_STRCPY ''ands'', type := INST_TYPE_AND,
                                set_flags := True\<rparr>
            in (True, if rd' = 31 then result\<lparr>mnemonic := SAFE_STRCPY ''tst''\<rparr> else result))
         else if op_code = 7 then
           (True, result\<lparr>mnemonic := SAFE_STRCPY ''bics'', type := INST_TYPE_AND, set_flags := True\<rparr>)
         else (False, result))"

definition decode_data_proc_2src :: decode_func_t where
  "decode_data_proc_2src inst addr result =
     (let sf = (ucast (BIT inst 31) :: 8 word);
          S = (ucast (BIT inst 29) :: 8 word);
          rm' = (ucast (BITS inst 16 20) :: 8 word);
          opcode = (ucast (BITS inst 10 15) :: 8 word);
          rn' = (ucast (BITS inst 5 9) :: 8 word);
          rd' = (ucast (BITS inst 0 4) :: 8 word)
      in if S \<noteq> 0 then (False, result)
         else
          (let result = result\<lparr>rd := rd', rn := rn', rm := rm', has_imm := False,
                               is_64bit := (sf \<noteq> 0),
                               rd_type := (if sf \<noteq> 0 then REG_TYPE_X else REG_TYPE_W),
                               rn_type := (if sf \<noteq> 0 then REG_TYPE_X else REG_TYPE_W),
                               rm_type := (if sf \<noteq> 0 then REG_TYPE_X else REG_TYPE_W)\<rparr>
           in if opcode = 0x02 then (True, result\<lparr>mnemonic := SAFE_STRCPY ''udiv'', type := INST_TYPE_UDIV\<rparr>)
              else if opcode = 0x03 then (True, result\<lparr>mnemonic := SAFE_STRCPY ''sdiv'', type := INST_TYPE_SDIV\<rparr>)
              else if opcode = 0x08 then (True, result\<lparr>mnemonic := SAFE_STRCPY ''lsl'', type := INST_TYPE_LSL\<rparr>)
              else if opcode = 0x09 then (True, result\<lparr>mnemonic := SAFE_STRCPY ''lsr'', type := INST_TYPE_LSR\<rparr>)
              else if opcode = 0x0A then (True, result\<lparr>mnemonic := SAFE_STRCPY ''asr'', type := INST_TYPE_ASR\<rparr>)
              else if opcode = 0x0B then (True, result\<lparr>mnemonic := SAFE_STRCPY ''ror'', type := INST_TYPE_ASR + 1\<rparr>)
              else (False, result)))"

definition decode_data_proc_3src :: decode_func_t where
  "decode_data_proc_3src inst addr result =
     (let sf = (ucast (BIT inst 31) :: 8 word);
          op54 = (ucast (BITS inst 29 30) :: 8 word);
          op31 = (ucast (BITS inst 21 23) :: 8 word);
          rm' = (ucast (BITS inst 16 20) :: 8 word);
          o0 = (ucast (BIT inst 15) :: 8 word);
          ra' = (ucast (BITS inst 10 14) :: 8 word);
          rn' = (ucast (BITS inst 5 9) :: 8 word);
          rd' = (ucast (BITS inst 0 4) :: 8 word)
      in if op54 \<noteq> 0 then (False, result)
         else
          (let result = result\<lparr>rd := rd', rn := rn', rm := rm', ra := ra', has_imm := False,
                               is_64bit := (sf \<noteq> 0),
                               rd_type := (if sf \<noteq> 0 then REG_TYPE_X else REG_TYPE_W),
                               rn_type := (if sf \<noteq> 0 then REG_TYPE_X else REG_TYPE_W),
                               rm_type := (if sf \<noteq> 0 then REG_TYPE_X else REG_TYPE_W)\<rparr>;
               opcode = (push_bit 1 op31 OR o0 :: 8 word)
           in if opcode = 0 then
                (if ra' = 31
                 then (True, result\<lparr>mnemonic := SAFE_STRCPY ''mul'', type := INST_TYPE_MUL\<rparr>)
                 else (True, result\<lparr>mnemonic := SAFE_STRCPY ''madd'', type := INST_TYPE_MADD\<rparr>))
              else if opcode = 1 then
                (if ra' = 31
                 then (True, result\<lparr>mnemonic := SAFE_STRCPY ''mneg'', type := INST_TYPE_MSUB\<rparr>)
                 else (True, result\<lparr>mnemonic := SAFE_STRCPY ''msub'', type := INST_TYPE_MSUB\<rparr>))
              else (False, result)))"

definition decode_cond_select :: decode_func_t where
  "decode_cond_select inst addr result =
     (let sf = (ucast (BIT inst 31) :: 8 word);
          op = (ucast (BIT inst 30) :: 8 word);
          S = (ucast (BIT inst 29) :: 8 word);
          rm' = (ucast (BITS inst 16 20) :: 8 word);
          cond' = (ucast (BITS inst 12 15) :: 8 word);
          op2 = (ucast (BITS inst 10 11) :: 8 word);
          rn' = (ucast (BITS inst 5 9) :: 8 word);
          rd' = (ucast (BITS inst 0 4) :: 8 word)
      in if S \<noteq> 0 then (False, result)
         else if op2 > 1 then (False, result)
         else
          (let result = result\<lparr>rd := rd', rn := rn', rm := rm', cond := cond', has_imm := False,
                               is_64bit := (sf \<noteq> 0),
                               rd_type := (if sf \<noteq> 0 then REG_TYPE_X else REG_TYPE_W),
                               rn_type := (if sf \<noteq> 0 then REG_TYPE_X else REG_TYPE_W),
                               rm_type := (if sf \<noteq> 0 then REG_TYPE_X else REG_TYPE_W)\<rparr>;
               opcode = (push_bit 1 op OR op2 :: 8 word)
           in if opcode = 0 then
                (True, result\<lparr>mnemonic := SAFE_STRCPY ''csel'', type := INST_TYPE_CSEL\<rparr>)
              else if opcode = 1 then
                (if rm' = 31 \<and> rn' = 31
                 then (True, result\<lparr>mnemonic := SAFE_STRCPY ''cset'', type := INST_TYPE_CSET,
                                     cond := cond' XOR 1\<rparr>)
                 else if rm' = rn' \<and> cond' \<noteq> 14 \<and> cond' \<noteq> 15
                 then (True, result\<lparr>mnemonic := SAFE_STRCPY ''cinc'', type := INST_TYPE_CINC,
                                     cond := cond' XOR 1\<rparr>)
                 else (True, result\<lparr>mnemonic := SAFE_STRCPY ''csinc'', type := INST_TYPE_CSINC\<rparr>))
              else if opcode = 2 then
                (if rm' = 31 \<and> rn' = 31
                 then (True, result\<lparr>mnemonic := SAFE_STRCPY ''csetm'', type := INST_TYPE_CSETM,
                                     cond := cond' XOR 1\<rparr>)
                 else if rm' = rn' \<and> cond' \<noteq> 14 \<and> cond' \<noteq> 15
                 then (True, result\<lparr>mnemonic := SAFE_STRCPY ''cinv'', type := INST_TYPE_CINV,
                                     cond := cond' XOR 1\<rparr>)
                 else (True, result\<lparr>mnemonic := SAFE_STRCPY ''csinv'', type := INST_TYPE_CSINV\<rparr>))
              else if opcode = 3 then
                (if rm' = rn' \<and> cond' \<noteq> 14 \<and> cond' \<noteq> 15
                 then (True, result\<lparr>mnemonic := SAFE_STRCPY ''cneg'', type := INST_TYPE_CNEG,
                                     cond := cond' XOR 1\<rparr>)
                 else (True, result\<lparr>mnemonic := SAFE_STRCPY ''csneg'', type := INST_TYPE_CSNEG\<rparr>))
              else (False, result)))"

definition decode_data_proc_1src :: decode_func_t where
  "decode_data_proc_1src inst addr result =
     (let sf = (ucast (BIT inst 31) :: 8 word);
          S = (ucast (BIT inst 29) :: 8 word);
          opcode2 = (ucast (BITS inst 16 20) :: 8 word);
          opcode = (ucast (BITS inst 10 15) :: 8 word);
          rn' = (ucast (BITS inst 5 9) :: 8 word);
          rd' = (ucast (BITS inst 0 4) :: 8 word)
      in if S \<noteq> 0 \<or> opcode2 \<noteq> 0 then (False, result)
         else
          (let result = result\<lparr>rd := rd', rn := rn', has_imm := False, is_64bit := (sf \<noteq> 0),
                               rd_type := (if sf \<noteq> 0 then REG_TYPE_X else REG_TYPE_W),
                               rn_type := (if sf \<noteq> 0 then REG_TYPE_X else REG_TYPE_W)\<rparr>
           in if opcode = 0x00 then (True, result\<lparr>mnemonic := SAFE_STRCPY ''rbit'', type := INST_TYPE_RBIT\<rparr>)
              else if opcode = 0x01 then (True, result\<lparr>mnemonic := SAFE_STRCPY ''rev16'', type := INST_TYPE_REV16\<rparr>)
              else if opcode = 0x02 then
                (if sf \<noteq> 0
                 then (True, result\<lparr>mnemonic := SAFE_STRCPY ''rev32'', type := INST_TYPE_REV32\<rparr>)
                 else (True, result\<lparr>mnemonic := SAFE_STRCPY ''rev'', type := INST_TYPE_REV\<rparr>))
              else if opcode = 0x03 then
                (if sf = 0 then (False, result)
                 else (True, result\<lparr>mnemonic := SAFE_STRCPY ''rev'', type := INST_TYPE_REV\<rparr>))
              else if opcode = 0x04 then (True, result\<lparr>mnemonic := SAFE_STRCPY ''clz'', type := INST_TYPE_CLZ\<rparr>)
              else if opcode = 0x05 then (True, result\<lparr>mnemonic := SAFE_STRCPY ''cls'', type := INST_TYPE_CLS\<rparr>)
              else (False, result)))"

definition data_proc_reg_decode_table :: "decode_entry_t list" where
  "data_proc_reg_decode_table =
     [DECODE_ENTRY 0x1F000000 0x0A000000 decode_logical_shifted_reg ''decode_logical_shifted_reg'',
      DECODE_ENTRY 0x1F200000 0x0B000000 decode_add_sub_shifted_reg ''decode_add_sub_shifted_reg'',
      DECODE_ENTRY 0x1FE00000 0x1A800000 decode_cond_select ''decode_cond_select'',
      DECODE_ENTRY 0x5FE00000 0x5AC00000 decode_data_proc_1src ''decode_data_proc_1src'',
      DECODE_ENTRY 0x5FE00000 0x1AC00000 decode_data_proc_2src ''decode_data_proc_2src'',
      DECODE_ENTRY 0x1F000000 0x1B000000 decode_data_proc_3src ''decode_data_proc_3src'']"

definition decode_data_proc_reg :: decode_func_t where
  "decode_data_proc_reg inst addr result =
     decode_with_table data_proc_reg_decode_table inst addr result"

section \<open>Load/store decoders\<close>

record ls_info_t =
  ls_size_opc :: "8 word"
  ls_mnemonic :: string
  ls_type :: inst_type_t
  ls_reg_type :: reg_type_t
  ls_is_64bit :: bool

definition gpr_ls_info :: "ls_info_t list" where
  "gpr_ls_info =
     [\<lparr>ls_size_opc = 0x00, ls_mnemonic = ''strb'', ls_type = INST_TYPE_STRB, ls_reg_type = REG_TYPE_W, ls_is_64bit = False\<rparr>,
      \<lparr>ls_size_opc = 0x01, ls_mnemonic = ''ldrb'', ls_type = INST_TYPE_LDRB, ls_reg_type = REG_TYPE_W, ls_is_64bit = False\<rparr>,
      \<lparr>ls_size_opc = 0x02, ls_mnemonic = ''ldrsb'', ls_type = INST_TYPE_LDRSB, ls_reg_type = REG_TYPE_X, ls_is_64bit = True\<rparr>,
      \<lparr>ls_size_opc = 0x03, ls_mnemonic = ''ldrsb'', ls_type = INST_TYPE_LDRSB, ls_reg_type = REG_TYPE_W, ls_is_64bit = False\<rparr>,
      \<lparr>ls_size_opc = 0x04, ls_mnemonic = ''strh'', ls_type = INST_TYPE_STRH, ls_reg_type = REG_TYPE_W, ls_is_64bit = False\<rparr>,
      \<lparr>ls_size_opc = 0x05, ls_mnemonic = ''ldrh'', ls_type = INST_TYPE_LDRH, ls_reg_type = REG_TYPE_W, ls_is_64bit = False\<rparr>,
      \<lparr>ls_size_opc = 0x06, ls_mnemonic = ''ldrsh'', ls_type = INST_TYPE_LDRSH, ls_reg_type = REG_TYPE_X, ls_is_64bit = True\<rparr>,
      \<lparr>ls_size_opc = 0x07, ls_mnemonic = ''ldrsh'', ls_type = INST_TYPE_LDRSH, ls_reg_type = REG_TYPE_W, ls_is_64bit = False\<rparr>,
      \<lparr>ls_size_opc = 0x08, ls_mnemonic = ''str'', ls_type = INST_TYPE_STR, ls_reg_type = REG_TYPE_W, ls_is_64bit = False\<rparr>,
      \<lparr>ls_size_opc = 0x09, ls_mnemonic = ''ldr'', ls_type = INST_TYPE_LDR, ls_reg_type = REG_TYPE_W, ls_is_64bit = False\<rparr>,
      \<lparr>ls_size_opc = 0x0A, ls_mnemonic = ''ldrsw'', ls_type = INST_TYPE_LDRSW, ls_reg_type = REG_TYPE_X, ls_is_64bit = True\<rparr>,
      \<lparr>ls_size_opc = 0x0C, ls_mnemonic = ''str'', ls_type = INST_TYPE_STR, ls_reg_type = REG_TYPE_X, ls_is_64bit = True\<rparr>,
      \<lparr>ls_size_opc = 0x0D, ls_mnemonic = ''ldr'', ls_type = INST_TYPE_LDR, ls_reg_type = REG_TYPE_X, ls_is_64bit = True\<rparr>]"

definition find_gpr_ls_info :: "8 word \<Rightarrow> ls_info_t option" where
  "find_gpr_ls_info size_opc = find (\<lambda>i. ls_size_opc i = size_opc) gpr_ls_info"

definition simd_types :: "reg_type_t list" where
  "simd_types = [REG_TYPE_B, REG_TYPE_H, REG_TYPE_S, REG_TYPE_D]"

definition decode_ls_unsigned_imm :: decode_func_t where
  "decode_ls_unsigned_imm inst addr result =
     (let size' = (ucast (BITS inst 30 31) :: 8 word);
          V = (ucast (BIT inst 26) :: 8 word);
          opc = (ucast (BITS inst 22 23) :: 8 word);
          imm12 = (ucast (BITS inst 10 21) :: 16 word);
          rn' = (ucast (BITS inst 5 9) :: 8 word);
          rt = (ucast (BITS inst 0 4) :: 8 word);
          result = result\<lparr>rn := rn', rd := rt,
                          rn_type := (if rn' = 31 then REG_TYPE_SP else REG_TYPE_X),
                          addr_mode := ADDR_MODE_IMM_UNSIGNED, has_imm := True\<rparr>
      in if V = 0 then
           (let size_opc = (push_bit 2 size' OR opc :: 8 word)
            in case find_gpr_ls_info size_opc of
                 None \<Rightarrow> (False, result)
               | Some info \<Rightarrow>
                   (True, result\<lparr>imm := push_bit (unat size') (ucast imm12),
                                  mnemonic := SAFE_STRCPY (ls_mnemonic info), type := ls_type info,
                                  rd_type := ls_reg_type info, is_64bit := ls_is_64bit info\<rparr>))
         else
           (let result = result\<lparr>imm := push_bit (unat size') (ucast imm12)\<rparr>
            in if size' > 3 then (False, result)
               else
                (let result = result\<lparr>rd_type := simd_types ! unat size'\<rparr>
                 in if opc = 0 then (True, result\<lparr>mnemonic := SAFE_STRCPY ''str'', type := INST_TYPE_STR\<rparr>)
                    else if opc = 1 then (True, result\<lparr>mnemonic := SAFE_STRCPY ''ldr'', type := INST_TYPE_LDR\<rparr>)
                    else (False, result))))"

definition decode_ls_reg_offset :: decode_func_t where
  "decode_ls_reg_offset inst addr result =
     (let size' = (ucast (BITS inst 30 31) :: 8 word);
          V = (ucast (BIT inst 26) :: 8 word);
          opc = (ucast (BITS inst 22 23) :: 8 word);
          rm' = (ucast (BITS inst 16 20) :: 8 word);
          option' = (ucast (BITS inst 13 15) :: 8 word);
          S = (ucast (BIT inst 12) :: 8 word);
          rn' = (ucast (BITS inst 5 9) :: 8 word);
          rt = (ucast (BITS inst 0 4) :: 8 word);
          result = result\<lparr>rn := rn', rd := rt, rm := rm',
                          rn_type := (if rn' = 31 then REG_TYPE_SP else REG_TYPE_X),
                          has_imm := False,
                          extend_type := unat option',
                          shift_amount := (if S \<noteq> 0 then size' else 0),
                          rm_type := (if unat option' = EXTEND_UXTX \<or> unat option' = EXTEND_SXTX
                                      then REG_TYPE_X else REG_TYPE_W),
                          addr_mode := (if unat option' = EXTEND_LSL \<or> unat option' = EXTEND_UXTX
                                        then ADDR_MODE_REG_OFFSET else ADDR_MODE_REG_EXTEND)\<rparr>
      in if V = 0 then
           (let size_opc = (push_bit 2 size' OR opc :: 8 word)
            in case find_gpr_ls_info size_opc of
                 None \<Rightarrow> (False, result)
               | Some info \<Rightarrow>
                   (True, result\<lparr>mnemonic := SAFE_STRCPY (ls_mnemonic info), type := ls_type info,
                                  rd_type := ls_reg_type info, is_64bit := ls_is_64bit info\<rparr>))
         else if size' > 3 then (False, result)
         else
           (let result = result\<lparr>rd_type := simd_types ! unat size'\<rparr>
            in if opc = 0 then (True, result\<lparr>mnemonic := SAFE_STRCPY ''str'', type := INST_TYPE_STR\<rparr>)
               else if opc = 1 then (True, result\<lparr>mnemonic := SAFE_STRCPY ''ldr'', type := INST_TYPE_LDR\<rparr>)
               else (False, result)))"

record unscaled_info_t =
  us_size_opc :: "8 word"
  us_base_name :: string
  us_unscaled_name :: string
  us_type :: inst_type_t
  us_reg_type :: reg_type_t
  us_is_64bit :: bool

definition unscaled_info :: "unscaled_info_t list" where
  "unscaled_info =
     [\<lparr>us_size_opc = 0x00, us_base_name = ''strb'', us_unscaled_name = ''sturb'', us_type = INST_TYPE_STRB, us_reg_type = REG_TYPE_W, us_is_64bit = False\<rparr>,
      \<lparr>us_size_opc = 0x01, us_base_name = ''ldrb'', us_unscaled_name = ''ldurb'', us_type = INST_TYPE_LDRB, us_reg_type = REG_TYPE_W, us_is_64bit = False\<rparr>,
      \<lparr>us_size_opc = 0x02, us_base_name = ''ldrsb'', us_unscaled_name = ''ldursb'', us_type = INST_TYPE_LDRSB, us_reg_type = REG_TYPE_X, us_is_64bit = True\<rparr>,
      \<lparr>us_size_opc = 0x03, us_base_name = ''ldrsb'', us_unscaled_name = ''ldursb'', us_type = INST_TYPE_LDRSB, us_reg_type = REG_TYPE_W, us_is_64bit = False\<rparr>,
      \<lparr>us_size_opc = 0x04, us_base_name = ''strh'', us_unscaled_name = ''sturh'', us_type = INST_TYPE_STRH, us_reg_type = REG_TYPE_W, us_is_64bit = False\<rparr>,
      \<lparr>us_size_opc = 0x05, us_base_name = ''ldrh'', us_unscaled_name = ''ldurh'', us_type = INST_TYPE_LDRH, us_reg_type = REG_TYPE_W, us_is_64bit = False\<rparr>,
      \<lparr>us_size_opc = 0x06, us_base_name = ''ldrsh'', us_unscaled_name = ''ldursh'', us_type = INST_TYPE_LDRSH, us_reg_type = REG_TYPE_X, us_is_64bit = True\<rparr>,
      \<lparr>us_size_opc = 0x07, us_base_name = ''ldrsh'', us_unscaled_name = ''ldursh'', us_type = INST_TYPE_LDRSH, us_reg_type = REG_TYPE_W, us_is_64bit = False\<rparr>,
      \<lparr>us_size_opc = 0x08, us_base_name = ''str'', us_unscaled_name = ''stur'', us_type = INST_TYPE_STR, us_reg_type = REG_TYPE_W, us_is_64bit = False\<rparr>,
      \<lparr>us_size_opc = 0x09, us_base_name = ''ldr'', us_unscaled_name = ''ldur'', us_type = INST_TYPE_LDR, us_reg_type = REG_TYPE_W, us_is_64bit = False\<rparr>,
      \<lparr>us_size_opc = 0x0A, us_base_name = ''ldrsw'', us_unscaled_name = ''ldursw'', us_type = INST_TYPE_LDRSW, us_reg_type = REG_TYPE_X, us_is_64bit = True\<rparr>,
      \<lparr>us_size_opc = 0x0C, us_base_name = ''str'', us_unscaled_name = ''stur'', us_type = INST_TYPE_STR, us_reg_type = REG_TYPE_X, us_is_64bit = True\<rparr>,
      \<lparr>us_size_opc = 0x0D, us_base_name = ''ldr'', us_unscaled_name = ''ldur'', us_type = INST_TYPE_LDR, us_reg_type = REG_TYPE_X, us_is_64bit = True\<rparr>]"

definition decode_ls_unscaled_imm :: decode_func_t where
  "decode_ls_unscaled_imm inst addr result =
     (let size' = (ucast (BITS inst 30 31) :: 8 word);
          V = (ucast (BIT inst 26) :: 8 word);
          opc = (ucast (BITS inst 22 23) :: 8 word);
          imm9 = (ucast (BITS inst 12 20) :: 16 word);
          idx = (ucast (BITS inst 10 11) :: 8 word);
          rn' = (ucast (BITS inst 5 9) :: 8 word);
          rt = (ucast (BITS inst 0 4) :: 8 word);
          result = result\<lparr>imm := SIGN_EXTEND (scast imm9) 9, rn := rn', rd := rt,
                          rn_type := (if rn' = 31 then REG_TYPE_SP else REG_TYPE_X),
                          has_imm := True\<rparr>
      in if idx = 2 then (False, result)
         else
          (let result = (if idx = 0 then result\<lparr>addr_mode := ADDR_MODE_IMM_SIGNED\<rparr>
                         else if idx = 1 then result\<lparr>addr_mode := ADDR_MODE_POST_INDEX\<rparr>
                         else if idx = 3 then result\<lparr>addr_mode := ADDR_MODE_PRE_INDEX\<rparr>
                         else result)
           in if V = 0 then
                (let size_opc = (push_bit 2 size' OR opc :: 8 word)
                 in case find (\<lambda>i. us_size_opc i = size_opc) unscaled_info of
                      None \<Rightarrow> (False, result)
                    | Some info \<Rightarrow>
                        (True, result\<lparr>mnemonic := SAFE_STRCPY (if idx = 0 then us_unscaled_name info
                                                                 else us_base_name info),
                                       type := us_type info, rd_type := us_reg_type info,
                                       is_64bit := us_is_64bit info\<rparr>))
              else if size' > 3 then (False, result)
              else
                (let result = result\<lparr>rd_type := simd_types ! unat size'\<rparr>
                 in if opc = 0
                    then (True, result\<lparr>mnemonic := SAFE_STRCPY (if idx = 0 then ''stur'' else ''str''),
                                        type := INST_TYPE_STR\<rparr>)
                    else if opc = 1
                    then (True, result\<lparr>mnemonic := SAFE_STRCPY (if idx = 0 then ''ldur'' else ''ldr''),
                                        type := INST_TYPE_LDR\<rparr>)
                    else (False, result))))"

text \<open>The SIMD pair table: the scale shift and the register view for \<open>opc\<close> 0, 1, 2.\<close>

definition simd_pair_info :: "(nat \<times> reg_type_t) list" where
  "simd_pair_info = [(2, REG_TYPE_S), (3, REG_TYPE_D), (4, REG_TYPE_Q)]"

definition decode_ls_pair :: decode_func_t where
  "decode_ls_pair inst addr result =
     (let opc = (ucast (BITS inst 30 31) :: 8 word);
          V = (ucast (BIT inst 26) :: 8 word);
          idx = (ucast (BITS inst 23 24) :: 8 word);
          L = (ucast (BIT inst 22) :: 8 word);
          imm7 = (ucast (BITS inst 15 21) :: 8 word);
          rt2' = (ucast (BITS inst 10 14) :: 8 word);
          rn' = (ucast (BITS inst 5 9) :: 8 word);
          rt = (ucast (BITS inst 0 4) :: 8 word);
          result = result\<lparr>rd := rt, rt2 := rt2', rn := rn',
                          rn_type := (if rn' = 31 then REG_TYPE_SP else REG_TYPE_X),
                          has_imm := True\<rparr>
      in if idx \<noteq> 1 \<and> idx \<noteq> 2 \<and> idx \<noteq> 3 then (False, result)
         else
          (let result = result\<lparr>addr_mode :=
                            (if idx = 1 then ADDR_MODE_POST_INDEX
                             else if idx = 2 then ADDR_MODE_IMM_SIGNED else ADDR_MODE_PRE_INDEX)\<rparr>
           in if V = 0 then
                (if opc = 0x00 then
                   (True, result\<lparr>imm := push_bit 2 (SIGN_EXTEND (scast imm7) 7), rd_type := REG_TYPE_W,
                                  mnemonic := SAFE_STRCPY (if L \<noteq> 0 then ''ldp'' else ''stp''),
                                  type := (if L \<noteq> 0 then INST_TYPE_LDP else INST_TYPE_STP)\<rparr>)
                 else if opc = 0x01 then
                   (if L = 0 then (False, result)
                    else (True, result\<lparr>imm := push_bit 2 (SIGN_EXTEND (scast imm7) 7),
                                        rd_type := REG_TYPE_X, is_64bit := True,
                                        mnemonic := SAFE_STRCPY ''ldpsw'', type := INST_TYPE_LDP\<rparr>))
                 else if opc = 0x02 then
                   (True, result\<lparr>imm := push_bit 3 (SIGN_EXTEND (scast imm7) 7),
                                  rd_type := REG_TYPE_X, is_64bit := True,
                                  mnemonic := SAFE_STRCPY (if L \<noteq> 0 then ''ldp'' else ''stp''),
                                  type := (if L \<noteq> 0 then INST_TYPE_LDP else INST_TYPE_STP)\<rparr>)
                 else (False, result))
              else if opc > 2 then (False, result)
              else
                (True, result\<lparr>imm := push_bit (fst (simd_pair_info ! unat opc))
                                              (SIGN_EXTEND (scast imm7) 7),
                               rd_type := snd (simd_pair_info ! unat opc),
                               mnemonic := SAFE_STRCPY (if L \<noteq> 0 then ''ldp'' else ''stp''),
                               type := (if L \<noteq> 0 then INST_TYPE_LDP else INST_TYPE_STP)\<rparr>)))"

text \<open>The literal tables: register view, width flag and name for \<open>opc\<close> 0, 1, 2.\<close>

definition gpr_literal :: "(reg_type_t \<times> bool \<times> string) list" where
  "gpr_literal = [(REG_TYPE_W, False, ''ldr''), (REG_TYPE_X, True, ''ldr''), (REG_TYPE_X, True, ''ldrsw'')]"

definition simd_literal :: "reg_type_t list" where
  "simd_literal = [REG_TYPE_S, REG_TYPE_D, REG_TYPE_Q]"

definition decode_load_literal :: decode_func_t where
  "decode_load_literal inst addr result =
     (let opc = (ucast (BITS inst 30 31) :: 8 word);
          V = (ucast (BIT inst 26) :: 8 word);
          imm19 = (ucast (BITS inst 5 23) :: 32 word);
          rt = (ucast (BITS inst 0 4) :: 8 word);
          result = result\<lparr>imm := push_bit 2 (SIGN_EXTEND (scast imm19) 19), rd := rt,
                          has_imm := True, addr_mode := ADDR_MODE_LITERAL,
                          mnemonic := SAFE_STRCPY ''ldr'', type := INST_TYPE_LDR\<rparr>
      in if V = 0 then
           (if opc > 2 then (False, result)
            else
             (let result = result\<lparr>rd_type := fst (gpr_literal ! unat opc),
                                  is_64bit := fst (snd (gpr_literal ! unat opc)),
                                  mnemonic := SAFE_STRCPY (snd (snd (gpr_literal ! unat opc)))\<rparr>
              in (True, if opc = 2 then result\<lparr>type := INST_TYPE_LDRSW\<rparr> else result)))
         else if opc > 2 then (False, result)
         else (True, result\<lparr>rd_type := simd_literal ! unat opc\<rparr>))"

text \<open>Appending one character to the mnemonic, when the 16-byte buffer has room for it.\<close>

definition append_suffix :: "string \<Rightarrow> char \<Rightarrow> string" where
  "append_suffix m c = (if length m < 15 then m @ [c] else m)"

definition decode_load_store_exclusive :: decode_func_t where
  "decode_load_store_exclusive inst addr result =
     (let size' = (ucast (BITS inst 30 31) :: 8 word);
          o2 = (ucast (BIT inst 23) :: 8 word);
          L = (ucast (BIT inst 22) :: 8 word);
          o1 = (ucast (BIT inst 21) :: 8 word);
          rs = (ucast (BITS inst 16 20) :: 8 word);
          o0 = (ucast (BIT inst 15) :: 8 word);
          rt2' = (ucast (BITS inst 10 14) :: 8 word);
          rn' = (ucast (BITS inst 5 9) :: 8 word);
          rt = (ucast (BITS inst 0 4) :: 8 word);
          result = result\<lparr>rd := rt, rn := rn', rm := rs, rt2 := rt2',
                          rn_type := (if rn' = 31 then REG_TYPE_SP else REG_TYPE_X),
                          has_imm := False, addr_mode := ADDR_MODE_IMM_UNSIGNED,
                          is_64bit := (size' = 3),
                          rd_type := (if size' = 3 then REG_TYPE_X else REG_TYPE_W),
                          rm_type := REG_TYPE_W,
                          is_acquire := (o0 \<noteq> 0), is_release := (o1 \<noteq> 0)\<rparr>;
          result =
            (if o2 = 0 then
               (if L = 1 then
                  (if o1 = 0 \<and> o0 = 0 then result\<lparr>mnemonic := SAFE_STRCPY ''ldxr'', type := INST_TYPE_LDXR\<rparr>
                   else if o1 = 0 \<and> o0 = 1 then result\<lparr>mnemonic := SAFE_STRCPY ''ldaxr'', type := INST_TYPE_LDAXR\<rparr>
                   else if o1 = 1 \<and> o0 = 0 then result\<lparr>mnemonic := SAFE_STRCPY ''ldxp'', type := INST_TYPE_LDXR\<rparr>
                   else result\<lparr>mnemonic := SAFE_STRCPY ''ldaxp'', type := INST_TYPE_LDAXR\<rparr>)
                else
                  (if o1 = 0 \<and> o0 = 0 then result\<lparr>mnemonic := SAFE_STRCPY ''stxr'', type := INST_TYPE_STXR\<rparr>
                   else if o1 = 0 \<and> o0 = 1 then result\<lparr>mnemonic := SAFE_STRCPY ''stlxr'', type := INST_TYPE_STLXR\<rparr>
                   else if o1 = 1 \<and> o0 = 0 then result\<lparr>mnemonic := SAFE_STRCPY ''stxp'', type := INST_TYPE_STXR\<rparr>
                   else result\<lparr>mnemonic := SAFE_STRCPY ''stlxp'', type := INST_TYPE_STLXR\<rparr>))
             else
               (if L = 1 then
                  (if o0 = 1 then result\<lparr>mnemonic := SAFE_STRCPY ''ldar'', type := INST_TYPE_LDAR\<rparr>
                   else result\<lparr>mnemonic := SAFE_STRCPY ''ldlar'', type := INST_TYPE_LDAR\<rparr>)
                else
                  (if o0 = 1 then result\<lparr>mnemonic := SAFE_STRCPY ''stlr'', type := INST_TYPE_STLR\<rparr>
                   else result\<lparr>mnemonic := SAFE_STRCPY ''stllr'', type := INST_TYPE_STLR\<rparr>)));
          result =
            (if size' = 0
             then result\<lparr>mnemonic := append_suffix (mnemonic result) CHR ''b'', rd_type := REG_TYPE_W\<rparr>
             else if size' = 1
             then result\<lparr>mnemonic := append_suffix (mnemonic result) CHR ''h'', rd_type := REG_TYPE_W\<rparr>
             else result)
      in (True, result))"

text \<open>The acquire/release suffix and the size suffix of the atomic mnemonics.\<close>

definition ar_suffix :: "bool \<Rightarrow> bool \<Rightarrow> string" where
  "ar_suffix a r = (if a \<and> r then ''al'' else if a then ''a'' else if r then ''l'' else [])"

definition size_suffix :: "8 word \<Rightarrow> string" where
  "size_suffix sz = (if sz = 0 then ''b'' else if sz = 1 then ''h'' else [])"

definition atomic_ops :: "(string \<times> inst_type_t) list" where
  "atomic_ops =
     [(''ldadd'', INST_TYPE_LDADD), (''ldclr'', INST_TYPE_LDCLR), (''ldeor'', INST_TYPE_LDEOR),
      (''ldset'', INST_TYPE_LDSET), (''ldsmax'', INST_TYPE_LDSMAX), (''ldsmin'', INST_TYPE_LDSMIN),
      (''ldumax'', INST_TYPE_LDUMAX), (''ldumin'', INST_TYPE_LDUMIN)]"

definition decode_atomic_memory_ops :: decode_func_t where
  "decode_atomic_memory_ops inst addr result =
     (let size' = (ucast (BITS inst 30 31) :: 8 word);
          V = (ucast (BIT inst 26) :: 8 word);
          A = (ucast (BIT inst 23) :: 8 word);
          R = (ucast (BIT inst 22) :: 8 word);
          rs = (ucast (BITS inst 16 20) :: 8 word);
          o3 = (ucast (BIT inst 15) :: 8 word);
          opc = (ucast (BITS inst 12 14) :: 8 word);
          rn' = (ucast (BITS inst 5 9) :: 8 word);
          rt = (ucast (BITS inst 0 4) :: 8 word)
      in if V \<noteq> 0 then (False, result)
         else
          (let result = result\<lparr>rd := rt, rn := rn', rm := rs,
                               rn_type := (if rn' = 31 then REG_TYPE_SP else REG_TYPE_X),
                               has_imm := False, addr_mode := ADDR_MODE_IMM_UNSIGNED,
                               is_acquire := (A \<noteq> 0), is_release := (R \<noteq> 0),
                               is_64bit := (size' = 3),
                               rd_type := (if size' = 3 then REG_TYPE_X else REG_TYPE_W),
                               rm_type := (if size' = 3 then REG_TYPE_X else REG_TYPE_W)\<rparr>;
               suffix = ar_suffix (A \<noteq> 0) (R \<noteq> 0);
               result = (if size' = 0 \<or> size' = 1
                         then result\<lparr>rd_type := REG_TYPE_W, rm_type := REG_TYPE_W\<rparr>
                         else result)
           in if o3 = 0
              then (True, result\<lparr>mnemonic := snprintf_mnemonic
                                    (fst (atomic_ops ! unat opc) @ suffix @ size_suffix size'),
                                  type := snd (atomic_ops ! unat opc)\<rparr>)
              else (True, result\<lparr>mnemonic := snprintf_mnemonic (''swp'' @ suffix @ size_suffix size'),
                                  type := INST_TYPE_SWP\<rparr>)))"

definition decode_cas :: decode_func_t where
  "decode_cas inst addr result =
     (let size' = (ucast (BITS inst 30 31) :: 8 word);
          o1 = (ucast (BIT inst 22) :: 8 word);
          rs = (ucast (BITS inst 16 20) :: 8 word);
          o0 = (ucast (BIT inst 15) :: 8 word);
          rn' = (ucast (BITS inst 5 9) :: 8 word);
          rt = (ucast (BITS inst 0 4) :: 8 word);
          result = result\<lparr>rd := rt, rn := rn', rm := rs,
                          rn_type := (if rn' = 31 then REG_TYPE_SP else REG_TYPE_X),
                          has_imm := False, addr_mode := ADDR_MODE_IMM_UNSIGNED,
                          is_acquire := (o0 \<noteq> 0), is_release := (o1 \<noteq> 0),
                          type := INST_TYPE_CAS,
                          is_64bit := (size' = 3),
                          rd_type := (if size' = 3 then REG_TYPE_X else REG_TYPE_W),
                          rm_type := (if size' = 3 then REG_TYPE_X else REG_TYPE_W)\<rparr>;
          suffix = ar_suffix (o0 \<noteq> 0) (o1 \<noteq> 0);
          result = (if size' = 0 \<or> size' = 1
                    then result\<lparr>rd_type := REG_TYPE_W, rm_type := REG_TYPE_W\<rparr>
                    else result)
      in (True, result\<lparr>mnemonic := snprintf_mnemonic (''cas'' @ suffix @ size_suffix size')\<rparr>))"

definition load_store_decode_table :: "decode_entry_t list" where
  "load_store_decode_table =
     [DECODE_ENTRY 0x3F000000 0x08000000 decode_load_store_exclusive ''decode_load_store_exclusive'',
      DECODE_ENTRY 0x3FA07C00 0x08A07C00 decode_cas ''decode_cas'',
      DECODE_ENTRY 0x3B200C00 0x38200000 decode_atomic_memory_ops ''decode_atomic_memory_ops'',
      DECODE_ENTRY 0x3A000000 0x28000000 decode_ls_pair ''decode_ls_pair'',
      DECODE_ENTRY 0x3B000000 0x18000000 decode_load_literal ''decode_load_literal'',
      DECODE_ENTRY 0x3B000000 0x39000000 decode_ls_unsigned_imm ''decode_ls_unsigned_imm'',
      DECODE_ENTRY 0x3B200C00 0x38200800 decode_ls_reg_offset ''decode_ls_reg_offset'',
      DECODE_ENTRY 0x3B200000 0x38000000 decode_ls_unscaled_imm ''decode_ls_unscaled_imm'']"

definition decode_load_store :: decode_func_t where
  "decode_load_store inst addr result =
     decode_with_table load_store_decode_table inst addr result"

section \<open>Floating-point and scalar SIMD decoders\<close>

definition get_fp_reg_type :: "8 word \<Rightarrow> reg_type_t" where
  "get_fp_reg_type ftype =
     (if ftype = 0 then REG_TYPE_S
      else if ftype = 1 then REG_TYPE_D
      else if ftype = 3 then REG_TYPE_H
      else REG_TYPE_S)"

definition fp_1src_ops :: "(8 word \<times> string \<times> inst_type_t) list" where
  "fp_1src_ops =
     [(0x00, ''fmov'', INST_TYPE_FMOV), (0x01, ''fabs'', INST_TYPE_FABS),
      (0x02, ''fneg'', INST_TYPE_FNEG), (0x03, ''fsqrt'', INST_TYPE_FSQRT),
      (0x04, ''fcvt'', INST_TYPE_FCVT), (0x05, ''fcvt'', INST_TYPE_FCVT),
      (0x07, ''fcvt'', INST_TYPE_FCVT), (0x08, ''frintn'', INST_TYPE_FRINT),
      (0x09, ''frintp'', INST_TYPE_FRINT), (0x0A, ''frintm'', INST_TYPE_FRINT),
      (0x0B, ''frintz'', INST_TYPE_FRINT), (0x0C, ''frinta'', INST_TYPE_FRINT),
      (0x0E, ''frintx'', INST_TYPE_FRINT), (0x0F, ''frinti'', INST_TYPE_FRINT)]"

definition decode_fp_data_proc_1src :: decode_func_t where
  "decode_fp_data_proc_1src inst addr result =
     (let M = (ucast (BIT inst 31) :: 8 word);
          S = (ucast (BIT inst 29) :: 8 word);
          ftype = (ucast (BITS inst 22 23) :: 8 word);
          opcode = (ucast (BITS inst 15 20) :: 8 word);
          rn' = (ucast (BITS inst 5 9) :: 8 word);
          rd' = (ucast (BITS inst 0 4) :: 8 word)
      in if M \<noteq> 0 \<or> S \<noteq> 0 then (False, result)
         else
          (let result = result\<lparr>rd := rd', rn := rn', has_imm := False,
                               rd_type := get_fp_reg_type ftype, rn_type := get_fp_reg_type ftype\<rparr>
           in case find (\<lambda>e. fst e = opcode) fp_1src_ops of
                None \<Rightarrow> (False, result)
              | Some e \<Rightarrow>
                  (let result = result\<lparr>mnemonic := SAFE_STRCPY (fst (snd e)), type := snd (snd e)\<rparr>
                   in (True,
                       if opcode \<ge> 0x04 \<and> opcode \<le> 0x07 then
                         (let opc = opcode AND 0x03
                          in if opc = 0 then result\<lparr>rd_type := REG_TYPE_S\<rparr>
                             else if opc = 1 then result\<lparr>rd_type := REG_TYPE_D\<rparr>
                             else if opc = 3 then result\<lparr>rd_type := REG_TYPE_H\<rparr>
                             else result)
                       else result))))"

definition fp_2src_ops :: "(8 word \<times> string \<times> inst_type_t) list" where
  "fp_2src_ops =
     [(0x00, ''fmul'', INST_TYPE_FMUL), (0x01, ''fdiv'', INST_TYPE_FDIV),
      (0x02, ''fadd'', INST_TYPE_FADD), (0x03, ''fsub'', INST_TYPE_FSUB),
      (0x04, ''fmax'', INST_TYPE_FMAX), (0x05, ''fmin'', INST_TYPE_FMIN),
      (0x06, ''fmaxnm'', INST_TYPE_FMAX), (0x07, ''fminnm'', INST_TYPE_FMIN),
      (0x08, ''fnmul'', INST_TYPE_FMUL)]"

definition decode_fp_data_proc_2src :: decode_func_t where
  "decode_fp_data_proc_2src inst addr result =
     (let M = (ucast (BIT inst 31) :: 8 word);
          S = (ucast (BIT inst 29) :: 8 word);
          ftype = (ucast (BITS inst 22 23) :: 8 word);
          rm' = (ucast (BITS inst 16 20) :: 8 word);
          opcode = (ucast (BITS inst 12 15) :: 8 word);
          rn' = (ucast (BITS inst 5 9) :: 8 word);
          rd' = (ucast (BITS inst 0 4) :: 8 word)
      in if M \<noteq> 0 \<or> S \<noteq> 0 then (False, result)
         else
          (let result = result\<lparr>rd := rd', rn := rn', rm := rm', has_imm := False,
                               rd_type := get_fp_reg_type ftype, rn_type := get_fp_reg_type ftype,
                               rm_type := get_fp_reg_type ftype\<rparr>
           in case find (\<lambda>e. fst e = opcode) fp_2src_ops of
                None \<Rightarrow> (False, result)
              | Some e \<Rightarrow>
                  (True, result\<lparr>mnemonic := SAFE_STRCPY (fst (snd e)), type := snd (snd e)\<rparr>)))"

definition fp_3src_ops :: "(string \<times> inst_type_t) list" where
  "fp_3src_ops =
     [(''fmadd'', INST_TYPE_FMADD), (''fmsub'', INST_TYPE_FMSUB),
      (''fnmadd'', INST_TYPE_FNMADD), (''fnmsub'', INST_TYPE_FNMSUB)]"

definition decode_fp_data_proc_3src :: decode_func_t where
  "decode_fp_data_proc_3src inst addr result =
     (let M = (ucast (BIT inst 31) :: 8 word);
          S = (ucast (BIT inst 29) :: 8 word);
          ftype = (ucast (BITS inst 22 23) :: 8 word);
          o1 = (ucast (BIT inst 21) :: 8 word);
          rm' = (ucast (BITS inst 16 20) :: 8 word);
          o0 = (ucast (BIT inst 15) :: 8 word);
          ra' = (ucast (BITS inst 10 14) :: 8 word);
          rn' = (ucast (BITS inst 5 9) :: 8 word);
          rd' = (ucast (BITS inst 0 4) :: 8 word)
      in if M \<noteq> 0 \<or> S \<noteq> 0 then (False, result)
         else
          (let result = result\<lparr>rd := rd', rn := rn', rm := rm', ra := ra', has_imm := False,
                               rd_type := get_fp_reg_type ftype, rn_type := get_fp_reg_type ftype,
                               rm_type := get_fp_reg_type ftype\<rparr>;
               op = (push_bit 1 o1 OR o0 :: 8 word)
           in if op < 4
              then (True, result\<lparr>mnemonic := SAFE_STRCPY (fst (fp_3src_ops ! unat op)),
                                  type := snd (fp_3src_ops ! unat op)\<rparr>)
              else (False, result)))"

definition decode_fp_compare :: decode_func_t where
  "decode_fp_compare inst addr result =
     (let M = (ucast (BIT inst 31) :: 8 word);
          S = (ucast (BIT inst 29) :: 8 word);
          ftype = (ucast (BITS inst 22 23) :: 8 word);
          rm' = (ucast (BITS inst 16 20) :: 8 word);
          op = (ucast (BITS inst 14 15) :: 8 word);
          rn' = (ucast (BITS inst 5 9) :: 8 word);
          opcode2 = (ucast (BITS inst 0 4) :: 8 word)
      in if M \<noteq> 0 \<or> S \<noteq> 0 then (False, result)
         else if op \<noteq> 0 then (False, result)
         else
          (let result = result\<lparr>rn := rn', rm := rm', has_imm := False,
                               rn_type := get_fp_reg_type ftype, rm_type := get_fp_reg_type ftype,
                               type := INST_TYPE_FCMP\<rparr>
           in if opcode2 = 0x00
              then (True, result\<lparr>mnemonic := SAFE_STRCPY ''fcmp'', type := INST_TYPE_FCMP\<rparr>)
              else if opcode2 = 0x08
              then (True, result\<lparr>mnemonic := SAFE_STRCPY ''fcmp'', type := INST_TYPE_FCMP,
                                  has_imm := True, imm := 0\<rparr>)
              else if opcode2 = 0x10
              then (True, result\<lparr>mnemonic := SAFE_STRCPY ''fcmpe'', type := INST_TYPE_FCMPE\<rparr>)
              else if opcode2 = 0x18
              then (True, result\<lparr>mnemonic := SAFE_STRCPY ''fcmpe'', type := INST_TYPE_FCMPE,
                                  has_imm := True, imm := 0\<rparr>)
              else (False, result)))"

definition decode_fp_cond_compare :: decode_func_t where
  "decode_fp_cond_compare inst addr result =
     (let M = (ucast (BIT inst 31) :: 8 word);
          S = (ucast (BIT inst 29) :: 8 word);
          ftype = (ucast (BITS inst 22 23) :: 8 word);
          rm' = (ucast (BITS inst 16 20) :: 8 word);
          cond' = (ucast (BITS inst 12 15) :: 8 word);
          rn' = (ucast (BITS inst 5 9) :: 8 word);
          op = (ucast (BIT inst 4) :: 8 word);
          nzcv = (ucast (BITS inst 0 3) :: 8 word)
      in if M \<noteq> 0 \<or> S \<noteq> 0 then (False, result)
         else
          (True, result\<lparr>rn := rn', rm := rm', cond := cond', imm := ucast nzcv, has_imm := True,
                         rn_type := get_fp_reg_type ftype, rm_type := get_fp_reg_type ftype,
                         type := INST_TYPE_FCCMP,
                         mnemonic := SAFE_STRCPY (if op \<noteq> 0 then ''fccmpe'' else ''fccmp'')\<rparr>))"

definition decode_fp_cond_select :: decode_func_t where
  "decode_fp_cond_select inst addr result =
     (let M = (ucast (BIT inst 31) :: 8 word);
          S = (ucast (BIT inst 29) :: 8 word);
          ftype = (ucast (BITS inst 22 23) :: 8 word);
          rm' = (ucast (BITS inst 16 20) :: 8 word);
          cond' = (ucast (BITS inst 12 15) :: 8 word);
          rn' = (ucast (BITS inst 5 9) :: 8 word);
          rd' = (ucast (BITS inst 0 4) :: 8 word)
      in if M \<noteq> 0 \<or> S \<noteq> 0 then (False, result)
         else
          (True, result\<lparr>rd := rd', rn := rn', rm := rm', cond := cond', has_imm := False,
                         rd_type := get_fp_reg_type ftype, rn_type := get_fp_reg_type ftype,
                         rm_type := get_fp_reg_type ftype, type := INST_TYPE_FCSEL,
                         mnemonic := SAFE_STRCPY ''fcsel''\<rparr>))"

text \<open>
  The \<open>switch (op)\<close> of \<open>decode_fp_int_conv\<close> as a table, in the order of its cases: the
  key \<open>(rmode << 3) | opcode\<close>, the name, whether the destination is the general-purpose
  register (the source being the FP register) or the other way round, and the kind.
\<close>

definition fp_int_conv_ops :: "(8 word \<times> string \<times> bool \<times> inst_type_t) list" where
  "fp_int_conv_ops =
     [(0x18, ''fcvtzs'', True, INST_TYPE_FCVTZS), (0x19, ''fcvtzu'', True, INST_TYPE_FCVTZU),
      (0x02, ''scvtf'', False, INST_TYPE_SCVTF), (0x03, ''ucvtf'', False, INST_TYPE_UCVTF),
      (0x06, ''fmov'', False, INST_TYPE_FMOV), (0x07, ''fmov'', True, INST_TYPE_FMOV),
      (0x00, ''fcvtns'', True, INST_TYPE_FCVTZS), (0x01, ''fcvtnu'', True, INST_TYPE_FCVTZU),
      (0x08, ''fcvtps'', True, INST_TYPE_FCVTZS), (0x09, ''fcvtpu'', True, INST_TYPE_FCVTZU),
      (0x10, ''fcvtms'', True, INST_TYPE_FCVTZS), (0x11, ''fcvtmu'', True, INST_TYPE_FCVTZU),
      (0x04, ''fcvtas'', True, INST_TYPE_FCVTZS), (0x05, ''fcvtau'', True, INST_TYPE_FCVTZU)]"

definition decode_fp_int_conv :: decode_func_t where
  "decode_fp_int_conv inst addr result =
     (let sf = (ucast (BIT inst 31) :: 8 word);
          S = (ucast (BIT inst 29) :: 8 word);
          ftype = (ucast (BITS inst 22 23) :: 8 word);
          rmode = (ucast (BITS inst 19 20) :: 8 word);
          opcode = (ucast (BITS inst 16 18) :: 8 word);
          rn' = (ucast (BITS inst 5 9) :: 8 word);
          rd' = (ucast (BITS inst 0 4) :: 8 word)
      in if S \<noteq> 0 then (False, result)
         else
          (let result = result\<lparr>rd := rd', rn := rn', has_imm := False\<rparr>;
               fp_type = get_fp_reg_type ftype;
               gpr_type = (if sf \<noteq> 0 then REG_TYPE_X else REG_TYPE_W);
               op = (push_bit 3 rmode OR opcode :: 8 word)
           in case find (\<lambda>e. fst e = op) fp_int_conv_ops of
                None \<Rightarrow> (False, result)
              | Some (k, name, to_gpr, ty) \<Rightarrow>
                  (True, result\<lparr>mnemonic := SAFE_STRCPY name,
                                 rd_type := (if to_gpr then gpr_type else fp_type),
                                 rn_type := (if to_gpr then fp_type else gpr_type),
                                 type := ty, is_64bit := (sf \<noteq> 0)\<rparr>)))"

definition decode_fp_imm :: decode_func_t where
  "decode_fp_imm inst addr result =
     (let M = (ucast (BIT inst 31) :: 8 word);
          S = (ucast (BIT inst 29) :: 8 word);
          ftype = (ucast (BITS inst 22 23) :: 8 word);
          imm8 = (ucast (BITS inst 13 20) :: 8 word);
          imm5 = (ucast (BITS inst 5 9) :: 8 word);
          rd' = (ucast (BITS inst 0 4) :: 8 word)
      in if M \<noteq> 0 \<or> S \<noteq> 0 then (False, result)
         else if imm5 \<noteq> 0 then (False, result)
         else
          (True, result\<lparr>rd := rd', imm := ucast imm8, has_imm := True,
                         rd_type := get_fp_reg_type ftype, type := INST_TYPE_FMOV,
                         mnemonic := SAFE_STRCPY ''fmov''\<rparr>))"

definition decode_simd_scalar_dup :: decode_func_t where
  "decode_simd_scalar_dup inst addr result =
     (let imm5 = (ucast (BITS inst 16 20) :: 8 word);
          imm4 = (ucast (BITS inst 11 14) :: 8 word);
          rn' = (ucast (BITS inst 5 9) :: 8 word);
          rd' = (ucast (BITS inst 0 4) :: 8 word)
      in if imm4 \<noteq> 0 then (False, result)
         else
          (let result = result\<lparr>rd := rd', rn := rn', has_imm := False\<rparr>;
               done = (\<lambda>r. (True, r\<lparr>rn_type := REG_TYPE_V, has_imm := True, type := INST_TYPE_MOV,
                                     mnemonic := SAFE_STRCPY ''dup''\<rparr>))
           in if imm5 AND 0x01 \<noteq> 0
              then done (result\<lparr>rd_type := REG_TYPE_B, imm := ucast (drop_bit 1 imm5 AND 0x0F)\<rparr>)
              else if imm5 AND 0x02 \<noteq> 0
              then done (result\<lparr>rd_type := REG_TYPE_H, imm := ucast (drop_bit 2 imm5 AND 0x07)\<rparr>)
              else if imm5 AND 0x04 \<noteq> 0
              then done (result\<lparr>rd_type := REG_TYPE_S, imm := ucast (drop_bit 3 imm5 AND 0x03)\<rparr>)
              else if imm5 AND 0x08 \<noteq> 0
              then done (result\<lparr>rd_type := REG_TYPE_D, imm := ucast (drop_bit 4 imm5 AND 0x01)\<rparr>)
              else (False, result)))"

definition size_to_type :: "reg_type_t list" where
  "size_to_type = [REG_TYPE_B, REG_TYPE_H, REG_TYPE_S, REG_TYPE_D]"

text \<open>The scalar three-same table: key \<open>(U << 5) | opcode\<close>, name, and the \<open>fp_only\<close> flag.\<close>

definition simd_scalar_ops :: "(8 word \<times> string \<times> bool) list" where
  "simd_scalar_ops =
     [(0x10, ''add'', False), (0x30, ''sub'', False), (0x1B, ''fmulx'', True),
      (0x1C, ''fcmeq'', True), (0x1F, ''frecps'', True), (0x3C, ''fcmge'', True),
      (0x3D, ''facge'', True), (0x3F, ''frsqrts'', True), (0x1A, ''fadd'', True),
      (0x3A, ''fsub'', True), (0x1E, ''fmax'', True), (0x3E, ''fmin'', True),
      (0x1D, ''fmul'', True), (0x3D, ''fdiv'', True)]"

definition decode_simd_scalar_3same :: decode_func_t where
  "decode_simd_scalar_3same inst addr result =
     (let U = (ucast (BIT inst 29) :: 8 word);
          size' = (ucast (BITS inst 22 23) :: 8 word);
          rm' = (ucast (BITS inst 16 20) :: 8 word);
          opcode = (ucast (BITS inst 11 15) :: 8 word);
          rn' = (ucast (BITS inst 5 9) :: 8 word);
          rd' = (ucast (BITS inst 0 4) :: 8 word);
          result = result\<lparr>rd := rd', rn := rn', rm := rm', has_imm := False,
                          rd_type := size_to_type ! unat size', rn_type := size_to_type ! unat size',
                          rm_type := size_to_type ! unat size'\<rparr>;
          op = (push_bit 5 U OR opcode :: 8 word)
      in case find (\<lambda>e. fst e = op) simd_scalar_ops of
           None \<Rightarrow> (False, result)
         | Some e \<Rightarrow> (True, result\<lparr>mnemonic := SAFE_STRCPY (fst (snd e)), type := INST_TYPE_ADD\<rparr>))"

definition scalar_2reg_ops :: "(8 word \<times> string) list" where
  "scalar_2reg_ops =
     [(0x03, ''suqadd''), (0x07, ''sqabs''), (0x08, ''cmgt''), (0x09, ''cmeq''), (0x0A, ''cmlt''),
      (0x0B, ''abs''), (0x0C, ''fcmgt''), (0x0D, ''fcmeq''), (0x0E, ''fcmlt''), (0x1A, ''fcvtns''),
      (0x1B, ''fcvtms''), (0x1C, ''fcvtas''), (0x1D, ''scvtf''), (0x23, ''usqadd''),
      (0x27, ''sqneg''), (0x28, ''cmge''), (0x29, ''cmle''), (0x2B, ''neg''), (0x2C, ''fcmge''),
      (0x2D, ''fcmle''), (0x3A, ''fcvtpu''), (0x3B, ''fcvtzu''), (0x3D, ''ucvtf'')]"

definition decode_simd_scalar_2reg_misc :: decode_func_t where
  "decode_simd_scalar_2reg_misc inst addr result =
     (let U = (ucast (BIT inst 29) :: 8 word);
          size' = (ucast (BITS inst 22 23) :: 8 word);
          opcode = (ucast (BITS inst 12 16) :: 8 word);
          rn' = (ucast (BITS inst 5 9) :: 8 word);
          rd' = (ucast (BITS inst 0 4) :: 8 word);
          result = result\<lparr>rd := rd', rn := rn', has_imm := False,
                          rd_type := size_to_type ! unat size', rn_type := size_to_type ! unat size'\<rparr>;
          op = (push_bit 5 U OR opcode :: 8 word)
      in case find (\<lambda>e. fst e = op) scalar_2reg_ops of
           None \<Rightarrow> (False, result)
         | Some e \<Rightarrow> (True, result\<lparr>mnemonic := SAFE_STRCPY (snd e), type := INST_TYPE_MOV\<rparr>))"

definition fp_simd_decode_table :: "decode_entry_t list" where
  "fp_simd_decode_table =
     [DECODE_ENTRY 0x5F203C00 0x1E202000 decode_fp_compare ''decode_fp_compare'',
      DECODE_ENTRY 0x5F200C00 0x1E200400 decode_fp_cond_compare ''decode_fp_cond_compare'',
      DECODE_ENTRY 0x5F200C00 0x1E200C00 decode_fp_cond_select ''decode_fp_cond_select'',
      DECODE_ENTRY 0x5F200C00 0x1E200800 decode_fp_data_proc_2src ''decode_fp_data_proc_2src'',
      DECODE_ENTRY 0x5F207C00 0x1E204000 decode_fp_data_proc_1src ''decode_fp_data_proc_1src'',
      DECODE_ENTRY 0x5F201C00 0x1E201000 decode_fp_imm ''decode_fp_imm'',
      DECODE_ENTRY 0x5F20FC00 0x1E200000 decode_fp_int_conv ''decode_fp_int_conv'',
      DECODE_ENTRY 0x5F000000 0x1F000000 decode_fp_data_proc_3src ''decode_fp_data_proc_3src'',
      DECODE_ENTRY 0xFFE0FC00 0x5E000400 decode_simd_scalar_dup ''decode_simd_scalar_dup'',
      DECODE_ENTRY 0xDF200400 0x5E200400 decode_simd_scalar_3same ''decode_simd_scalar_3same'',
      DECODE_ENTRY 0xDF3E0C00 0x5E200800 decode_simd_scalar_2reg_misc ''decode_simd_scalar_2reg_misc'']"

definition decode_fp_simd :: decode_func_t where
  "decode_fp_simd inst addr result =
     decode_with_table fp_simd_decode_table inst addr result"

section \<open>The entry point (arm64\_disasm.c)\<close>

definition dispatch_data_proc_imm :: decode_func_t where
  "dispatch_data_proc_imm inst addr result = decode_data_proc_imm inst addr result"

definition dispatch_data_proc_reg :: decode_func_t where
  "dispatch_data_proc_reg inst addr result = decode_data_proc_reg inst addr result"

definition dispatch_branch :: decode_func_t where
  "dispatch_branch inst addr result = decode_branch inst addr result"

definition dispatch_load_store :: decode_func_t where
  "dispatch_load_store inst addr result = decode_load_store inst addr result"

definition top_level_decode_table :: "decode_entry_t list" where
  "top_level_decode_table =
     [DECODE_ENTRY 0x1C000000 0x10000000 dispatch_data_proc_imm ''data_proc_imm'',
      DECODE_ENTRY 0x1C000000 0x14000000 dispatch_branch ''branch'',
      DECODE_ENTRY 0x0A000000 0x08000000 dispatch_load_store ''load_store_1'',
      DECODE_ENTRY 0x1C000000 0x18000000 dispatch_load_store ''load_store_2'',
      DECODE_ENTRY 0x0E000000 0x0A000000 dispatch_data_proc_reg ''data_proc_reg'']"

text \<open>
  \<open>init_disasm_inst\<close>: \<open>memset\<close> to zero (so every register view is \<open>REG_TYPE_X\<close>, the
  addressing mode \<open>ADDR_MODE_NONE\<close>, the extend kind 0), then the word, the address, the
  kind UNKNOWN and the mnemonic "unknown".
\<close>

definition init_disasm_inst :: "32 word \<Rightarrow> 64 word \<Rightarrow> disasm_inst_t" where
  "init_disasm_inst raw' address' =
     \<lparr>raw = raw', address = address', type = INST_TYPE_UNKNOWN,
      mnemonic = SAFE_STRCPY ''unknown'',
      rd = 0, rn = 0, rm = 0, rt2 = 0, ra = 0,
      rd_type = REG_TYPE_X, rn_type = REG_TYPE_X, rm_type = REG_TYPE_X,
      imm = 0, has_imm = False, addr_mode = ADDR_MODE_NONE, extend_type = 0,
      shift_amount = 0, cond = 0,
      is_64bit = False, set_flags = False, is_acquire = False, is_release = False\<rparr>"

text \<open>
  \<open>disassemble_arm64\<close> for a non-null output record (the null pointer is refused before
  anything is written). The result is the returned flag and the record as left behind.
\<close>

definition disassemble_arm64 :: "32 word \<Rightarrow> 64 word \<Rightarrow> bool \<times> disasm_inst_t" where
  "disassemble_arm64 raw_inst address' =
     (let inst = init_disasm_inst raw_inst address'
      in case decode_with_table top_level_decode_table raw_inst address' inst of
           (True, inst) \<Rightarrow> (True, inst)
         | (False, inst) \<Rightarrow>
        (case decode_branch raw_inst address' inst of
           (True, inst) \<Rightarrow> (True, inst)
         | (False, inst) \<Rightarrow>
        (case decode_data_proc_imm raw_inst address' inst of
           (True, inst) \<Rightarrow> (True, inst)
         | (False, inst) \<Rightarrow>
        (case decode_data_proc_reg raw_inst address' inst of
           (True, inst) \<Rightarrow> (True, inst)
         | (False, inst) \<Rightarrow>
        (case decode_load_store raw_inst address' inst of
           (True, inst) \<Rightarrow> (True, inst)
         | (False, inst) \<Rightarrow> (type inst \<noteq> INST_TYPE_UNKNOWN, inst))))))"

section \<open>Helpers\<close>

text \<open>\<open>get_branch_target\<close>: \<open>Some\<close> target where the C function returns true.\<close>

definition get_branch_target :: "disasm_inst_t \<Rightarrow> 64 word option" where
  "get_branch_target inst =
     (if type inst = INST_TYPE_B \<or> type inst = INST_TYPE_BL
         \<or> type inst = INST_TYPE_CBZ \<or> type inst = INST_TYPE_CBNZ
         \<or> type inst = INST_TYPE_TBZ \<or> type inst = INST_TYPE_TBNZ
         \<or> type inst = INST_TYPE_ADR \<or> type inst = INST_TYPE_ADRP
      then Some (address inst + imm inst)
      else None)"

section \<open>Reference: the A64 PC-relative targets\<close>

text \<open>
  The target address the A64 instruction set gives to the PC-relative instructions, read
  from the raw fields and independent of the decoder: the sign-extended offset
  \<open>imm26:00\<close> for B and BL, \<open>imm19:00\<close> for B.cond, CBZ and CBNZ, \<open>imm14:00\<close> for TBZ and
  TBNZ, \<open>immhi:immlo\<close> for ADR, all added to the address of the instruction; for ADRP the
  offset \<open>immhi:immlo:Zeros(12)\<close> is added to that address with its low 12 bits cleared
  (the 4KB page of the instruction).
\<close>

definition arch_branch_target :: "32 word \<Rightarrow> 64 word \<Rightarrow> 64 word option" where
  "arch_branch_target w pc =
     (if w AND 0x7C000000 = 0x14000000
      then Some (pc + word_of_int (sint (ucast w :: 26 word) * 4))
      else if w AND 0xFF000010 = 0x54000000 \<or> w AND 0x7E000000 = 0x34000000
      then Some (pc + word_of_int (sint (ucast (drop_bit 5 w) :: 19 word) * 4))
      else if w AND 0x7E000000 = 0x36000000
      then Some (pc + word_of_int (sint (ucast (drop_bit 5 w) :: 14 word) * 4))
      else if w AND 0x9F000000 = 0x10000000
      then Some (pc + word_of_int
                   (sint (push_bit 2 (ucast (drop_bit 5 w)) OR ucast (drop_bit 29 w AND 3) :: 21 word)))
      else if w AND 0x9F000000 = 0x90000000
      then Some ((pc AND NOT 0xFFF) + word_of_int
                   (sint (push_bit 2 (ucast (drop_bit 5 w)) OR ucast (drop_bit 29 w AND 3) :: 21 word)
                    * 4096))
      else None)"

section \<open>Reference: the kinds of the branch-target class\<close>

text \<open>The kinds for which \<open>get_branch_target\<close> is specified to give a target.\<close>

definition branch_target_kind :: "inst_type_t \<Rightarrow> bool" where
  "branch_target_kind k \<longleftrightarrow>
     k \<in> {INST_TYPE_B, INST_TYPE_BL, INST_TYPE_CBZ, INST_TYPE_CBNZ,
          INST_TYPE_TBZ, INST_TYPE_TBNZ, INST_TYPE_ADR, INST_TYPE_ADRP}"

text \<open>
  The branch target law for a decoded record: the record carries the address of the
  instruction, and the architectural target is that address plus \<open>imm\<close>; for ADRP it is
  the 4KB page of that address plus \<open>imm\<close>.
\<close>

definition target_law :: "32 word \<Rightarrow> 64 word \<Rightarrow> disasm_inst_t \<Rightarrow> bool" where
  "target_law w a r \<longleftrightarrow>
     address r = a \<and>
     arch_branch_target w a =
       Some ((if type r = INST_TYPE_ADRP then a AND NOT 0xFFF else a) + imm r)"

text \<open>
  The rows of the five decoders that produce those kinds (B/BL, CBZ/CBNZ, TBZ/TBNZ,
  B.cond, ADR/ADRP), and the property of a decoder's outcome that carries them through
  the tables: an accepted record of one of those kinds comes from a word of these rows.
\<close>

definition tgt_shape :: "32 word \<Rightarrow> bool" where
  "tgt_shape w \<longleftrightarrow>
     w AND 0x7C000000 = 0x14000000 \<or> w AND 0x7E000000 = 0x34000000 \<or>
     w AND 0x7E000000 = 0x36000000 \<or> w AND 0xFF000010 = 0x54000000 \<or>
     w AND 0x1F000000 = 0x10000000"

definition succ_tg :: "32 word \<Rightarrow> bool \<times> disasm_inst_t \<Rightarrow> bool" where
  "succ_tg w p \<longleftrightarrow> (fst p \<longrightarrow> branch_target_kind (type (snd p)) \<longrightarrow> tgt_shape w)"

section \<open>Reference: kinds with a general-purpose destination, and the width relation\<close>

text \<open>
  The kinds that write a general-purpose destination register \<open>rd\<close>: the loads, the
  data-processing kinds and MRS. LDR and LDP are also the kinds of the SIMD and
  floating-point loads, whose destination class is then B, H, S, D or Q. The stores,
  the compares (CMP, CMN, TST), the branches, the system kinds and the floating-point
  kinds are not in the set.
\<close>

definition gpr_dest_kind :: "inst_type_t \<Rightarrow> bool" where
  "gpr_dest_kind k \<longleftrightarrow>
     k \<in> {INST_TYPE_LDR, INST_TYPE_LDP,
          INST_TYPE_LDRB, INST_TYPE_LDRH, INST_TYPE_LDRSW, INST_TYPE_LDRSB, INST_TYPE_LDRSH,
          INST_TYPE_MOV, INST_TYPE_MOVZ, INST_TYPE_MOVN, INST_TYPE_MOVK,
          INST_TYPE_ADD, INST_TYPE_SUB, INST_TYPE_ADDS, INST_TYPE_SUBS,
          INST_TYPE_ADR, INST_TYPE_ADRP,
          INST_TYPE_AND, INST_TYPE_ORR, INST_TYPE_EOR,
          INST_TYPE_LSL, INST_TYPE_LSR, INST_TYPE_ASR, INST_TYPE_ROR,
          INST_TYPE_MUL, INST_TYPE_MADD, INST_TYPE_MSUB, INST_TYPE_SDIV, INST_TYPE_UDIV,
          INST_TYPE_SMULL, INST_TYPE_UMULL,
          INST_TYPE_CSEL, INST_TYPE_CSINC, INST_TYPE_CSINV, INST_TYPE_CSNEG,
          INST_TYPE_CSET, INST_TYPE_CSETM, INST_TYPE_CINC, INST_TYPE_CINV, INST_TYPE_CNEG,
          INST_TYPE_CLZ, INST_TYPE_CLS, INST_TYPE_RBIT, INST_TYPE_REV, INST_TYPE_REV16,
          INST_TYPE_REV32, INST_TYPE_EXTR, INST_TYPE_MRS,
          INST_TYPE_LDXR, INST_TYPE_LDAXR, INST_TYPE_LDAR,
          INST_TYPE_LDADD, INST_TYPE_LDCLR, INST_TYPE_LDEOR, INST_TYPE_LDSET,
          INST_TYPE_LDSMAX, INST_TYPE_LDSMIN, INST_TYPE_LDUMAX, INST_TYPE_LDUMIN,
          INST_TYPE_SWP, INST_TYPE_CAS}"

text \<open>
  The relation between a general-purpose destination class and the width flag that the
  decoders keep: class X goes with \<open>is_64bit\<close>, class W with its negation, and class SP
  stands for register 31 with \<open>is_64bit\<close> equal to bit 31 of the word (\<open>sf\<close>), whichever
  it is.
\<close>

definition width_ok :: "32 word \<Rightarrow> disasm_inst_t \<Rightarrow> bool" where
  "width_ok w r \<longleftrightarrow>
     (rd_type r = REG_TYPE_X \<and> is_64bit r) \<or>
     (rd_type r = REG_TYPE_W \<and> \<not> is_64bit r) \<or>
     (rd_type r = REG_TYPE_SP \<and> rd r = 31 \<and> (is_64bit r \<longleftrightarrow> (ucast (BIT w 31) :: 8 word) \<noteq> 0))"

text \<open>
  The record of a SIMD or floating-point load: kind LDR or LDP, destination class B, H,
  S, D or Q, and \<open>is_64bit\<close> false.
\<close>

definition simd_class :: "reg_type_t \<Rightarrow> bool" where
  "simd_class c \<longleftrightarrow> c \<in> {REG_TYPE_B, REG_TYPE_H, REG_TYPE_S, REG_TYPE_D, REG_TYPE_Q}"

definition simd_load :: "disasm_inst_t \<Rightarrow> bool" where
  "simd_load r \<longleftrightarrow>
     (type r = INST_TYPE_LDR \<or> type r = INST_TYPE_LDP) \<and> simd_class (rd_type r) \<and> \<not> is_64bit r"

text \<open>
  The words of the load-literal row (\<open>0x3B000000 / 0x18000000\<close>) with \<open>opc = 3\<close>:
  \<open>decode_load_literal\<close> rejects them after it has written the kind LDR.
\<close>

definition rejected_literal :: "32 word \<Rightarrow> bool" where
  "rejected_literal w \<longleftrightarrow> w AND 0xFB000000 = 0xD8000000"

text \<open>
  Properties of a decoder's outcome, used to carry the relation through the tables: an
  accepted record of one of those kinds satisfies the width relation (\<open>succ_ok\<close>, for the
  decoders that only have general-purpose destinations) or is a SIMD load (\<open>succ_ld\<close>,
  for the decoders of LDR and LDP); a rejected record has the kind it started with, or
  the kind LDR for a rejected load-literal word (\<open>rej_ok\<close>).
\<close>

definition succ_ok :: "32 word \<Rightarrow> bool \<times> disasm_inst_t \<Rightarrow> bool" where
  "succ_ok w p \<longleftrightarrow> (fst p \<longrightarrow> gpr_dest_kind (type (snd p)) \<longrightarrow> width_ok w (snd p))"

definition succ_ld :: "32 word \<Rightarrow> bool \<times> disasm_inst_t \<Rightarrow> bool" where
  "succ_ld w p \<longleftrightarrow>
     (fst p \<longrightarrow> gpr_dest_kind (type (snd p)) \<longrightarrow> width_ok w (snd p) \<or> simd_load (snd p))"

definition rej_ok :: "32 word \<Rightarrow> inst_type_t \<Rightarrow> bool \<times> disasm_inst_t \<Rightarrow> bool" where
  "rej_ok w t p \<longleftrightarrow>
     (\<not> fst p \<longrightarrow> type (snd p) = t \<or> (type (snd p) = INST_TYPE_LDR \<and> rejected_literal w))"

text \<open>
  The words of the top-level row \<open>load_store_1\<close> (bit 27 set, bit 25 clear); every row
  of the load/store table lies within it, and no row of the other three tables does.
\<close>

definition ls_word :: "32 word \<Rightarrow> bool" where
  "ls_word w \<longleftrightarrow> w AND 0x0A000000 = 0x08000000"

text \<open>
  The state of the record between two decoders of one call: the kind is still UNKNOWN,
  or LDR for a rejected load-literal word, and for a load/store word \<open>is_64bit\<close> is
  still false. \<open>dec_post\<close> is what a decoder started in such a state leaves behind: an
  accepted record of a kind with a general-purpose destination satisfies the width
  relation or is a SIMD load, and a rejected record is in such a state again.
\<close>

definition dec_inv :: "32 word \<Rightarrow> disasm_inst_t \<Rightarrow> bool" where
  "dec_inv w r \<longleftrightarrow>
     (type r = INST_TYPE_UNKNOWN \<or> (type r = INST_TYPE_LDR \<and> rejected_literal w)) \<and>
     (ls_word w \<longrightarrow> \<not> is_64bit r)"

definition dec_post :: "32 word \<Rightarrow> bool \<times> disasm_inst_t \<Rightarrow> bool" where
  "dec_post w p \<longleftrightarrow> succ_ld w p \<and> (\<not> fst p \<longrightarrow> dec_inv w (snd p))"

section \<open>Properties\<close>

lemmas inst_type_t_defs =
  INST_TYPE_UNKNOWN_def INST_TYPE_LDR_def INST_TYPE_LDRB_def INST_TYPE_LDRH_def
  INST_TYPE_LDRSW_def INST_TYPE_LDRSB_def INST_TYPE_LDRSH_def INST_TYPE_STR_def
  INST_TYPE_STRB_def INST_TYPE_STRH_def INST_TYPE_STP_def INST_TYPE_LDP_def
  INST_TYPE_MOV_def INST_TYPE_MOVZ_def INST_TYPE_MOVN_def INST_TYPE_MOVK_def
  INST_TYPE_ADD_def INST_TYPE_SUB_def INST_TYPE_ADDS_def INST_TYPE_SUBS_def
  INST_TYPE_ADR_def INST_TYPE_ADRP_def INST_TYPE_B_def INST_TYPE_BL_def
  INST_TYPE_BR_def INST_TYPE_BLR_def INST_TYPE_RET_def INST_TYPE_CBZ_def
  INST_TYPE_CBNZ_def INST_TYPE_TBZ_def INST_TYPE_TBNZ_def INST_TYPE_AND_def
  INST_TYPE_ORR_def INST_TYPE_EOR_def INST_TYPE_LSL_def INST_TYPE_LSR_def
  INST_TYPE_ASR_def INST_TYPE_ROR_def INST_TYPE_CMP_def INST_TYPE_CMN_def
  INST_TYPE_TST_def INST_TYPE_MUL_def INST_TYPE_MADD_def INST_TYPE_MSUB_def
  INST_TYPE_SDIV_def INST_TYPE_UDIV_def INST_TYPE_SMULL_def INST_TYPE_UMULL_def
  INST_TYPE_CSEL_def INST_TYPE_CSINC_def INST_TYPE_CSINV_def INST_TYPE_CSNEG_def
  INST_TYPE_CSET_def INST_TYPE_CSETM_def INST_TYPE_CINC_def INST_TYPE_CINV_def
  INST_TYPE_CNEG_def INST_TYPE_CLZ_def INST_TYPE_CLS_def INST_TYPE_RBIT_def
  INST_TYPE_REV_def INST_TYPE_REV16_def INST_TYPE_REV32_def INST_TYPE_EXTR_def
  INST_TYPE_LDXR_def INST_TYPE_STXR_def INST_TYPE_LDAXR_def INST_TYPE_STLXR_def
  INST_TYPE_LDAR_def INST_TYPE_STLR_def INST_TYPE_LDADD_def INST_TYPE_LDCLR_def
  INST_TYPE_LDEOR_def INST_TYPE_LDSET_def INST_TYPE_LDSMAX_def INST_TYPE_LDSMIN_def
  INST_TYPE_LDUMAX_def INST_TYPE_LDUMIN_def INST_TYPE_SWP_def INST_TYPE_CAS_def
  INST_TYPE_NOP_def INST_TYPE_MRS_def INST_TYPE_MSR_def INST_TYPE_DMB_def
  INST_TYPE_DSB_def INST_TYPE_ISB_def INST_TYPE_SVC_def INST_TYPE_HVC_def
  INST_TYPE_SMC_def INST_TYPE_FMOV_def INST_TYPE_FADD_def INST_TYPE_FSUB_def
  INST_TYPE_FMUL_def INST_TYPE_FDIV_def INST_TYPE_FABS_def INST_TYPE_FNEG_def
  INST_TYPE_FSQRT_def INST_TYPE_FMADD_def INST_TYPE_FMSUB_def INST_TYPE_FNMADD_def
  INST_TYPE_FNMSUB_def INST_TYPE_FCMP_def INST_TYPE_FCMPE_def INST_TYPE_FCCMP_def
  INST_TYPE_FCSEL_def INST_TYPE_FCVT_def INST_TYPE_FCVTZS_def INST_TYPE_FCVTZU_def
  INST_TYPE_SCVTF_def INST_TYPE_UCVTF_def INST_TYPE_FRINT_def INST_TYPE_FMAX_def
  INST_TYPE_FMIN_def
subsection \<open>Bit fields\<close>

lemma BITS_mask: "BITS w s e = ucast (drop_bit s w) AND mask (e - s + 1)"
  by (simp add: BITS_def mask_eq_exp_minus_1)

lemma unat_field8: "unat (ucast (BITS w s e) :: 8 word) < 2 ^ (e - s + 1)"
proof -
  let ?k = "Suc (min (min (e - s) 63) 7)"
  have "unat (ucast (BITS w s e) :: 8 word) = take_bit ?k (unat (ucast (drop_bit s w) :: 64 word))"
    by (simp add: BITS_mask unsigned_ucast_eq unsigned_take_bit_eq flip: take_bit_eq_mask)
  also have "\<dots> < 2 ^ ?k"
    by (rule take_bit_nat_less_exp)
  also have "\<dots> \<le> (2::nat) ^ (e - s + 1)"
    by (rule power_increasing) simp_all
  finally show ?thesis .
qed

lemma BIT_cases: "(ucast (BIT w n) :: 8 word) = 0 \<or> (ucast (BIT w n) :: 8 word) = 1"
proof -
  have "BIT w n \<le> 1" unfolding BIT_def by (rule word_and_le1)
  then have "unat (BIT w n) \<le> 1" by (simp add: word_le_nat_alt)
  then have "unat (ucast (BIT w n) :: 8 word) < 2"
    by (simp add: unsigned_ucast_eq take_bit_nat_eq_self)
  then show ?thesis by (auto simp: unat_arith_simps)
qed

lemma field2_cases: "e = Suc s \<Longrightarrow> (ucast (BITS w s e) :: 8 word) \<in> {0, 1, 2, 3}"
  using unat_field8[of w s e] by (auto simp: unat_arith_simps)

lemma and_mask_sub: "w AND m = v \<Longrightarrow> m AND m' = m' \<Longrightarrow> w AND m' = v AND (m' :: 32 word)"
  by (metis and.assoc)

subsection \<open>Move wide (immediate)\<close>

lemma hw16:
  "unat ((ucast (BITS w 21 22) :: 8 word) * 16) = unat (ucast (BITS w 21 22) :: 8 word) * 16"
  using unat_field8[of w 21 22] by (simp add: unat_word_ariths)

lemma ucast16_BITS:
  "e - s < 16 \<Longrightarrow> (ucast (ucast (BITS w s e) :: 16 word) :: 64 word) = BITS w s e"
  apply (simp add: BITS_mask)
  apply (rule bit_word_eqI)
  apply (auto simp: bit_simps)
  done

text \<open>
  C8. For every word and every record handed to \<open>decode_move_wide_imm\<close>
  (layout \<open>sf opc 100101 hw imm16 Rd\<close>): the decoder rejects exactly when \<open>sf = 0\<close> and
  \<open>hw \<ge> 2\<close>, or when \<open>opc = 1\<close>. Otherwise it succeeds with \<open>shift_amount = hw * 16\<close>,
  \<open>imm = imm16\<close>, kind MOVN for \<open>opc = 0\<close>, MOVZ for \<open>opc = 2\<close>, MOVK for \<open>opc = 3\<close>, and the
  destination class chosen by \<open>sf\<close>.
\<close>

theorem decode_move_wide_imm_spec:
  "case decode_move_wide_imm w a r of (ok, r') \<Rightarrow>
     (let sf = (ucast (BIT w 31) :: 8 word);
          opc = (ucast (BITS w 29 30) :: 8 word);
          hw = (ucast (BITS w 21 22) :: 8 word)
      in (ok \<longleftrightarrow> \<not> ((sf = 0 \<and> hw \<ge> 2) \<or> opc = 1)) \<and>
         (ok \<longrightarrow>
            unat (shift_amount r') = unat hw * 16 \<and>
            imm r' = BITS w 5 20 \<and>
            has_imm r' \<and>
            rd r' = ucast (BITS w 0 4) \<and>
            (opc = 0 \<longrightarrow> type r' = INST_TYPE_MOVN \<and> mnemonic r' = ''movn'') \<and>
            (opc = 2 \<longrightarrow> type r' = INST_TYPE_MOVZ \<and> mnemonic r' = ''movz'') \<and>
            (opc = 3 \<longrightarrow> type r' = INST_TYPE_MOVK \<and> mnemonic r' = ''movk'') \<and>
            rd_type r' = (if sf \<noteq> 0 then REG_TYPE_X else REG_TYPE_W) \<and>
            is_64bit r' = (sf \<noteq> 0)))"
  using field2_cases[of 30 29 w] hw16[of w] ucast16_BITS[of 20 5 w]
  by (auto simp: decode_move_wide_imm_def Let_def SAFE_STRCPY_def)

text \<open>The instance \<open>movz x0, #0x1234, lsl #16\<close> (word \<open>0xD2A24680\<close>).\<close>

theorem decode_move_wide_imm_spec_witness:
  "case decode_move_wide_imm 0xD2A24680 0x1000 (init_disasm_inst 0xD2A24680 0x1000) of
     (ok, r') \<Rightarrow>
       ok \<and> shift_amount r' = 16 \<and> imm r' = 0x1234 \<and> type r' = INST_TYPE_MOVZ \<and>
       rd_type r' = REG_TYPE_X"
  using decode_move_wide_imm_spec[of "0xD2A24680" "0x1000" "init_disasm_inst 0xD2A24680 0x1000"]
  by code_simp

subsection \<open>Masks and table rows\<close>

text \<open>
  What a word is known to be under one mask decides its test against another row:
  where the row's mask lies inside the known one the test is settled by evaluation,
  and a row whose value disagrees on the common bits cannot match.
\<close>

lemma and_mask_neq:
  "w AND m = v \<Longrightarrow> v AND m2 \<noteq> v2 AND m \<Longrightarrow> w AND m2 \<noteq> (v2 :: 32 word)"
  by (metis and.assoc and.commute)

lemma BIT_and: "n < 32 \<Longrightarrow> BIT w n = drop_bit n (w AND push_bit n 1)"
  unfolding BIT_def
  apply (rule bit_word_eqI)
  apply (auto simp: bit_simps)
  done

lemma BITS_and:
  "e < 32 \<Longrightarrow> s \<le> e \<Longrightarrow>
   BITS w s e = ucast (drop_bit s (w AND push_bit s (mask (e - s + 1))))"
  unfolding BITS_mask
  apply (rule bit_word_eqI)
  apply (auto simp add: bit_simps)
  done

subsection \<open>Conditional branch\<close>


lemma cond4: "(ucast (BITS w 0 3) :: 8 word) < 16"
  using unat_field8[of w 0 3] by (simp add: word_less_nat_alt)



subsection \<open>Scalar three-same\<close>

text \<open>
  C9. In \<open>decode_simd_scalar_3same\<close>, for every word whose key \<open>(U << 5) | opcode\<close> is
  \<open>0x3D\<close>, the scan of \<open>simd_scalar_ops\<close> stops at the first entry with that key: the
  decoder accepts with the mnemonic \<open>facge\<close>, never \<open>fdiv\<close>, although the table also
  holds the entry \<open>(0x3D, fdiv)\<close> further down.
\<close>

theorem scalar_3same_first_match:
  assumes "push_bit 5 (ucast (BIT w 29) :: 8 word) OR ucast (BITS w 11 15) = 0x3D"
  shows "case decode_simd_scalar_3same w a r of (ok, r') \<Rightarrow>
           ok \<and> mnemonic r' = ''facge'' \<and> mnemonic r' \<noteq> ''fdiv'' \<and>
           find (\<lambda>e. fst e = 0x3D) simd_scalar_ops = Some (0x3D, ''facge'', True) \<and>
           (0x3D, ''fdiv'', True) \<in> set simd_scalar_ops"
  using assms
  by (simp add: decode_simd_scalar_3same_def Let_def simd_scalar_ops_def SAFE_STRCPY_def)

text \<open>The instance \<open>0x7E20EC00\<close> (U = 1, opcode = 0x1D).\<close>

theorem scalar_3same_first_match_witness:
  "push_bit 5 (ucast (BIT 0x7E20EC00 29) :: 8 word) OR ucast (BITS 0x7E20EC00 11 15) = 0x3D \<and>
   mnemonic (snd (decode_simd_scalar_3same 0x7E20EC00 0 (init_disasm_inst 0x7E20EC00 0))) = ''facge''"
proof -
  have h: "push_bit 5 (ucast (BIT 0x7E20EC00 29) :: 8 word) OR ucast (BITS 0x7E20EC00 11 15) = 0x3D"
    by code_simp
  show ?thesis
    using scalar_3same_first_match[OF h, of 0 "init_disasm_inst 0x7E20EC00 0"] h
    by (simp split: prod.splits)
qed

subsection \<open>Bitfield\<close>

lemma imm_immr_imms:
  "(scast (push_bit 6 (ucast (x :: 8 word)) OR ucast (y :: 8 word) :: 32 word) :: 64 word)
     = push_bit 6 (ucast x) OR ucast y"
  apply (rule bit_word_eqI)
  apply (auto simp: bit_simps min_def dest: bit_imp_le_length)
  done

text \<open>
  C7. For every word and every record handed to \<open>decode_bitfield\<close>
  (layout \<open>sf opc 100110 N immr imms Rn Rd\<close>): the decoder accepts exactly when \<open>N = sf\<close>
  and \<open>opc \<noteq> 3\<close>. When it accepts, \<open>shift_amount = immr\<close> and \<open>imm = (immr << 6) | imms\<close>;
  with \<open>opc = 0\<close> the result is ASR exactly when \<open>immr \<noteq> 0\<close> and \<open>imms\<close> is 63 (\<open>sf = 1\<close>) or
  31 (\<open>sf = 0\<close>), and \<open>sbfm\<close> otherwise; with \<open>opc = 1\<close> it stays \<open>bfm\<close>; with \<open>opc = 2\<close> it is
  LSR when \<open>imms\<close> is that top value, LSL when \<open>immr = 0\<close> and \<open>imms\<close> is below it, and \<open>ubfm\<close>
  otherwise.
\<close>

theorem decode_bitfield_spec:
  "case decode_bitfield w a r of (ok, r') \<Rightarrow>
     (let sf = (ucast (BIT w 31) :: 8 word);
          opc = (ucast (BITS w 29 30) :: 8 word);
          N = (ucast (BIT w 22) :: 8 word);
          immr = (ucast (BITS w 16 21) :: 8 word);
          imms = (ucast (BITS w 10 15) :: 8 word);
          top = (if sf \<noteq> 0 then 63 else 31 :: 8 word)
      in (ok \<longleftrightarrow> N = sf \<and> opc \<noteq> 3) \<and>
         (ok \<longrightarrow>
            shift_amount r' = immr \<and>
            imm r' = push_bit 6 (ucast immr) OR ucast imms \<and>
            (opc = 0 \<longrightarrow>
               (if immr \<noteq> 0 \<and> imms = top
                then type r' = INST_TYPE_ASR \<and> mnemonic r' = ''asr''
                else type r' \<noteq> INST_TYPE_ASR \<and> mnemonic r' = ''sbfm'')) \<and>
            (opc = 1 \<longrightarrow> mnemonic r' = ''bfm'') \<and>
            (opc = 2 \<longrightarrow>
               (imms = top \<longrightarrow> type r' = INST_TYPE_LSR \<and> mnemonic r' = ''lsr'') \<and>
               (immr = 0 \<and> imms < top \<longrightarrow> type r' = INST_TYPE_LSL \<and> mnemonic r' = ''lsl'') \<and>
               (imms \<noteq> top \<and> \<not> (immr = 0 \<and> imms < top) \<longrightarrow> mnemonic r' = ''ubfm''))))"
  using field2_cases[of 30 29 w]
    imm_immr_imms[of "ucast (BITS w 16 21)" "ucast (BITS w 10 15)"]
  by (auto simp: decode_bitfield_def Let_def SAFE_STRCPY_def
      INST_TYPE_ASR_def INST_TYPE_LSL_def INST_TYPE_LSR_def)

text \<open>The instance \<open>asr x0, x1, #1\<close> (word \<open>0x9341FC20\<close>: N = sf = 1, immr = 1, imms = 63).\<close>

theorem decode_bitfield_spec_witness:
  "case decode_bitfield 0x9341FC20 0 (init_disasm_inst 0x9341FC20 0) of (ok, r') \<Rightarrow>
     ok \<and> type r' = INST_TYPE_ASR \<and> mnemonic r' = ''asr'' \<and> shift_amount r' = 1 \<and>
     imm r' = 0x7F"
  using decode_bitfield_spec[of "0x9341FC20" 0 "init_disasm_inst 0x9341FC20 0"]
  by code_simp

subsection \<open>Conditional select\<close>

lemma cond_select_csinc_all:
  assumes H: "w AND 0x1FE00000 = 0x1A800000"
    and S: "(ucast (BIT w 29) :: 8 word) = 0"
    and op: "(ucast (BIT w 30) :: 8 word) = 0"
    and op2: "(ucast (BITS w 10 11) :: 8 word) = 1"
  shows "case disassemble_arm64 w a of (ok, r) \<Rightarrow>
           (let Rm = (ucast (BITS w 16 20) :: 8 word);
                Rn = (ucast (BITS w 5 9) :: 8 word);
                c = (ucast (BITS w 12 15) :: 8 word)
            in ok \<and> r = snd (decode_cond_select w a (init_disasm_inst w a)) \<and>
               (Rm = 31 \<and> Rn = 31 \<longrightarrow>
                  type r = INST_TYPE_CSET \<and> mnemonic r = ''cset'' \<and> cond r = c XOR 1) \<and>
               (Rm = Rn \<and> Rn \<noteq> 31 \<and> c \<noteq> 14 \<and> c \<noteq> 15 \<longrightarrow>
                  type r = INST_TYPE_CINC \<and> mnemonic r = ''cinc'' \<and> cond r = c XOR 1) \<and>
               (\<not> (Rm = 31 \<and> Rn = 31) \<and> \<not> (Rm = Rn \<and> c \<noteq> 14 \<and> c \<noteq> 15) \<longrightarrow>
                  type r = INST_TYPE_CSINC \<and> mnemonic r = ''csinc'' \<and> cond r = c))"
proof -
  note ne = and_mask_neq[OF H]
  have m1: "w AND 0x1C000000 = 0x18000000"
    using and_mask_sub[OF H, of "0x1C000000"] by simp
  have m2: "w AND 0x0E000000 = 0x0A000000"
    using and_mask_sub[OF H, of "0x0E000000"] by simp
  have ls: "decode_load_store w a r0 = (False, r0)" for r0
    by (simp add: decode_load_store_def load_store_decode_table_def DECODE_ENTRY_def ne)
  have top: "disassemble_arm64 w a = decode_cond_select w a (init_disasm_inst w a)"
    using S op op2
    by (simp add: disassemble_arm64_def top_level_decode_table_def DECODE_ENTRY_def
        dispatch_load_store_def dispatch_data_proc_reg_def ls m1 m2 ne H
        decode_data_proc_reg_def data_proc_reg_decode_table_def
        decode_cond_select_def Let_def)
  show ?thesis
    unfolding top using S op op2
    by (simp add: decode_cond_select_def Let_def SAFE_STRCPY_def)
qed

text \<open>
  C5. For every word of the conditional-select row (\<open>0x1FE00000 / 0x1A800000\<close>) with
  \<open>S = 0\<close>, \<open>op = 0\<close> and \<open>op2 = 1\<close> (the CSINC shape) and every address, \<open>disassemble_arm64\<close>
  succeeds with the record \<open>decode_cond_select\<close> builds from the blank one, and: with
  \<open>Rm = Rn = 31\<close> the kind is CSET and the \<open>cond\<close> field holds the condition XOR 1; with
  \<open>Rm = Rn\<close> (not 31, where CSET comes first) and the condition not 14 or 15 the kind is
  CINC, again with the condition XOR 1; in every other case the kind is CSINC and the
  condition is stored as it is. Concretely, \<open>0x9A9F07E0\<close> at \<open>0x2000\<close> gives CSET, \<open>rd = 0\<close>,
  destination class X, \<open>cond = 1\<close>.
\<close>

theorem cond_select_csinc_aliases:
  assumes "w AND 0x1FE00000 = 0x1A800000"
    and "(ucast (BIT w 29) :: 8 word) = 0"
    and "(ucast (BIT w 30) :: 8 word) = 0"
    and "(ucast (BITS w 10 11) :: 8 word) = 1"
  shows "(case disassemble_arm64 w a of (ok, r) \<Rightarrow>
           (let Rm = (ucast (BITS w 16 20) :: 8 word);
                Rn = (ucast (BITS w 5 9) :: 8 word);
                c = (ucast (BITS w 12 15) :: 8 word)
            in ok \<and> r = snd (decode_cond_select w a (init_disasm_inst w a)) \<and>
               (Rm = 31 \<and> Rn = 31 \<longrightarrow>
                  type r = INST_TYPE_CSET \<and> mnemonic r = ''cset'' \<and> cond r = c XOR 1) \<and>
               (Rm = Rn \<and> Rn \<noteq> 31 \<and> c \<noteq> 14 \<and> c \<noteq> 15 \<longrightarrow>
                  type r = INST_TYPE_CINC \<and> mnemonic r = ''cinc'' \<and> cond r = c XOR 1) \<and>
               (\<not> (Rm = 31 \<and> Rn = 31) \<and> \<not> (Rm = Rn \<and> c \<noteq> 14 \<and> c \<noteq> 15) \<longrightarrow>
                  type r = INST_TYPE_CSINC \<and> mnemonic r = ''csinc'' \<and> cond r = c))) \<and>
         (case disassemble_arm64 0x9A9F07E0 0x2000 of (ok, r) \<Rightarrow>
            ok \<and> type r = INST_TYPE_CSET \<and> rd r = 0 \<and> rd_type r = REG_TYPE_X \<and> cond r = 1)"
proof -
  have "case disassemble_arm64 0x9A9F07E0 0x2000 of (ok, r) \<Rightarrow>
          ok \<and> type r = INST_TYPE_CSET \<and> rd r = 0 \<and> rd_type r = REG_TYPE_X \<and> cond r = 1"
    by code_simp
  with cond_select_csinc_all[OF assms, of a] show ?thesis by blast
qed

text \<open>
  The instance \<open>cinc w0, w1, ne\<close>, that is \<open>csinc w0, w1, w1, eq\<close> (word \<open>0x1A810420\<close>): the
  shape holds, \<open>Rm = Rn = 1\<close>, the condition is 0, and the record holds CINC with \<open>cond = 1\<close>.
\<close>

theorem cond_select_csinc_aliases_witness:
  "(0x1A810420 :: 32 word) AND 0x1FE00000 = 0x1A800000 \<and>
   (ucast (BIT 0x1A810420 29) :: 8 word) = 0 \<and> (ucast (BIT 0x1A810420 30) :: 8 word) = 0 \<and>
   (ucast (BITS 0x1A810420 10 11) :: 8 word) = 1 \<and>
   (ucast (BITS 0x1A810420 16 20) :: 8 word) = 1 \<and> (ucast (BITS 0x1A810420 5 9) :: 8 word) = 1 \<and>
   (ucast (BITS 0x1A810420 12 15) :: 8 word) = 0 \<and>
   type (snd (disassemble_arm64 0x1A810420 0x2000)) = INST_TYPE_CINC \<and>
   cond (snd (disassemble_arm64 0x1A810420 0x2000)) = 1"
proof -
  have h1: "(0x1A810420 :: 32 word) AND 0x1FE00000 = 0x1A800000" by simp
  have h2: "(ucast (BIT 0x1A810420 29) :: 8 word) = 0" by code_simp
  have h3: "(ucast (BIT 0x1A810420 30) :: 8 word) = 0" by code_simp
  have h4: "(ucast (BITS 0x1A810420 10 11) :: 8 word) = 1" by code_simp
  have f1: "(ucast (BITS 0x1A810420 16 20) :: 8 word) = 1" by code_simp
  have f2: "(ucast (BITS 0x1A810420 5 9) :: 8 word) = 1" by code_simp
  have f3: "(ucast (BITS 0x1A810420 12 15) :: 8 word) = 0" by code_simp
  show ?thesis
    using cond_select_csinc_aliases[OF h1 h2 h3 h4, of "0x2000"] h1 h2 h3 h4 f1 f2 f3
    by (simp add: Let_def split: prod.splits)
qed

subsection \<open>The floating-point and SIMD encoding space\<close>

text \<open>
  Every row of \<open>fp_simd_decode_table\<close> asks for bits [28:25] = 1111, and no row of the
  top-level table or of the four category tables matches such a word. So whatever
  \<open>decode_fp_simd\<close> accepts, \<open>disassemble_arm64\<close> rejects, leaving the blank record.
\<close>

lemma table_accept_row:
  "fst (decode_with_table T w a r) \<Longrightarrow> \<exists>(m, v, d, n) \<in> set T. w AND m = v"
proof (induction T arbitrary: r)
  case Nil
  then show ?case by simp
next
  case (Cons e T)
  obtain m v d n where e: "e = (m, v, d, n)" by (cases e) auto
  show ?case
  proof (cases "w AND m = v")
    case True
    then show ?thesis by (auto simp: e)
  next
    case False
    with Cons.prems have "fst (decode_with_table T w a r)" by (simp add: e)
    from Cons.IH[OF this] show ?thesis by auto
  qed
qed

lemma fp_simd_rows: "fst (decode_fp_simd w a r) \<Longrightarrow> w AND 0x1E000000 = 0x1E000000"
proof -
  assume "fst (decode_fp_simd w a r)"
  then have "\<exists>(m, v, d, n) \<in> set fp_simd_decode_table. w AND m = v"
    unfolding decode_fp_simd_def by (rule table_accept_row)
  then show ?thesis
    by (auto simp: fp_simd_decode_table_def DECODE_ENTRY_def dest: and_mask_sub[where m' = "0x1E000000"])
qed

lemma fp_simd_space_rejected:
  assumes H: "w AND 0x1E000000 = 0x1E000000"
  shows "disassemble_arm64 w a = (False, init_disasm_inst w a)"
proof -
  note ne = and_mask_neq[OF H]
  have b: "decode_branch w a r0 = (False, r0)" for r0
    by (simp add: decode_branch_def branch_decode_table_def DECODE_ENTRY_def ne)
  have i: "decode_data_proc_imm w a r0 = (False, r0)" for r0
    by (simp add: decode_data_proc_imm_def data_proc_imm_decode_table_def DECODE_ENTRY_def ne)
  have g: "decode_data_proc_reg w a r0 = (False, r0)" for r0
    by (simp add: decode_data_proc_reg_def data_proc_reg_decode_table_def DECODE_ENTRY_def ne)
  have l: "decode_load_store w a r0 = (False, r0)" for r0
    by (simp add: decode_load_store_def load_store_decode_table_def DECODE_ENTRY_def ne)
  have t: "decode_with_table top_level_decode_table w a r0 = (False, r0)" for r0
    by (simp add: top_level_decode_table_def DECODE_ENTRY_def ne)
  show ?thesis
    by (simp add: disassemble_arm64_def Let_def b i g l t init_disasm_inst_def)
qed

lemma fp_simd_never_recognised:
  "fst (decode_fp_simd w a r) \<Longrightarrow> disassemble_arm64 w a' = (False, init_disasm_inst w a')"
  by (rule fp_simd_space_rejected) (rule fp_simd_rows)

subsection \<open>Words of the compare-and-swap shape\<close>

text \<open>
  Every word matching the CAS row (\<open>0x3FA07C00 / 0x08A07C00\<close>) also matches the exclusive
  row \<open>0x3F000000 / 0x08000000\<close> that stands before it, and \<open>decode_load_store_exclusive\<close>
  accepts every word. With bit 23 set it names the word LDAR or STLR, never CAS.
\<close>

lemma cas_shape_shadowed:
  assumes H: "w AND 0x3FA07C00 = 0x08A07C00"
  shows "disassemble_arm64 w a = decode_load_store_exclusive w a (init_disasm_inst w a) \<and>
         fst (disassemble_arm64 w a) \<and>
         (type (snd (disassemble_arm64 w a)) = INST_TYPE_LDAR \<or>
          type (snd (disassemble_arm64 w a)) = INST_TYPE_STLR) \<and>
         type (snd (disassemble_arm64 w a)) \<noteq> INST_TYPE_CAS"
proof -
  note ne = and_mask_neq[OF H]
  have m1: "w AND 0x0A000000 = 0x08000000" using and_mask_sub[OF H, of "0x0A000000"] by simp
  have m2: "w AND 0x3F000000 = 0x08000000" using and_mask_sub[OF H, of "0x3F000000"] by simp
  have m3: "w AND 0x00800000 = 0x00800000" using and_mask_sub[OF H, of "0x00800000"] by simp
  have o2: "(ucast (BIT w 23) :: 8 word) = 1"
    using m3 by (simp add: BIT_and)
  have acc: "fst (decode_load_store_exclusive w a r0)" for r0
    by (simp add: decode_load_store_exclusive_def Let_def)
  have ty: "type (snd (decode_load_store_exclusive w a r0)) = INST_TYPE_LDAR \<or>
            type (snd (decode_load_store_exclusive w a r0)) = INST_TYPE_STLR" for r0
    using o2 by (simp add: decode_load_store_exclusive_def Let_def)
  have top: "disassemble_arm64 w a = decode_load_store_exclusive w a (init_disasm_inst w a)"
    using acc[of "init_disasm_inst w a"]
    by (cases "decode_load_store_exclusive w a (init_disasm_inst w a)")
       (simp add: disassemble_arm64_def Let_def top_level_decode_table_def DECODE_ENTRY_def
        dispatch_load_store_def decode_load_store_def load_store_decode_table_def ne m1 m2)
  show ?thesis
    unfolding top using acc ty[of "init_disasm_inst w a"]
    by (auto simp: INST_TYPE_LDAR_def INST_TYPE_STLR_def INST_TYPE_CAS_def)
qed

subsection \<open>Sign extensions and top-level rows\<close>

text \<open>
  The sign extensions of the branch decoders, read as signed casts of the raw fields.
\<close>

lemma top_index:
  "25 \<le> n \<Longrightarrow> n < 26 \<Longrightarrow> n = (25 :: nat)"
  "18 \<le> n \<Longrightarrow> n < 19 \<Longrightarrow> n = (18 :: nat)"
  "13 \<le> n \<Longrightarrow> n < 14 \<Longrightarrow> n = (13 :: nat)"
  "20 \<le> n \<Longrightarrow> n < 21 \<Longrightarrow> n = (20 :: nat)"
  by simp_all

lemma se26: "SIGN_EXTEND (scast (ucast (BITS w 0 25) :: 32 word)) 26 = (scast (ucast w :: 26 word) :: 64 word)"
  unfolding SIGN_EXTEND_def BITS_mask
  apply (rule bit_word_eqI)
  apply (auto simp add: bit_simps bit_signed_drop_bit_iff min_def not_le not_less dest: bit_imp_le_length top_index)
  done

lemma se19: "SIGN_EXTEND (scast (ucast (BITS w 5 23) :: 32 word)) 19 = (scast (ucast (drop_bit 5 w) :: 19 word) :: 64 word)"
  unfolding SIGN_EXTEND_def BITS_mask
  apply (rule bit_word_eqI)
  apply (auto simp add: bit_simps bit_signed_drop_bit_iff min_def not_le not_less dest: bit_imp_le_length top_index)
  done

lemma se14: "SIGN_EXTEND (scast (ucast (BITS w 5 18) :: 16 word)) 14 = (scast (ucast (drop_bit 5 w) :: 14 word) :: 64 word)"
  unfolding SIGN_EXTEND_def BITS_mask
  apply (rule bit_word_eqI)
  apply (auto simp add: bit_simps bit_signed_drop_bit_iff min_def not_le not_less dest: bit_imp_le_length top_index)
  done

lemma se21: "SIGN_EXTEND (scast (push_bit 2 (ucast (BITS w 5 23) :: 32 word) OR ucast (ucast (BITS w 29 30) :: 8 word) :: 32 word)) 21
   = (scast (push_bit 2 (ucast (drop_bit 5 w)) OR ucast (drop_bit 29 w AND 3) :: 21 word) :: 64 word)"
proof -
  have m: "(3 :: 32 word) = mask 2" by (simp add: mask_eq_exp_minus_1)
  show ?thesis
    unfolding SIGN_EXTEND_def BITS_mask m
    apply (rule bit_word_eqI)
    apply (auto simp add: bit_simps bit_signed_drop_bit_iff min_def not_le not_less dest: bit_imp_le_length top_index)
    done
qed

lemma page_split: "(a AND NOT m) + (a AND m) = (a :: 64 word)"
proof -
  have z: "(a AND NOT m) AND (a AND m) = 0"
    by (rule bit_word_eqI) (auto simp: bit_simps)
  have "(a AND NOT m) + (a AND m) = (a AND NOT m) OR (a AND m)"
    by (rule disjunctive_add_eq_or[OF z])
  also have "\<dots> = a"
    by (rule bit_word_eqI) (auto simp: bit_simps)
  finally show ?thesis .
qed

text \<open>
  A word of the \<open>branch\<close> or \<open>data_proc_imm\<close> top-level row that its category decoder
  accepts is decoded by that decoder alone.
\<close>

lemma top_branch:
  assumes H: "w AND 0x1C000000 = 0x14000000" and A: "fst (decode_branch w a (init_disasm_inst w a))"
  shows "disassemble_arm64 w a = decode_branch w a (init_disasm_inst w a)"
  using A
  by (cases "decode_branch w a (init_disasm_inst w a)")
     (simp add: disassemble_arm64_def Let_def top_level_decode_table_def DECODE_ENTRY_def
        dispatch_branch_def and_mask_neq[OF H] H)

lemma top_imm:
  assumes H: "w AND 0x1C000000 = 0x10000000" and A: "fst (decode_data_proc_imm w a (init_disasm_inst w a))"
  shows "disassemble_arm64 w a = decode_data_proc_imm w a (init_disasm_inst w a)"
  using A
  by (cases "decode_data_proc_imm w a (init_disasm_inst w a)")
     (simp add: disassemble_arm64_def Let_def top_level_decode_table_def DECODE_ENTRY_def
        dispatch_data_proc_imm_def and_mask_neq[OF H] H)

subsection \<open>Words the entry point gets wrong\<close>

text \<open>
  C1. The fallback chain of \<open>disassemble_arm64\<close> ends with the load/store decoder:
  \<open>decode_fp_simd\<close> is never called. The word \<open>0x1E202000\<close> (\<open>fcmp s0, s0\<close>) at \<open>0x3000\<close> is
  therefore not recognised (the call returns false and leaves the blank record, kind
  UNKNOWN), although \<open>decode_fp_simd\<close> itself accepts it with kind FCMP, \<open>rn = 0\<close>, \<open>rm = 0\<close>
  and both classes S.
\<close>

theorem fp_simd_not_dispatched:
  "disassemble_arm64 0x1E202000 0x3000 = (False, init_disasm_inst 0x1E202000 0x3000) \<and>
   type (init_disasm_inst 0x1E202000 0x3000) = INST_TYPE_UNKNOWN \<and>
   (case decode_fp_simd 0x1E202000 0x3000 (init_disasm_inst 0x1E202000 0x3000) of (ok, r) \<Rightarrow>
      ok \<and> type r = INST_TYPE_FCMP \<and> rn r = 0 \<and> rm r = 0 \<and>
      rn_type r = REG_TYPE_S \<and> rm_type r = REG_TYPE_S)"
  by code_simp

text \<open>
  C2. The word \<open>0xD8000000\<close> (load-literal row, \<open>opc = 3\<close>, \<open>V = 0\<close>) is rejected by every
  decoder whose row it matches: the top-level table, each category decoder and
  \<open>decode_load_literal\<close> all return false on it. \<open>decode_load_literal\<close> has by then
  written the kind LDR and the mnemonic \<open>ldr\<close> into the record, and the final test of
  \<open>disassemble_arm64\<close> (kind not UNKNOWN) turns the rejection into a success: the call
  returns true with kind LDR.
\<close>

theorem rejected_literal_reported_as_ldr:
  "(let w = 0xD8000000; a = 0x1000; r0 = init_disasm_inst w a
    in \<not> fst (decode_with_table top_level_decode_table w a r0) \<and>
       \<not> fst (decode_branch w a r0) \<and> \<not> fst (decode_data_proc_imm w a r0) \<and>
       \<not> fst (decode_data_proc_reg w a r0) \<and> \<not> fst (decode_load_store w a r0) \<and>
       \<not> fst (decode_load_literal w a r0) \<and>
       (case disassemble_arm64 w a of (ok, r) \<Rightarrow>
          ok \<and> type r = INST_TYPE_LDR \<and> type r \<noteq> INST_TYPE_UNKNOWN \<and> mnemonic r = ''ldr''))"
  by code_simp

text \<open>
  C3. The word \<open>0xC8A07C20\<close> at \<open>0x4000\<close> has the CAS shape, and \<open>decode_cas\<close> applied to
  it gives kind CAS, \<open>rd = 0\<close>, \<open>rm = 0\<close>, \<open>rn = 1\<close>, class X and the mnemonic \<open>cas\<close>. But in
  \<open>load_store_decode_table\<close> the exclusive row (\<open>0x3F000000 / 0x08000000\<close>) stands before
  the CAS row, matches the word and always accepts: \<open>disassemble_arm64\<close> returns the
  record of \<open>decode_load_store_exclusive\<close>, kind STLR with the mnemonic \<open>stllr\<close>.
\<close>

theorem cas_word_decoded_as_stllr:
  "(case disassemble_arm64 0xC8A07C20 0x4000 of (ok, r) \<Rightarrow>
      ok \<and> type r = INST_TYPE_STLR \<and> type r \<noteq> INST_TYPE_CAS \<and> mnemonic r = ''stllr'' \<and>
      r = snd (decode_load_store_exclusive 0xC8A07C20 0x4000
                 (init_disasm_inst 0xC8A07C20 0x4000))) \<and>
   (case decode_cas 0xC8A07C20 0x4000 (init_disasm_inst 0xC8A07C20 0x4000) of (ok, r) \<Rightarrow>
      ok \<and> type r = INST_TYPE_CAS \<and> rd r = 0 \<and> rm r = 0 \<and> rn r = 1 \<and>
      rd_type r = REG_TYPE_X \<and> mnemonic r = ''cas'')"
  by code_simp

subsection \<open>Destination class and width\<close>

text \<open>
  The width relation is carried through the whole entry point. Every decoder is
  described twice: what an accepted record looks like (\<open>succ_ok\<close>, \<open>succ_ld\<close>) and what
  a rejected one keeps (\<open>rej_ok\<close>, and for the load/store decoders the flag \<open>is_64bit\<close>).
\<close>

lemma gpr_dest_kind_true:
  "gpr_dest_kind INST_TYPE_LDRB" "gpr_dest_kind INST_TYPE_LDRH" "gpr_dest_kind INST_TYPE_LDRSW"
  "gpr_dest_kind INST_TYPE_LDRSB" "gpr_dest_kind INST_TYPE_LDRSH" "gpr_dest_kind INST_TYPE_MOV"
  "gpr_dest_kind INST_TYPE_MOVZ" "gpr_dest_kind INST_TYPE_MOVN" "gpr_dest_kind INST_TYPE_MOVK"
  "gpr_dest_kind INST_TYPE_ADD" "gpr_dest_kind INST_TYPE_SUB" "gpr_dest_kind INST_TYPE_ADDS"
  "gpr_dest_kind INST_TYPE_SUBS" "gpr_dest_kind INST_TYPE_ADR" "gpr_dest_kind INST_TYPE_ADRP"
  "gpr_dest_kind INST_TYPE_AND" "gpr_dest_kind INST_TYPE_ORR" "gpr_dest_kind INST_TYPE_EOR"
  "gpr_dest_kind INST_TYPE_LSL" "gpr_dest_kind INST_TYPE_LSR" "gpr_dest_kind INST_TYPE_ASR"
  "gpr_dest_kind INST_TYPE_ROR" "gpr_dest_kind INST_TYPE_MUL" "gpr_dest_kind INST_TYPE_MADD"
  "gpr_dest_kind INST_TYPE_MSUB" "gpr_dest_kind INST_TYPE_SDIV" "gpr_dest_kind INST_TYPE_UDIV"
  "gpr_dest_kind INST_TYPE_CSEL" "gpr_dest_kind INST_TYPE_CSINC" "gpr_dest_kind INST_TYPE_CSINV"
  "gpr_dest_kind INST_TYPE_CSNEG" "gpr_dest_kind INST_TYPE_CSET" "gpr_dest_kind INST_TYPE_CSETM"
  "gpr_dest_kind INST_TYPE_CINC" "gpr_dest_kind INST_TYPE_CINV" "gpr_dest_kind INST_TYPE_CNEG"
  "gpr_dest_kind INST_TYPE_CLZ" "gpr_dest_kind INST_TYPE_CLS" "gpr_dest_kind INST_TYPE_RBIT"
  "gpr_dest_kind INST_TYPE_REV" "gpr_dest_kind INST_TYPE_REV16" "gpr_dest_kind INST_TYPE_REV32"
  "gpr_dest_kind INST_TYPE_EXTR" "gpr_dest_kind INST_TYPE_LDXR" "gpr_dest_kind INST_TYPE_LDAXR"
  "gpr_dest_kind INST_TYPE_LDAR" "gpr_dest_kind INST_TYPE_LDADD" "gpr_dest_kind INST_TYPE_LDCLR"
  "gpr_dest_kind INST_TYPE_LDEOR" "gpr_dest_kind INST_TYPE_LDSET" "gpr_dest_kind INST_TYPE_LDSMAX"
  "gpr_dest_kind INST_TYPE_LDSMIN" "gpr_dest_kind INST_TYPE_LDUMAX" "gpr_dest_kind INST_TYPE_LDUMIN"
  "gpr_dest_kind INST_TYPE_SWP" "gpr_dest_kind INST_TYPE_CAS" "gpr_dest_kind INST_TYPE_MRS"
  "gpr_dest_kind INST_TYPE_LDR" "gpr_dest_kind INST_TYPE_LDP" "gpr_dest_kind INST_TYPE_SMULL"
  "gpr_dest_kind INST_TYPE_UMULL"
  by (simp_all add: gpr_dest_kind_def inst_type_t_defs)

lemma gpr_dest_kind_false:
  "\<not> gpr_dest_kind INST_TYPE_UNKNOWN" "\<not> gpr_dest_kind INST_TYPE_STR"
  "\<not> gpr_dest_kind INST_TYPE_STRB" "\<not> gpr_dest_kind INST_TYPE_STRH" "\<not> gpr_dest_kind INST_TYPE_STP"
  "\<not> gpr_dest_kind INST_TYPE_B" "\<not> gpr_dest_kind INST_TYPE_BL"
  "\<not> gpr_dest_kind INST_TYPE_BR" "\<not> gpr_dest_kind INST_TYPE_BLR" "\<not> gpr_dest_kind INST_TYPE_RET"
  "\<not> gpr_dest_kind INST_TYPE_CBZ" "\<not> gpr_dest_kind INST_TYPE_CBNZ" "\<not> gpr_dest_kind INST_TYPE_TBZ"
  "\<not> gpr_dest_kind INST_TYPE_TBNZ" "\<not> gpr_dest_kind INST_TYPE_CMP" "\<not> gpr_dest_kind INST_TYPE_CMN"
  "\<not> gpr_dest_kind INST_TYPE_TST"
  "\<not> gpr_dest_kind INST_TYPE_STXR" "\<not> gpr_dest_kind INST_TYPE_STLXR" "\<not> gpr_dest_kind INST_TYPE_STLR"
  "\<not> gpr_dest_kind INST_TYPE_NOP" "\<not> gpr_dest_kind INST_TYPE_MSR" "\<not> gpr_dest_kind INST_TYPE_DMB"
  "\<not> gpr_dest_kind INST_TYPE_DSB" "\<not> gpr_dest_kind INST_TYPE_ISB" "\<not> gpr_dest_kind INST_TYPE_SVC"
  "\<not> gpr_dest_kind INST_TYPE_HVC" "\<not> gpr_dest_kind INST_TYPE_SMC" "\<not> gpr_dest_kind INST_TYPE_FMOV"
  "\<not> gpr_dest_kind INST_TYPE_FADD" "\<not> gpr_dest_kind INST_TYPE_FSUB" "\<not> gpr_dest_kind INST_TYPE_FMUL"
  "\<not> gpr_dest_kind INST_TYPE_FDIV" "\<not> gpr_dest_kind INST_TYPE_FABS" "\<not> gpr_dest_kind INST_TYPE_FNEG"
  "\<not> gpr_dest_kind INST_TYPE_FSQRT" "\<not> gpr_dest_kind INST_TYPE_FMADD" "\<not> gpr_dest_kind INST_TYPE_FMSUB"
  "\<not> gpr_dest_kind INST_TYPE_FNMADD" "\<not> gpr_dest_kind INST_TYPE_FNMSUB" "\<not> gpr_dest_kind INST_TYPE_FCMP"
  "\<not> gpr_dest_kind INST_TYPE_FCMPE" "\<not> gpr_dest_kind INST_TYPE_FCCMP" "\<not> gpr_dest_kind INST_TYPE_FCSEL"
  "\<not> gpr_dest_kind INST_TYPE_FCVT" "\<not> gpr_dest_kind INST_TYPE_FCVTZS" "\<not> gpr_dest_kind INST_TYPE_FCVTZU"
  "\<not> gpr_dest_kind INST_TYPE_SCVTF" "\<not> gpr_dest_kind INST_TYPE_UCVTF" "\<not> gpr_dest_kind INST_TYPE_FRINT"
  "\<not> gpr_dest_kind INST_TYPE_FMAX" "\<not> gpr_dest_kind INST_TYPE_FMIN"
  by (simp_all add: gpr_dest_kind_def inst_type_t_defs)

lemma ror_kind: "INST_TYPE_ASR + 1 = INST_TYPE_ROR"
  by (simp add: INST_TYPE_ASR_def INST_TYPE_ROR_def)

text \<open>Every decoder of the four tables the entry point uses, accepted and rejected.\<close>

lemma find_SomeD: "find P xs = Some x \<Longrightarrow> P x \<and> x \<in> set xs"
  by (induction xs) (auto split: if_splits)

lemma gpr_ls_info_width:
  "find_gpr_ls_info k = Some i \<Longrightarrow>
     (ls_reg_type i = REG_TYPE_X \<and> ls_is_64bit i) \<or>
     (ls_reg_type i = REG_TYPE_W \<and> \<not> ls_is_64bit i)"
  unfolding find_gpr_ls_info_def
  apply (drule find_SomeD)
  apply (simp add: gpr_ls_info_def)
  apply (elim conjE disjE; simp)
  done

lemma unscaled_info_width:
  "find P unscaled_info = Some i \<Longrightarrow>
     (us_reg_type i = REG_TYPE_X \<and> us_is_64bit i) \<or>
     (us_reg_type i = REG_TYPE_W \<and> \<not> us_is_64bit i)"
  apply (drule find_SomeD)
  apply (simp add: unscaled_info_def)
  apply (elim conjE disjE; simp)
  done

lemma s_uncond_branch_imm: "succ_ok w (decode_uncond_branch_imm w a r)"
  apply (simp only: decode_uncond_branch_imm_def Let_def succ_ok_def)
  apply (simp add: width_ok_def gpr_dest_kind_true gpr_dest_kind_false ror_kind)
  done

lemma r_uncond_branch_imm: "rej_ok w (type r) (decode_uncond_branch_imm w a r)"
  apply (simp only: decode_uncond_branch_imm_def Let_def rej_ok_def)
  apply (simp)
  done

lemma s_compare_branch: "succ_ok w (decode_compare_branch w a r)"
  apply (simp only: decode_compare_branch_def Let_def succ_ok_def)
  apply (simp add: width_ok_def gpr_dest_kind_true gpr_dest_kind_false ror_kind)
  done

lemma r_compare_branch: "rej_ok w (type r) (decode_compare_branch w a r)"
  apply (simp only: decode_compare_branch_def Let_def rej_ok_def)
  apply (simp)
  done

lemma s_test_branch: "succ_ok w (decode_test_branch w a r)"
  apply (simp only: decode_test_branch_def Let_def succ_ok_def)
  apply (simp add: width_ok_def gpr_dest_kind_true gpr_dest_kind_false ror_kind)
  done

lemma r_test_branch: "rej_ok w (type r) (decode_test_branch w a r)"
  apply (simp only: decode_test_branch_def Let_def rej_ok_def)
  apply (simp)
  done

lemma s_cond_branch_imm: "succ_ok w (decode_cond_branch_imm w a r)"
  apply (simp only: decode_cond_branch_imm_def Let_def succ_ok_def)
  apply (simp add: width_ok_def gpr_dest_kind_true gpr_dest_kind_false ror_kind)
  done

lemma r_cond_branch_imm: "rej_ok w (type r) (decode_cond_branch_imm w a r)"
  using cond4[of w]
  apply (simp only: decode_cond_branch_imm_def Let_def rej_ok_def)
  apply (simp)
  done

lemma s_uncond_branch_reg: "succ_ok w (decode_uncond_branch_reg w a r)"
  apply (simp only: decode_uncond_branch_reg_def Let_def succ_ok_def)
  apply (simp add: width_ok_def gpr_dest_kind_true gpr_dest_kind_false ror_kind)
  done

lemma r_uncond_branch_reg: "rej_ok w (type r) (decode_uncond_branch_reg w a r)"
  apply (simp only: decode_uncond_branch_reg_def Let_def rej_ok_def)
  apply (simp)
  done

lemma s_system: "succ_ok w (decode_system w a r)"
  apply (simp only: decode_system_def Let_def succ_ok_def)
  apply (simp add: width_ok_def gpr_dest_kind_true gpr_dest_kind_false ror_kind)
  done

lemma r_system: "rej_ok w (type r) (decode_system w a r)"
  apply (simp only: decode_system_def Let_def rej_ok_def)
  apply (simp)
  done

lemma s_pc_rel_addr: "succ_ok w (decode_pc_rel_addr w a r)"
  apply (simp only: decode_pc_rel_addr_def Let_def succ_ok_def)
  apply (simp add: width_ok_def gpr_dest_kind_true gpr_dest_kind_false ror_kind)
  done

lemma r_pc_rel_addr: "rej_ok w (type r) (decode_pc_rel_addr w a r)"
  apply (simp only: decode_pc_rel_addr_def Let_def rej_ok_def)
  apply (simp)
  done

lemma s_add_sub_imm: "succ_ok w (decode_add_sub_imm w a r)"
  apply (simp only: decode_add_sub_imm_def Let_def succ_ok_def)
  apply (simp add: width_ok_def gpr_dest_kind_true gpr_dest_kind_false ror_kind)
  done

lemma r_add_sub_imm: "rej_ok w (type r) (decode_add_sub_imm w a r)"
  apply (simp only: decode_add_sub_imm_def Let_def rej_ok_def)
  apply (simp)
  done

lemma s_logical_imm: "succ_ok w (decode_logical_imm w a r)"
  apply (simp only: decode_logical_imm_def Let_def succ_ok_def)
  apply (simp add: width_ok_def gpr_dest_kind_true gpr_dest_kind_false ror_kind)
  done

lemma r_logical_imm: "rej_ok w (type r) (decode_logical_imm w a r)"
  apply (simp only: decode_logical_imm_def Let_def rej_ok_def)
  apply (simp)
  done

lemma s_move_wide_imm: "succ_ok w (decode_move_wide_imm w a r)"
  apply (simp only: decode_move_wide_imm_def Let_def succ_ok_def)
  apply (simp add: width_ok_def gpr_dest_kind_true gpr_dest_kind_false ror_kind)
  done

lemma r_move_wide_imm: "rej_ok w (type r) (decode_move_wide_imm w a r)"
  apply (simp only: decode_move_wide_imm_def Let_def rej_ok_def)
  apply (simp)
  done

lemma s_bitfield: "succ_ok w (decode_bitfield w a r)"
  apply (simp only: decode_bitfield_def Let_def succ_ok_def)
  apply (simp add: width_ok_def gpr_dest_kind_true gpr_dest_kind_false ror_kind)
  done

lemma r_bitfield: "rej_ok w (type r) (decode_bitfield w a r)"
  apply (simp only: decode_bitfield_def Let_def rej_ok_def)
  apply (simp)
  done

lemma s_extract: "succ_ok w (decode_extract w a r)"
  apply (simp only: decode_extract_def Let_def succ_ok_def)
  apply (simp add: width_ok_def gpr_dest_kind_true gpr_dest_kind_false ror_kind)
  done

lemma r_extract: "rej_ok w (type r) (decode_extract w a r)"
  apply (simp only: decode_extract_def Let_def rej_ok_def)
  apply (simp)
  done

lemma s_logical_shifted_reg: "succ_ok w (decode_logical_shifted_reg w a r)"
  apply (simp only: decode_logical_shifted_reg_def Let_def succ_ok_def)
  apply (simp add: width_ok_def gpr_dest_kind_true gpr_dest_kind_false ror_kind)
  done

lemma r_logical_shifted_reg: "rej_ok w (type r) (decode_logical_shifted_reg w a r)"
  apply (simp only: decode_logical_shifted_reg_def Let_def rej_ok_def)
  apply (simp)
  done

lemma s_add_sub_shifted_reg: "succ_ok w (decode_add_sub_shifted_reg w a r)"
  apply (simp only: decode_add_sub_shifted_reg_def Let_def succ_ok_def)
  apply (simp add: width_ok_def gpr_dest_kind_true gpr_dest_kind_false ror_kind)
  done

lemma r_add_sub_shifted_reg: "rej_ok w (type r) (decode_add_sub_shifted_reg w a r)"
  apply (simp only: decode_add_sub_shifted_reg_def Let_def rej_ok_def)
  apply (simp)
  done

lemma s_cond_select: "succ_ok w (decode_cond_select w a r)"
  apply (simp only: decode_cond_select_def Let_def succ_ok_def)
  apply (simp add: width_ok_def gpr_dest_kind_true gpr_dest_kind_false ror_kind)
  done

lemma r_cond_select: "rej_ok w (type r) (decode_cond_select w a r)"
  apply (simp only: decode_cond_select_def Let_def rej_ok_def)
  apply (simp)
  done

lemma s_data_proc_1src: "succ_ok w (decode_data_proc_1src w a r)"
  apply (simp only: decode_data_proc_1src_def Let_def succ_ok_def)
  apply (simp add: width_ok_def gpr_dest_kind_true gpr_dest_kind_false ror_kind)
  done

lemma r_data_proc_1src: "rej_ok w (type r) (decode_data_proc_1src w a r)"
  apply (simp only: decode_data_proc_1src_def Let_def rej_ok_def)
  apply (simp)
  done

lemma s_data_proc_2src: "succ_ok w (decode_data_proc_2src w a r)"
  apply (simp only: decode_data_proc_2src_def Let_def succ_ok_def)
  apply (simp add: width_ok_def gpr_dest_kind_true gpr_dest_kind_false ror_kind)
  done

lemma r_data_proc_2src: "rej_ok w (type r) (decode_data_proc_2src w a r)"
  apply (simp only: decode_data_proc_2src_def Let_def rej_ok_def)
  apply (simp)
  done

lemma s_data_proc_3src: "succ_ok w (decode_data_proc_3src w a r)"
  apply (simp only: decode_data_proc_3src_def Let_def succ_ok_def)
  apply (simp add: width_ok_def gpr_dest_kind_true gpr_dest_kind_false ror_kind)
  done

lemma r_data_proc_3src: "rej_ok w (type r) (decode_data_proc_3src w a r)"
  apply (simp only: decode_data_proc_3src_def Let_def rej_ok_def)
  apply (simp)
  done

lemma s_load_store_exclusive: "succ_ok w (decode_load_store_exclusive w a r)"
  apply (simp only: decode_load_store_exclusive_def Let_def succ_ok_def)
  apply (simp add: width_ok_def gpr_dest_kind_true gpr_dest_kind_false ror_kind)
  done

lemma r_load_store_exclusive: "rej_ok w (type r) (decode_load_store_exclusive w a r)"
  apply (simp only: decode_load_store_exclusive_def Let_def rej_ok_def)
  apply (simp)
  done

lemma s_cas: "succ_ok w (decode_cas w a r)"
  apply (simp only: decode_cas_def Let_def succ_ok_def)
  apply (simp add: width_ok_def gpr_dest_kind_true gpr_dest_kind_false ror_kind)
  done

lemma r_cas: "rej_ok w (type r) (decode_cas w a r)"
  apply (simp only: decode_cas_def Let_def rej_ok_def)
  apply (simp)
  done

lemma s_atomic_memory_ops: "succ_ok w (decode_atomic_memory_ops w a r)"
  apply (simp only: decode_atomic_memory_ops_def Let_def succ_ok_def)
  apply (simp add: width_ok_def gpr_dest_kind_true gpr_dest_kind_false ror_kind)
  done

lemma r_atomic_memory_ops: "rej_ok w (type r) (decode_atomic_memory_ops w a r)"
  apply (simp only: decode_atomic_memory_ops_def Let_def rej_ok_def)
  apply (simp)
  done

lemma gpr_kind_loads:
  "gpr_dest_kind INST_TYPE_LDR" "gpr_dest_kind INST_TYPE_LDP" "gpr_dest_kind INST_TYPE_LDRSW"
  "gpr_dest_kind INST_TYPE_LDRB" "gpr_dest_kind INST_TYPE_LDRH" "gpr_dest_kind INST_TYPE_LDRSB"
  "gpr_dest_kind INST_TYPE_LDRSH"
  "\<not> gpr_dest_kind INST_TYPE_STR" "\<not> gpr_dest_kind INST_TYPE_STP"
  "\<not> gpr_dest_kind INST_TYPE_STRB" "\<not> gpr_dest_kind INST_TYPE_STRH"
  by (simp_all add: gpr_dest_kind_def inst_type_t_defs)

lemma word8_le2: "\<not> 2 < x \<Longrightarrow> x = 0 \<or> x = 1 \<or> x = (2 :: 8 word)"
  by (auto simp: unat_arith_simps)

lemma simd_pair_class: "\<not> 2 < x \<Longrightarrow> simd_class (snd (simd_pair_info ! unat (x :: 8 word)))"
  by (drule word8_le2) (auto simp: simd_pair_info_def simd_class_def)

lemma simd_types_class: "simd_class (simd_types ! unat (ucast (BITS w 30 31) :: 8 word))"
  using field2_cases[of 31 30 w] by (auto simp: simd_types_def simd_class_def)

lemma l_ls_pair: "\<not> is_64bit r \<Longrightarrow> succ_ld w (decode_ls_pair w a r)"
  apply (simp only: decode_ls_pair_def Let_def succ_ld_def)
  apply (simp add: width_ok_def simd_load_def gpr_kind_loads simd_pair_class)
  done

lemma k_ls_pair:
  "fst (decode_ls_pair w a r) \<or> is_64bit (snd (decode_ls_pair w a r)) = is_64bit r"
  apply (simp only: decode_ls_pair_def Let_def)
  apply (simp split: option.split)
  done

lemma l_load_literal:
  assumes "\<not> is_64bit r"
  shows "succ_ld w (decode_load_literal w a r)"
proof (cases "2 < (ucast (BITS w 30 31) :: 8 word)")
  case True
  then show ?thesis
    by (simp add: decode_load_literal_def Let_def succ_ld_def)
next
  case False
  then consider "(ucast (BITS w 30 31) :: 8 word) = 0" | "(ucast (BITS w 30 31) :: 8 word) = 1"
    | "(ucast (BITS w 30 31) :: 8 word) = 2"
    using word8_le2 by blast
  then show ?thesis
    using assms
    by cases
      (simp_all add: decode_load_literal_def Let_def succ_ld_def width_ok_def simd_load_def
        gpr_kind_loads gpr_literal_def simd_literal_def simd_class_def)
qed

lemma k_load_literal:
  "fst (decode_load_literal w a r) \<or> is_64bit (snd (decode_load_literal w a r)) = is_64bit r"
  apply (simp only: decode_load_literal_def Let_def)
  apply (simp split: option.split)
  done

lemma l_ls_unsigned_imm: "\<not> is_64bit r \<Longrightarrow> succ_ld w (decode_ls_unsigned_imm w a r)"
  apply (simp only: decode_ls_unsigned_imm_def Let_def succ_ld_def)
  apply (simp split: option.split add: width_ok_def simd_load_def gpr_kind_loads simd_types_class)
  apply (blast dest: gpr_ls_info_width)
  done

lemma k_ls_unsigned_imm:
  "fst (decode_ls_unsigned_imm w a r) \<or> is_64bit (snd (decode_ls_unsigned_imm w a r)) = is_64bit r"
  apply (simp only: decode_ls_unsigned_imm_def Let_def)
  apply (simp split: option.split)
  done

lemma l_ls_reg_offset: "\<not> is_64bit r \<Longrightarrow> succ_ld w (decode_ls_reg_offset w a r)"
  apply (simp only: decode_ls_reg_offset_def Let_def succ_ld_def)
  apply (simp split: option.split add: width_ok_def simd_load_def gpr_kind_loads simd_types_class)
  apply (blast dest: gpr_ls_info_width)
  done

lemma k_ls_reg_offset:
  "fst (decode_ls_reg_offset w a r) \<or> is_64bit (snd (decode_ls_reg_offset w a r)) = is_64bit r"
  apply (simp only: decode_ls_reg_offset_def Let_def)
  apply (simp split: option.split)
  done

lemma l_ls_unscaled_imm: "\<not> is_64bit r \<Longrightarrow> succ_ld w (decode_ls_unscaled_imm w a r)"
  apply (simp only: decode_ls_unscaled_imm_def Let_def succ_ld_def)
  apply (simp split: option.split add: width_ok_def simd_load_def gpr_kind_loads simd_types_class)
  apply (blast dest: unscaled_info_width)
  done

lemma k_ls_unscaled_imm:
  "fst (decode_ls_unscaled_imm w a r) \<or> is_64bit (snd (decode_ls_unscaled_imm w a r)) = is_64bit r"
  apply (simp only: decode_ls_unscaled_imm_def Let_def)
  apply (simp split: option.split)
  done

lemma k_load_store_exclusive:
  "fst (decode_load_store_exclusive w a r) \<or> is_64bit (snd (decode_load_store_exclusive w a r)) = is_64bit r"
  apply (simp only: decode_load_store_exclusive_def Let_def)
  apply (simp split: option.split)
  done

lemma k_cas:
  "fst (decode_cas w a r) \<or> is_64bit (snd (decode_cas w a r)) = is_64bit r"
  apply (simp only: decode_cas_def Let_def)
  apply (simp split: option.split)
  done

lemma k_atomic_memory_ops:
  "fst (decode_atomic_memory_ops w a r) \<or> is_64bit (snd (decode_atomic_memory_ops w a r)) = is_64bit r"
  apply (simp only: decode_atomic_memory_ops_def Let_def)
  apply (simp split: option.split)
  done

lemma and_bit: "bit w n \<Longrightarrow> w AND push_bit n 1 = (push_bit n 1 :: 32 word)"
  by (rule bit_word_eqI) (auto simp: bit_simps)

lemma opc3_bits:
  assumes "2 < (ucast (BITS w 30 31) :: 8 word)"
  shows "w AND 0xC0000000 = 0xC0000000"
proof -
  from assms field2_cases[of 31 30 w] have e: "(ucast (BITS w 30 31) :: 8 word) = 3" by auto
  have b30: "bit w 30" using arg_cong[OF e, of "\<lambda>x. bit x 0"] by (simp add: BITS_mask bit_simps)
  have b31: "bit w 31" using arg_cong[OF e, of "\<lambda>x. bit x 1"] by (simp add: BITS_mask bit_simps)
  have a30: "w AND 0x40000000 = 0x40000000" using and_bit[OF b30] by simp
  have a31: "w AND 0x80000000 = 0x80000000" using and_bit[OF b31] by simp
  have "w AND 0xC0000000 = (w AND 0x40000000) OR (w AND 0x80000000)"
    by (simp flip: bit.conj_disj_distrib)
  then show ?thesis by (simp add: a30 a31)
qed

lemma lit_leak:
  assumes H: "w AND 0x3B000000 = 0x18000000" and O: "2 < (ucast (BITS w 30 31) :: 8 word)"
  shows "rejected_literal w"
proof -
  have "w AND 0xFB000000 = (w AND 0x3B000000) OR (w AND 0xC0000000)"
    by (simp flip: bit.conj_disj_distrib)
  then show ?thesis by (simp add: H opc3_bits[OF O] rejected_literal_def)
qed

lemma r_ls_pair: "rej_ok w (type r) (decode_ls_pair w a r)"
  apply (simp only: decode_ls_pair_def Let_def rej_ok_def)
  apply (simp)
  done

lemma r_load_literal:
  "w AND 0x3B000000 = 0x18000000 \<Longrightarrow> rej_ok w (type r) (decode_load_literal w a r)"
  apply (simp only: decode_load_literal_def Let_def rej_ok_def)
  apply (simp add: lit_leak)
  done

lemma r_ls_unsigned_imm: "rej_ok w (type r) (decode_ls_unsigned_imm w a r)"
  apply (simp only: decode_ls_unsigned_imm_def Let_def rej_ok_def)
  apply (simp split: option.split)
  done

lemma r_ls_reg_offset: "rej_ok w (type r) (decode_ls_reg_offset w a r)"
  apply (simp only: decode_ls_reg_offset_def Let_def rej_ok_def)
  apply (simp split: option.split)
  done

lemma r_ls_unscaled_imm: "rej_ok w (type r) (decode_ls_unscaled_imm w a r)"
  apply (simp only: decode_ls_unscaled_imm_def Let_def rej_ok_def)
  apply (simp split: option.split)
  done

lemma post_gp:
  assumes "\<not> ls_word w" and "succ_ok w p" and "rej_ok w (type r) p" and "dec_inv w r"
  shows "dec_post w p"
  using assms by (auto simp: dec_post_def dec_inv_def succ_ok_def succ_ld_def rej_ok_def)

lemma post_ls:
  assumes "succ_ld w p" and "rej_ok w (type r) p" and "fst p \<or> is_64bit (snd p) = is_64bit r"
    and "dec_inv w r"
  shows "dec_post w p"
  using assms by (auto simp: dec_post_def dec_inv_def rej_ok_def)

lemma succ_ok_ld: "succ_ok w p \<Longrightarrow> succ_ld w p"
  by (simp add: succ_ok_def succ_ld_def)

lemma table_post:
  assumes "\<And>m v d n r. (m, v, d, n) \<in> set T \<Longrightarrow> w AND m = v \<Longrightarrow> dec_inv w r \<Longrightarrow>
             dec_post w (d w a r)"
    and "dec_inv w r"
  shows "dec_post w (decode_with_table T w a r)"
  using assms
proof (induction T arbitrary: r)
  case Nil
  then show ?case by (simp add: dec_post_def succ_ld_def)
next
  case (Cons e T)
  obtain m v d n where e: "e = (m, v, d, n)" by (cases e) auto
  have tl: "dec_post w (decode_with_table T w a r')" if "dec_inv w r'" for r'
  proof (rule Cons.IH)
    fix m' v' d' n' r''
    assume "(m', v', d', n') \<in> set T" "w AND m' = v'" "dec_inv w r''"
    then show "dec_post w (d' w a r'')" using Cons.prems(1)[of m' v' d' n' r''] by simp
  next
    show "dec_inv w r'" by (rule that)
  qed
  show ?case
  proof (cases "w AND m = v")
    case False
    then show ?thesis using tl[OF Cons.prems(2)] by (simp add: e)
  next
    case True
    have hd: "dec_post w (d w a r)"
      using Cons.prems(1)[of m v d n r] True Cons.prems(2) by (simp add: e)
    show ?thesis
    proof (cases "d w a r")
      case (Pair ok r1)
      show ?thesis
      proof (cases ok)
        case True
        with hd Pair \<open>w AND m = v\<close> show ?thesis by (simp add: e)
      next
        case False
        with hd Pair have "dec_inv w r1" by (simp add: dec_post_def)
        from tl[OF this] False Pair \<open>w AND m = v\<close> show ?thesis by (simp add: e)
      qed
    qed
  qed
qed

lemma not_ls_rows:
  assumes "ls_word w"
  shows "(m, v, d, n) \<in> set branch_decode_table \<Longrightarrow> w AND m \<noteq> v"
    and "(m, v, d, n) \<in> set data_proc_imm_decode_table \<Longrightarrow> w AND m \<noteq> v"
    and "(m, v, d, n) \<in> set data_proc_reg_decode_table \<Longrightarrow> w AND m \<noteq> v"
proof -
  from assms have H: "w AND 0x0A000000 = 0x08000000" by (simp only: ls_word_def)
  note ne = and_mask_neq[OF H]
  show "(m, v, d, n) \<in> set branch_decode_table \<Longrightarrow> w AND m \<noteq> v"
    by (auto simp: branch_decode_table_def DECODE_ENTRY_def ne)
  show "(m, v, d, n) \<in> set data_proc_imm_decode_table \<Longrightarrow> w AND m \<noteq> v"
    by (auto simp: data_proc_imm_decode_table_def DECODE_ENTRY_def ne)
  show "(m, v, d, n) \<in> set data_proc_reg_decode_table \<Longrightarrow> w AND m \<noteq> v"
    by (auto simp: data_proc_reg_decode_table_def DECODE_ENTRY_def ne)
qed

lemma ls_rows:
  "(m, v, d, n) \<in> set load_store_decode_table \<Longrightarrow> w AND m = v \<Longrightarrow> ls_word w"
  by (auto simp: load_store_decode_table_def DECODE_ENTRY_def ls_word_def
      dest: and_mask_sub[where m' = "0x0A000000"])

lemma post_decode_branch:
  assumes "dec_inv w r"
  shows "dec_post w (decode_branch w a r)"
  unfolding decode_branch_def
proof (rule table_post[OF _ assms])
  fix m v d n r'
  assume mem: "(m, v, d, n) \<in> set branch_decode_table" and row: "w AND m = v"
    and inv: "dec_inv w r'"
  from not_ls_rows(1)[OF _ mem] row have nl: "\<not> ls_word w" by blast
  from mem have s: "succ_ok w (d w a r')"
    by (auto simp: branch_decode_table_def DECODE_ENTRY_def s_uncond_branch_imm
        s_compare_branch s_test_branch s_cond_branch_imm s_uncond_branch_reg s_system)
  from mem have q: "rej_ok w (type r') (d w a r')"
    by (auto simp: branch_decode_table_def DECODE_ENTRY_def r_uncond_branch_imm
        r_compare_branch r_test_branch r_cond_branch_imm r_uncond_branch_reg r_system)
  show "dec_post w (d w a r')" by (rule post_gp[OF nl s q inv])
qed

lemma post_decode_data_proc_imm:
  assumes "dec_inv w r"
  shows "dec_post w (decode_data_proc_imm w a r)"
  unfolding decode_data_proc_imm_def
proof (rule table_post[OF _ assms])
  fix m v d n r'
  assume mem: "(m, v, d, n) \<in> set data_proc_imm_decode_table" and row: "w AND m = v"
    and inv: "dec_inv w r'"
  from not_ls_rows(2)[OF _ mem] row have nl: "\<not> ls_word w" by blast
  from mem have s: "succ_ok w (d w a r')"
    by (auto simp: data_proc_imm_decode_table_def DECODE_ENTRY_def s_pc_rel_addr s_add_sub_imm
        s_logical_imm s_move_wide_imm s_bitfield s_extract)
  from mem have q: "rej_ok w (type r') (d w a r')"
    by (auto simp: data_proc_imm_decode_table_def DECODE_ENTRY_def r_pc_rel_addr r_add_sub_imm
        r_logical_imm r_move_wide_imm r_bitfield r_extract)
  show "dec_post w (d w a r')" by (rule post_gp[OF nl s q inv])
qed

lemma post_decode_data_proc_reg:
  assumes "dec_inv w r"
  shows "dec_post w (decode_data_proc_reg w a r)"
  unfolding decode_data_proc_reg_def
proof (rule table_post[OF _ assms])
  fix m v d n r'
  assume mem: "(m, v, d, n) \<in> set data_proc_reg_decode_table" and row: "w AND m = v"
    and inv: "dec_inv w r'"
  from not_ls_rows(3)[OF _ mem] row have nl: "\<not> ls_word w" by blast
  from mem have s: "succ_ok w (d w a r')"
    by (auto simp: data_proc_reg_decode_table_def DECODE_ENTRY_def s_logical_shifted_reg
        s_add_sub_shifted_reg s_cond_select s_data_proc_1src s_data_proc_2src
        s_data_proc_3src)
  from mem have q: "rej_ok w (type r') (d w a r')"
    by (auto simp: data_proc_reg_decode_table_def DECODE_ENTRY_def r_logical_shifted_reg
        r_add_sub_shifted_reg r_cond_select r_data_proc_1src r_data_proc_2src
        r_data_proc_3src)
  show "dec_post w (d w a r')" by (rule post_gp[OF nl s q inv])
qed

lemma post_decode_load_store:
  assumes "dec_inv w r"
  shows "dec_post w (decode_load_store w a r)"
  unfolding decode_load_store_def
proof (rule table_post[OF _ assms])
  fix m v d n r'
  assume mem: "(m, v, d, n) \<in> set load_store_decode_table" and row: "w AND m = v"
    and inv: "dec_inv w r'"
  from ls_rows[OF mem row] inv have n64: "\<not> is_64bit r'" by (simp add: dec_inv_def)
  from mem have s: "succ_ld w (d w a r')"
    by (auto simp: load_store_decode_table_def DECODE_ENTRY_def
        succ_ok_ld[OF s_load_store_exclusive] succ_ok_ld[OF s_cas]
        succ_ok_ld[OF s_atomic_memory_ops] l_ls_pair[OF n64] l_load_literal[OF n64]
        l_ls_unsigned_imm[OF n64] l_ls_reg_offset[OF n64] l_ls_unscaled_imm[OF n64])
  from mem row have q: "rej_ok w (type r') (d w a r')"
    by (auto simp: load_store_decode_table_def DECODE_ENTRY_def r_load_store_exclusive r_cas
        r_atomic_memory_ops r_ls_pair r_load_literal r_ls_unsigned_imm r_ls_reg_offset
        r_ls_unscaled_imm)
  from mem have k: "fst (d w a r') \<or> is_64bit (snd (d w a r')) = is_64bit r'"
    using k_load_store_exclusive[of w a r'] k_cas[of w a r'] k_atomic_memory_ops[of w a r']
      k_ls_pair[of w a r'] k_load_literal[of w a r'] k_ls_unsigned_imm[of w a r']
      k_ls_reg_offset[of w a r'] k_ls_unscaled_imm[of w a r']
    by (auto simp: load_store_decode_table_def DECODE_ENTRY_def)
  show "dec_post w (d w a r')" by (rule post_ls[OF s q k inv])
qed

lemma post_top_level:
  assumes "dec_inv w r"
  shows "dec_post w (decode_with_table top_level_decode_table w a r)"
proof (rule table_post[OF _ assms])
  fix m v d n r'
  assume mem: "(m, v, d, n) \<in> set top_level_decode_table" and inv: "dec_inv w r'"
  from mem show "dec_post w (d w a r')"
    by (auto simp: top_level_decode_table_def DECODE_ENTRY_def dispatch_branch_def
        dispatch_data_proc_imm_def dispatch_data_proc_reg_def dispatch_load_store_def
        post_decode_branch[OF inv] post_decode_data_proc_imm[OF inv]
        post_decode_data_proc_reg[OF inv] post_decode_load_store[OF inv])
qed

lemma post_rej: "dec_post w p \<Longrightarrow> \<not> fst p \<Longrightarrow> dec_inv w (snd p)"
  by (simp add: dec_post_def)


text \<open>
  The load-literal words with \<open>opc = 3\<close>: \<open>decode_load_literal\<close> rejects them, no other
  decoder accepts them, and \<open>disassemble_arm64\<close> still returns true, with the kind LDR,
  the destination class X of the blank record and \<open>is_64bit\<close> false.
\<close>

lemma rejected_literal_leak:
  assumes L: "rejected_literal w"
  shows "fst (disassemble_arm64 w a) \<and>
         \<not> fst (decode_load_literal w a (init_disasm_inst w a)) \<and>
         type (snd (disassemble_arm64 w a)) = INST_TYPE_LDR \<and>
         rd_type (snd (disassemble_arm64 w a)) = REG_TYPE_X \<and>
         \<not> is_64bit (snd (disassemble_arm64 w a))"
proof -
  from L have H: "w AND 0xFB000000 = 0xD8000000" by (simp only: rejected_literal_def)
  note ne = and_mask_neq[OF H]
  have row: "w AND 0x3B000000 = 0x18000000" using and_mask_sub[OF H, of "0x3B000000"] by simp
  have ls1: "w AND 0x0A000000 = 0x08000000" using and_mask_sub[OF H, of "0x0A000000"] by simp
  have top2: "w AND 0xC0000000 = 0xC0000000" using and_mask_sub[OF H, of "0xC0000000"] by simp
  have m: "push_bit 30 (mask (31 - 30 + 1)) = (0xC0000000 :: 32 word)"
    by (simp add: mask_eq_exp_minus_1)
  have "BITS w 30 31 = ucast (drop_bit 30 (w AND push_bit 30 (mask (31 - 30 + 1))))"
    by (rule BITS_and) simp_all
  then have "BITS w 30 31 = ucast (drop_bit 30 (0xC0000000 :: 32 word))"
    unfolding m top2 .
  then have opc: "(ucast (BITS w 30 31) :: 8 word) = 3"
    by simp
  define lit where "lit r = snd (decode_load_literal w a r)" for r
  have rej: "decode_load_literal w a r = (False, lit r)" for r
    by (simp add: lit_def decode_load_literal_def Let_def opc)
  have ty: "type (lit r) = INST_TYPE_LDR" for r
    by (simp add: lit_def decode_load_literal_def Let_def opc)
  have rt: "rd_type (lit r) = rd_type r" for r
    by (simp add: lit_def decode_load_literal_def Let_def opc)
  have i64: "is_64bit (lit r) = is_64bit r" for r
    by (simp add: lit_def decode_load_literal_def Let_def opc)
  have ls: "decode_load_store w a r = (False, lit r)" for r
    by (simp add: decode_load_store_def load_store_decode_table_def DECODE_ENTRY_def ne row rej)
  have b: "decode_branch w a r = (False, r)" for r
    by (simp add: decode_branch_def branch_decode_table_def DECODE_ENTRY_def ne)
  have i: "decode_data_proc_imm w a r = (False, r)" for r
    by (simp add: decode_data_proc_imm_def data_proc_imm_decode_table_def DECODE_ENTRY_def ne)
  have g: "decode_data_proc_reg w a r = (False, r)" for r
    by (simp add: decode_data_proc_reg_def data_proc_reg_decode_table_def DECODE_ENTRY_def ne)
  have t: "decode_with_table top_level_decode_table w a r =
             (False, if w AND 0x1C000000 = 0x18000000 then lit (lit r) else lit r)" for r
    by (simp add: top_level_decode_table_def DECODE_ENTRY_def ne ls1 dispatch_load_store_def ls)
  have r0: "rd_type (init_disasm_inst w a) = REG_TYPE_X" "\<not> is_64bit (init_disasm_inst w a)"
    by (simp_all add: init_disasm_inst_def)
  show ?thesis
    by (simp add: disassemble_arm64_def Let_def t b i g ls rej ty rt i64 r0 inst_type_t_defs)
qed




subsection \<open>The branch target law\<close>

text \<open>
  No decoder other than those of the B/BL, CBZ/CBNZ, TBZ/TBNZ, B.cond and ADR/ADRP rows
  produces a kind of the branch-target class.
\<close>

lemma branch_target_kind_true:
  "branch_target_kind INST_TYPE_B" "branch_target_kind INST_TYPE_BL"
  "branch_target_kind INST_TYPE_CBZ" "branch_target_kind INST_TYPE_CBNZ"
  "branch_target_kind INST_TYPE_TBZ" "branch_target_kind INST_TYPE_TBNZ"
  "branch_target_kind INST_TYPE_ADR" "branch_target_kind INST_TYPE_ADRP"
  by (simp_all add: branch_target_kind_def)

lemma branch_target_kind_false:
  "\<not> branch_target_kind INST_TYPE_UNKNOWN" "\<not> branch_target_kind INST_TYPE_LDR"
  "\<not> branch_target_kind INST_TYPE_LDRB" "\<not> branch_target_kind INST_TYPE_LDRH"
  "\<not> branch_target_kind INST_TYPE_LDRSW" "\<not> branch_target_kind INST_TYPE_LDRSB"
  "\<not> branch_target_kind INST_TYPE_LDRSH" "\<not> branch_target_kind INST_TYPE_STR"
  "\<not> branch_target_kind INST_TYPE_STRB" "\<not> branch_target_kind INST_TYPE_STRH"
  "\<not> branch_target_kind INST_TYPE_STP" "\<not> branch_target_kind INST_TYPE_LDP"
  "\<not> branch_target_kind INST_TYPE_MOV" "\<not> branch_target_kind INST_TYPE_MOVZ"
  "\<not> branch_target_kind INST_TYPE_MOVN" "\<not> branch_target_kind INST_TYPE_MOVK"
  "\<not> branch_target_kind INST_TYPE_ADD" "\<not> branch_target_kind INST_TYPE_SUB"
  "\<not> branch_target_kind INST_TYPE_ADDS" "\<not> branch_target_kind INST_TYPE_SUBS"
  "\<not> branch_target_kind INST_TYPE_BR" "\<not> branch_target_kind INST_TYPE_BLR"
  "\<not> branch_target_kind INST_TYPE_RET" "\<not> branch_target_kind INST_TYPE_AND"
  "\<not> branch_target_kind INST_TYPE_ORR" "\<not> branch_target_kind INST_TYPE_EOR"
  "\<not> branch_target_kind INST_TYPE_LSL" "\<not> branch_target_kind INST_TYPE_LSR"
  "\<not> branch_target_kind INST_TYPE_ASR" "\<not> branch_target_kind INST_TYPE_ROR"
  "\<not> branch_target_kind INST_TYPE_CMP" "\<not> branch_target_kind INST_TYPE_CMN"
  "\<not> branch_target_kind INST_TYPE_TST" "\<not> branch_target_kind INST_TYPE_MUL"
  "\<not> branch_target_kind INST_TYPE_MADD" "\<not> branch_target_kind INST_TYPE_MSUB"
  "\<not> branch_target_kind INST_TYPE_SDIV" "\<not> branch_target_kind INST_TYPE_UDIV"
  "\<not> branch_target_kind INST_TYPE_SMULL" "\<not> branch_target_kind INST_TYPE_UMULL"
  "\<not> branch_target_kind INST_TYPE_CSEL" "\<not> branch_target_kind INST_TYPE_CSINC"
  "\<not> branch_target_kind INST_TYPE_CSINV" "\<not> branch_target_kind INST_TYPE_CSNEG"
  "\<not> branch_target_kind INST_TYPE_CSET" "\<not> branch_target_kind INST_TYPE_CSETM"
  "\<not> branch_target_kind INST_TYPE_CINC" "\<not> branch_target_kind INST_TYPE_CINV"
  "\<not> branch_target_kind INST_TYPE_CNEG" "\<not> branch_target_kind INST_TYPE_CLZ"
  "\<not> branch_target_kind INST_TYPE_CLS" "\<not> branch_target_kind INST_TYPE_RBIT"
  "\<not> branch_target_kind INST_TYPE_REV" "\<not> branch_target_kind INST_TYPE_REV16"
  "\<not> branch_target_kind INST_TYPE_REV32" "\<not> branch_target_kind INST_TYPE_EXTR"
  "\<not> branch_target_kind INST_TYPE_LDXR" "\<not> branch_target_kind INST_TYPE_STXR"
  "\<not> branch_target_kind INST_TYPE_LDAXR" "\<not> branch_target_kind INST_TYPE_STLXR"
  "\<not> branch_target_kind INST_TYPE_LDAR" "\<not> branch_target_kind INST_TYPE_STLR"
  "\<not> branch_target_kind INST_TYPE_LDADD" "\<not> branch_target_kind INST_TYPE_LDCLR"
  "\<not> branch_target_kind INST_TYPE_LDEOR" "\<not> branch_target_kind INST_TYPE_LDSET"
  "\<not> branch_target_kind INST_TYPE_LDSMAX" "\<not> branch_target_kind INST_TYPE_LDSMIN"
  "\<not> branch_target_kind INST_TYPE_LDUMAX" "\<not> branch_target_kind INST_TYPE_LDUMIN"
  "\<not> branch_target_kind INST_TYPE_SWP" "\<not> branch_target_kind INST_TYPE_CAS"
  "\<not> branch_target_kind INST_TYPE_NOP" "\<not> branch_target_kind INST_TYPE_MRS"
  "\<not> branch_target_kind INST_TYPE_MSR" "\<not> branch_target_kind INST_TYPE_DMB"
  "\<not> branch_target_kind INST_TYPE_DSB" "\<not> branch_target_kind INST_TYPE_ISB"
  "\<not> branch_target_kind INST_TYPE_SVC" "\<not> branch_target_kind INST_TYPE_HVC"
  "\<not> branch_target_kind INST_TYPE_SMC" "\<not> branch_target_kind INST_TYPE_FMOV"
  "\<not> branch_target_kind INST_TYPE_FADD" "\<not> branch_target_kind INST_TYPE_FSUB"
  "\<not> branch_target_kind INST_TYPE_FMUL" "\<not> branch_target_kind INST_TYPE_FDIV"
  "\<not> branch_target_kind INST_TYPE_FABS" "\<not> branch_target_kind INST_TYPE_FNEG"
  "\<not> branch_target_kind INST_TYPE_FSQRT" "\<not> branch_target_kind INST_TYPE_FMADD"
  "\<not> branch_target_kind INST_TYPE_FMSUB" "\<not> branch_target_kind INST_TYPE_FNMADD"
  "\<not> branch_target_kind INST_TYPE_FNMSUB" "\<not> branch_target_kind INST_TYPE_FCMP"
  "\<not> branch_target_kind INST_TYPE_FCMPE" "\<not> branch_target_kind INST_TYPE_FCCMP"
  "\<not> branch_target_kind INST_TYPE_FCSEL" "\<not> branch_target_kind INST_TYPE_FCVT"
  "\<not> branch_target_kind INST_TYPE_FCVTZS" "\<not> branch_target_kind INST_TYPE_FCVTZU"
  "\<not> branch_target_kind INST_TYPE_SCVTF" "\<not> branch_target_kind INST_TYPE_UCVTF"
  "\<not> branch_target_kind INST_TYPE_FRINT" "\<not> branch_target_kind INST_TYPE_FMAX"
  "\<not> branch_target_kind INST_TYPE_FMIN"
  by (simp_all add: branch_target_kind_def inst_type_t_defs)

lemma ror_not_target: "\<not> branch_target_kind (Suc INST_TYPE_ASR)"
  by (simp add: branch_target_kind_def inst_type_t_defs)

lemma gpr_ls_info_kind: "find_gpr_ls_info k = Some i \<Longrightarrow> \<not> branch_target_kind (ls_type i)"
  unfolding find_gpr_ls_info_def
  apply (drule find_SomeD)
  apply (simp add: gpr_ls_info_def)
  apply (elim conjE disjE; simp add: branch_target_kind_false)
  done

lemma unscaled_info_kind: "find P unscaled_info = Some i \<Longrightarrow> \<not> branch_target_kind (us_type i)"
  apply (drule find_SomeD)
  apply (simp add: unscaled_info_def)
  apply (elim conjE disjE; simp add: branch_target_kind_false)
  done

lemma atomic_ops_kind:
  "\<not> branch_target_kind (snd (atomic_ops ! unat (ucast (BITS w 12 14) :: 8 word)))"
proof -
  have "unat (ucast (BITS w 12 14) :: 8 word) < 8" using unat_field8[of w 12 14] by simp
  then have "unat (ucast (BITS w 12 14) :: 8 word) \<in> {0, 1, 2, 3, 4, 5, 6, 7}" by auto
  then show ?thesis
    by (auto simp: atomic_ops_def branch_target_kind_false)
qed

lemma t_uncond_branch_reg: "succ_tg w (decode_uncond_branch_reg w a r)"
  apply (simp only: decode_uncond_branch_reg_def Let_def succ_tg_def)
  apply (simp split: option.split add: branch_target_kind_false ror_not_target atomic_ops_kind)
  done

lemma t_system: "succ_tg w (decode_system w a r)"
  apply (simp only: decode_system_def Let_def succ_tg_def)
  apply (simp split: option.split add: branch_target_kind_false ror_not_target atomic_ops_kind)
  done

lemma t_add_sub_imm: "succ_tg w (decode_add_sub_imm w a r)"
  apply (simp only: decode_add_sub_imm_def Let_def succ_tg_def)
  apply (simp split: option.split add: branch_target_kind_false ror_not_target atomic_ops_kind)
  done

lemma t_logical_imm: "succ_tg w (decode_logical_imm w a r)"
  apply (simp only: decode_logical_imm_def Let_def succ_tg_def)
  apply (simp split: option.split add: branch_target_kind_false ror_not_target atomic_ops_kind)
  done

lemma t_move_wide_imm: "succ_tg w (decode_move_wide_imm w a r)"
  apply (simp only: decode_move_wide_imm_def Let_def succ_tg_def)
  apply (simp split: option.split add: branch_target_kind_false ror_not_target atomic_ops_kind)
  done

lemma t_bitfield: "succ_tg w (decode_bitfield w a r)"
  apply (simp only: decode_bitfield_def Let_def succ_tg_def)
  apply (simp split: option.split add: branch_target_kind_false ror_not_target atomic_ops_kind)
  done

lemma t_extract: "succ_tg w (decode_extract w a r)"
  apply (simp only: decode_extract_def Let_def succ_tg_def)
  apply (simp split: option.split add: branch_target_kind_false ror_not_target atomic_ops_kind)
  done

lemma t_logical_shifted_reg: "succ_tg w (decode_logical_shifted_reg w a r)"
  apply (simp only: decode_logical_shifted_reg_def Let_def succ_tg_def)
  apply (simp split: option.split add: branch_target_kind_false ror_not_target atomic_ops_kind)
  done

lemma t_add_sub_shifted_reg: "succ_tg w (decode_add_sub_shifted_reg w a r)"
  apply (simp only: decode_add_sub_shifted_reg_def Let_def succ_tg_def)
  apply (simp split: option.split add: branch_target_kind_false ror_not_target atomic_ops_kind)
  done

lemma t_cond_select: "succ_tg w (decode_cond_select w a r)"
  apply (simp only: decode_cond_select_def Let_def succ_tg_def)
  apply (simp split: option.split add: branch_target_kind_false ror_not_target atomic_ops_kind)
  done

lemma t_data_proc_1src: "succ_tg w (decode_data_proc_1src w a r)"
  apply (simp only: decode_data_proc_1src_def Let_def succ_tg_def)
  apply (simp split: option.split add: branch_target_kind_false ror_not_target atomic_ops_kind)
  done

lemma t_data_proc_2src: "succ_tg w (decode_data_proc_2src w a r)"
  apply (simp only: decode_data_proc_2src_def Let_def succ_tg_def)
  apply (simp split: option.split add: branch_target_kind_false ror_not_target atomic_ops_kind)
  done

lemma t_data_proc_3src: "succ_tg w (decode_data_proc_3src w a r)"
  apply (simp only: decode_data_proc_3src_def Let_def succ_tg_def)
  apply (simp split: option.split add: branch_target_kind_false ror_not_target atomic_ops_kind)
  done

lemma t_load_store_exclusive: "succ_tg w (decode_load_store_exclusive w a r)"
  apply (simp only: decode_load_store_exclusive_def Let_def succ_tg_def)
  apply (simp split: option.split add: branch_target_kind_false ror_not_target atomic_ops_kind)
  done

lemma t_cas: "succ_tg w (decode_cas w a r)"
  apply (simp only: decode_cas_def Let_def succ_tg_def)
  apply (simp split: option.split add: branch_target_kind_false ror_not_target atomic_ops_kind)
  done

lemma t_atomic_memory_ops: "succ_tg w (decode_atomic_memory_ops w a r)"
  apply (simp only: decode_atomic_memory_ops_def Let_def succ_tg_def)
  apply (simp split: option.split add: branch_target_kind_false ror_not_target atomic_ops_kind)
  done

lemma t_ls_pair: "succ_tg w (decode_ls_pair w a r)"
  apply (simp only: decode_ls_pair_def Let_def succ_tg_def)
  apply (simp split: option.split add: branch_target_kind_false ror_not_target atomic_ops_kind)
  done

lemma t_load_literal: "succ_tg w (decode_load_literal w a r)"
  apply (simp only: decode_load_literal_def Let_def succ_tg_def)
  apply (simp split: option.split add: branch_target_kind_false ror_not_target atomic_ops_kind)
  done

lemma t_ls_unsigned_imm: "succ_tg w (decode_ls_unsigned_imm w a r)"
  apply (simp only: decode_ls_unsigned_imm_def Let_def succ_tg_def)
  apply (simp split: option.split add: branch_target_kind_false)
  apply (blast dest: gpr_ls_info_kind)
  done

lemma t_ls_reg_offset: "succ_tg w (decode_ls_reg_offset w a r)"
  apply (simp only: decode_ls_reg_offset_def Let_def succ_tg_def)
  apply (simp split: option.split add: branch_target_kind_false)
  apply (blast dest: gpr_ls_info_kind)
  done

lemma t_ls_unscaled_imm: "succ_tg w (decode_ls_unscaled_imm w a r)"
  apply (simp only: decode_ls_unscaled_imm_def Let_def succ_tg_def)
  apply (simp split: option.split add: branch_target_kind_false)
  apply (blast dest: unscaled_info_kind)
  done

text \<open>
  The words of those rows: \<open>disassemble_arm64\<close> accepts each of them through the one
  decoder of its row, and the record satisfies the target law.
\<close>

lemma law_b:
  assumes H: "w AND 0x7C000000 = 0x14000000"
  shows "fst (disassemble_arm64 w a) \<and>
         branch_target_kind (type (snd (disassemble_arm64 w a))) \<and>
         type (snd (disassemble_arm64 w a)) \<noteq> INST_TYPE_ADRP \<and>
         target_law w a (snd (disassemble_arm64 w a)) \<and>
         (type (snd (disassemble_arm64 w a)) = INST_TYPE_B \<or>
          type (snd (disassemble_arm64 w a)) = INST_TYPE_BL) \<and>
         imm (snd (disassemble_arm64 w a)) = word_of_int (sint (ucast w :: 26 word) * 4)"
proof -
  have t: "w AND 0x1C000000 = 0x14000000" using and_mask_sub[OF H, of "0x1C000000"] by simp
  have acc: "fst (decode_uncond_branch_imm w a r0)" for r0
    by (simp add: decode_uncond_branch_imm_def Let_def)
  have d: "decode_branch w a r0 = decode_uncond_branch_imm w a r0" for r0
    using acc[of r0]
    by (cases "decode_uncond_branch_imm w a r0") (simp add: decode_branch_def branch_decode_table_def DECODE_ENTRY_def H)
  have e: "disassemble_arm64 w a = decode_uncond_branch_imm w a (init_disasm_inst w a)"
    using top_branch[OF t, of a] acc by (simp add: d)
  show ?thesis
    unfolding e
    by (simp add: decode_uncond_branch_imm_def Let_def target_law_def branch_target_kind_def
        arch_branch_target_def H init_disasm_inst_def se26 push_bit_eq_mult inst_type_t_defs)
qed

lemma law_bcond:
  assumes H: "w AND 0xFF000010 = 0x54000000"
  shows "fst (disassemble_arm64 w a) \<and>
         branch_target_kind (type (snd (disassemble_arm64 w a))) \<and>
         type (snd (disassemble_arm64 w a)) \<noteq> INST_TYPE_ADRP \<and>
         target_law w a (snd (disassemble_arm64 w a))"
proof -
  note ne = and_mask_neq[OF H]
  have t: "w AND 0x1C000000 = 0x14000000" using and_mask_sub[OF H, of "0x1C000000"] by simp
  have acc: "fst (decode_cond_branch_imm w a r0)" for r0
    using cond4[of w] by (simp add: decode_cond_branch_imm_def Let_def)
  have d: "decode_branch w a r0 = decode_cond_branch_imm w a r0" for r0
    using acc[of r0]
    by (cases "decode_cond_branch_imm w a r0") (simp add: decode_branch_def branch_decode_table_def DECODE_ENTRY_def H ne)
  have e: "disassemble_arm64 w a = decode_cond_branch_imm w a (init_disasm_inst w a)"
    using top_branch[OF t, of a] acc by (simp add: d)
  show ?thesis
    unfolding e using cond4[of w]
    by (simp add: decode_cond_branch_imm_def Let_def target_law_def branch_target_kind_def
        arch_branch_target_def H ne init_disasm_inst_def se19 push_bit_eq_mult inst_type_t_defs)
qed

lemma law_cb:
  assumes H: "w AND 0x7E000000 = 0x34000000"
  shows "fst (disassemble_arm64 w a) \<and>
         branch_target_kind (type (snd (disassemble_arm64 w a))) \<and>
         type (snd (disassemble_arm64 w a)) \<noteq> INST_TYPE_ADRP \<and>
         target_law w a (snd (disassemble_arm64 w a))"
proof -
  note ne = and_mask_neq[OF H]
  have t: "w AND 0x1C000000 = 0x14000000" using and_mask_sub[OF H, of "0x1C000000"] by simp
  have acc: "fst (decode_compare_branch w a r0)" for r0
    by (simp add: decode_compare_branch_def Let_def)
  have d: "decode_branch w a r0 = decode_compare_branch w a r0" for r0
    using acc[of r0]
    by (cases "decode_compare_branch w a r0") (simp add: decode_branch_def branch_decode_table_def DECODE_ENTRY_def H ne)
  have e: "disassemble_arm64 w a = decode_compare_branch w a (init_disasm_inst w a)"
    using top_branch[OF t, of a] acc by (simp add: d)
  show ?thesis
    unfolding e
    by (simp add: decode_compare_branch_def Let_def target_law_def branch_target_kind_def
        arch_branch_target_def H ne init_disasm_inst_def se19 push_bit_eq_mult inst_type_t_defs)
qed

lemma law_tb:
  assumes H: "w AND 0x7E000000 = 0x36000000"
  shows "fst (disassemble_arm64 w a) \<and>
         branch_target_kind (type (snd (disassemble_arm64 w a))) \<and>
         type (snd (disassemble_arm64 w a)) \<noteq> INST_TYPE_ADRP \<and>
         target_law w a (snd (disassemble_arm64 w a))"
proof -
  note ne = and_mask_neq[OF H]
  have t: "w AND 0x1C000000 = 0x14000000" using and_mask_sub[OF H, of "0x1C000000"] by simp
  have acc: "fst (decode_test_branch w a r0)" for r0
    by (simp add: decode_test_branch_def Let_def)
  have d: "decode_branch w a r0 = decode_test_branch w a r0" for r0
    using acc[of r0]
    by (cases "decode_test_branch w a r0") (simp add: decode_branch_def branch_decode_table_def DECODE_ENTRY_def H ne)
  have e: "disassemble_arm64 w a = decode_test_branch w a (init_disasm_inst w a)"
    using top_branch[OF t, of a] acc by (simp add: d)
  show ?thesis
    unfolding e
    by (simp add: decode_test_branch_def Let_def target_law_def branch_target_kind_def
        arch_branch_target_def H ne init_disasm_inst_def se14 push_bit_eq_mult inst_type_t_defs)
qed

lemma pc_rel_top:
  assumes H: "w AND 0x1F000000 = 0x10000000"
  shows "disassemble_arm64 w a = decode_pc_rel_addr w a (init_disasm_inst w a)"
proof -
  have t: "w AND 0x1C000000 = 0x10000000" using and_mask_sub[OF H, of "0x1C000000"] by simp
  have acc: "fst (decode_pc_rel_addr w a r0)" for r0
    by (simp add: decode_pc_rel_addr_def Let_def)
  have d: "decode_data_proc_imm w a r0 = decode_pc_rel_addr w a r0" for r0
    using acc[of r0]
    by (cases "decode_pc_rel_addr w a r0") (simp add: decode_data_proc_imm_def data_proc_imm_decode_table_def DECODE_ENTRY_def H)
  show ?thesis
    using top_imm[OF t, of a] acc by (simp add: d)
qed

lemma law_adr:
  assumes H: "w AND 0x9F000000 = 0x10000000"
  shows "fst (disassemble_arm64 w a) \<and>
         branch_target_kind (type (snd (disassemble_arm64 w a))) \<and>
         type (snd (disassemble_arm64 w a)) \<noteq> INST_TYPE_ADRP \<and>
         target_law w a (snd (disassemble_arm64 w a))"
proof -
  note ne = and_mask_neq[OF H]
  have p: "w AND 0x1F000000 = 0x10000000" using and_mask_sub[OF H, of "0x1F000000"] by simp
  have b: "w AND 0x80000000 = 0" using and_mask_sub[OF H, of "0x80000000"] by simp
  have op: "(ucast (BIT w 31) :: 8 word) = 0" using b by (simp add: BIT_and)
  show ?thesis
    unfolding pc_rel_top[OF p]
    by (simp add: decode_pc_rel_addr_def Let_def target_law_def branch_target_kind_def op
        arch_branch_target_def H ne init_disasm_inst_def se21 inst_type_t_defs)
qed

lemma law_adrp:
  assumes H: "w AND 0x9F000000 = 0x90000000"
  shows "fst (disassemble_arm64 w a) \<and>
         type (snd (disassemble_arm64 w a)) = INST_TYPE_ADRP \<and>
         target_law w a (snd (disassemble_arm64 w a))"
proof -
  note ne = and_mask_neq[OF H]
  have p: "w AND 0x1F000000 = 0x10000000" using and_mask_sub[OF H, of "0x1F000000"] by simp
  have b: "w AND 0x80000000 = 0x80000000" using and_mask_sub[OF H, of "0x80000000"] by simp
  have op: "(ucast (BIT w 31) :: 8 word) = 1" using b by (simp add: BIT_and)
  have m12: "x * 4096 = push_bit 12 x" for x :: "64 word"
    by (simp add: push_bit_eq_mult)
  show ?thesis
    unfolding pc_rel_top[OF p]
    by (simp add: decode_pc_rel_addr_def Let_def target_law_def branch_target_kind_def op
        arch_branch_target_def H ne init_disasm_inst_def se21 m12 inst_type_t_defs)
qed

lemma table_tg:
  assumes "\<And>m v d n r. (m, v, d, n) \<in> set T \<Longrightarrow> w AND m = v \<Longrightarrow> succ_tg w (d w a r)"
  shows "succ_tg w (decode_with_table T w a r)"
  using assms
proof (induction T arbitrary: r)
  case Nil
  show ?case by (simp add: succ_tg_def)
next
  case (Cons e T)
  obtain m v d n where e: "e = (m, v, d, n)" by (cases e) auto
  have tl: "succ_tg w (decode_with_table T w a r')" for r'
  proof (rule Cons.IH)
    fix m' v' d' n' r''
    assume "(m', v', d', n') \<in> set T" "w AND m' = v'"
    then show "succ_tg w (d' w a r'')" using Cons.prems[of m' v' d' n' r''] by simp
  qed
  show ?case
  proof (cases "w AND m = v")
    case False
    then show ?thesis using tl[of r] by (simp add: e)
  next
    case True
    have hd: "succ_tg w (d w a r)" using Cons.prems[of m v d n r] True by (simp add: e)
    show ?thesis
    proof (cases "d w a r")
      case (Pair ok r1)
      with hd tl[of r1] True show ?thesis
        by (cases ok) (simp_all add: e)
    qed
  qed
qed

lemma t_uncond_branch_imm:
  "w AND 0x7C000000 = 0x14000000 \<Longrightarrow> succ_tg w (decode_uncond_branch_imm w a r)"
  by (simp add: succ_tg_def tgt_shape_def)

lemma t_compare_branch:
  "w AND 0x7E000000 = 0x34000000 \<Longrightarrow> succ_tg w (decode_compare_branch w a r)"
  by (simp add: succ_tg_def tgt_shape_def)

lemma t_test_branch:
  "w AND 0x7E000000 = 0x36000000 \<Longrightarrow> succ_tg w (decode_test_branch w a r)"
  by (simp add: succ_tg_def tgt_shape_def)

lemma t_cond_branch_imm:
  "w AND 0xFF000010 = 0x54000000 \<Longrightarrow> succ_tg w (decode_cond_branch_imm w a r)"
  by (simp add: succ_tg_def tgt_shape_def)

lemma t_pc_rel_addr:
  "w AND 0x1F000000 = 0x10000000 \<Longrightarrow> succ_tg w (decode_pc_rel_addr w a r)"
  by (simp add: succ_tg_def tgt_shape_def)

lemma t_decode_branch: "succ_tg w (decode_branch w a r)"
  unfolding decode_branch_def
  by (rule table_tg)
    (auto simp: branch_decode_table_def DECODE_ENTRY_def t_uncond_branch_imm t_compare_branch
      t_test_branch t_cond_branch_imm t_uncond_branch_reg t_system)

lemma t_decode_data_proc_imm: "succ_tg w (decode_data_proc_imm w a r)"
  unfolding decode_data_proc_imm_def
  by (rule table_tg)
    (auto simp: data_proc_imm_decode_table_def DECODE_ENTRY_def t_pc_rel_addr t_add_sub_imm
      t_logical_imm t_move_wide_imm t_bitfield t_extract)

lemma t_decode_data_proc_reg: "succ_tg w (decode_data_proc_reg w a r)"
  unfolding decode_data_proc_reg_def
  by (rule table_tg)
    (auto simp: data_proc_reg_decode_table_def DECODE_ENTRY_def t_logical_shifted_reg
      t_add_sub_shifted_reg t_cond_select t_data_proc_1src t_data_proc_2src t_data_proc_3src)

lemma t_decode_load_store: "succ_tg w (decode_load_store w a r)"
  unfolding decode_load_store_def
  by (rule table_tg)
    (auto simp: load_store_decode_table_def DECODE_ENTRY_def t_load_store_exclusive t_cas
      t_atomic_memory_ops t_ls_pair t_load_literal t_ls_unsigned_imm t_ls_reg_offset
      t_ls_unscaled_imm)

lemma t_top_level: "succ_tg w (decode_with_table top_level_decode_table w a r)"
  by (rule table_tg)
    (auto simp: top_level_decode_table_def DECODE_ENTRY_def dispatch_branch_def
      dispatch_data_proc_imm_def dispatch_data_proc_reg_def dispatch_load_store_def
      t_decode_branch t_decode_data_proc_imm t_decode_data_proc_reg t_decode_load_store)

lemma and_nbit: "\<not> bit w n \<Longrightarrow> w AND push_bit n 1 = (0 :: 32 word)"
  by (rule bit_word_eqI) (auto simp: bit_simps)

lemma pc_rel_split:
  assumes H: "(w :: 32 word) AND 0x1F000000 = 0x10000000"
  shows "w AND 0x9F000000 = 0x10000000 \<or> w AND 0x9F000000 = 0x90000000"
proof -
  have s: "w AND 0x9F000000 = (w AND 0x1F000000) OR (w AND 0x80000000)"
    by (simp flip: bit.conj_disj_distrib)
  show ?thesis
  proof (cases "bit w 31")
    case True
    have "w AND 0x80000000 = 0x80000000" using and_bit[OF True] by simp
    with s H show ?thesis by simp
  next
    case False
    have "w AND 0x80000000 = 0" using and_nbit[OF False] by simp
    with s H show ?thesis by simp
  qed
qed

lemma shape_law:
  assumes "tgt_shape w"
  shows "fst (disassemble_arm64 w a) \<and>
         branch_target_kind (type (snd (disassemble_arm64 w a))) \<and>
         target_law w a (snd (disassemble_arm64 w a))"
proof -
  from assms consider "w AND 0x7C000000 = 0x14000000" | "w AND 0x7E000000 = 0x34000000"
    | "w AND 0x7E000000 = 0x36000000" | "w AND 0xFF000010 = 0x54000000"
    | "w AND 0x9F000000 = 0x10000000" | "w AND 0x9F000000 = 0x90000000"
    unfolding tgt_shape_def using pc_rel_split by blast
  then show ?thesis
  proof cases
    case 1 from law_b[OF this, of a] show ?thesis by simp
  next
    case 2 from law_cb[OF this, of a] show ?thesis by simp
  next
    case 3 from law_tb[OF this, of a] show ?thesis by simp
  next
    case 4 from law_bcond[OF this, of a] show ?thesis by simp
  next
    case 5 from law_adr[OF this, of a] show ?thesis by simp
  next
    case 6 from law_adrp[OF this, of a] show ?thesis by (simp add: branch_target_kind_true)
  qed
qed

lemma disassemble_target_shape:
  assumes dis: "disassemble_arm64 w a = (True, r)" and kind: "branch_target_kind (type r)"
  shows "tgt_shape w"
proof -
  define r0 where "r0 = init_disasm_inst w a"
  define p1 where "p1 = decode_with_table top_level_decode_table w a r0"
  define p2 where "p2 = decode_branch w a (snd p1)"
  define p3 where "p3 = decode_data_proc_imm w a (snd p2)"
  define p4 where "p4 = decode_data_proc_reg w a (snd p3)"
  define p5 where "p5 = decode_load_store w a (snd p4)"
  have i0: "dec_inv w r0" by (simp add: r0_def init_disasm_inst_def dec_inv_def)
  have s1: "dec_post w p1" unfolding p1_def by (rule post_top_level[OF i0])
  have s2: "dec_post w p2" if "\<not> fst p1"
    unfolding p2_def by (rule post_decode_branch) (rule post_rej[OF s1 that])
  have s3: "dec_post w p3" if "\<not> fst p1" "\<not> fst p2"
    unfolding p3_def by (rule post_decode_data_proc_imm) (rule post_rej[OF s2[OF that(1)] that(2)])
  have s4: "dec_post w p4" if "\<not> fst p1" "\<not> fst p2" "\<not> fst p3"
    unfolding p4_def
    by (rule post_decode_data_proc_reg) (rule post_rej[OF s3[OF that(1,2)] that(3)])
  have s5: "dec_post w p5" if "\<not> fst p1" "\<not> fst p2" "\<not> fst p3" "\<not> fst p4"
    unfolding p5_def
    by (rule post_decode_load_store) (rule post_rej[OF s4[OF that(1,2,3)] that(4)])
  have t1: "succ_tg w p1" unfolding p1_def by (rule t_top_level)
  have t2: "succ_tg w p2" unfolding p2_def by (rule t_decode_branch)
  have t3: "succ_tg w p3" unfolding p3_def by (rule t_decode_data_proc_imm)
  have t4: "succ_tg w p4" unfolding p4_def by (rule t_decode_data_proc_reg)
  have t5: "succ_tg w p5" unfolding p5_def by (rule t_decode_load_store)
  have unfold: "disassemble_arm64 w a =
      (if fst p1 then p1 else if fst p2 then p2 else if fst p3 then p3
       else if fst p4 then p4 else if fst p5 then p5
       else (type (snd p5) \<noteq> INST_TYPE_UNKNOWN, snd p5))"
    by (simp add: disassemble_arm64_def Let_def p1_def p2_def p3_def p4_def p5_def r0_def
        split: prod.splits bool.splits)
  show ?thesis
  proof (cases "fst p1 \<or> fst p2 \<or> fst p3 \<or> fst p4 \<or> fst p5")
    case True
    with t1 t2 t3 t4 t5 have "succ_tg w (disassemble_arm64 w a)"
      unfolding unfold by auto
    with dis kind show ?thesis by (simp add: succ_tg_def)
  next
    case False
    then have n: "\<not> fst p1" "\<not> fst p2" "\<not> fst p3" "\<not> fst p4" "\<not> fst p5" by auto
    from post_rej[OF s5[OF n(1-4)] n(5)]
    have "type (snd p5) = INST_TYPE_UNKNOWN \<or> type (snd p5) = INST_TYPE_LDR"
      by (auto simp: dec_inv_def)
    moreover from dis n have "r = snd p5" unfolding unfold by auto
    ultimately show ?thesis
      using kind by (auto simp: branch_target_kind_false)
  qed
qed

lemma get_branch_target_kind:
  "get_branch_target r =
     (if branch_target_kind (type r) then Some (address r + imm r) else None)"
  by (simp add: get_branch_target_def branch_target_kind_def)

lemma page_eq: "(a + i = (a AND NOT m) + i) \<longleftrightarrow> a AND m = (0 :: 64 word)"
proof -
  have "(a + i = (a AND NOT m) + i) \<longleftrightarrow> (a AND NOT m) + (a AND m) = (a AND NOT m) + 0"
    by (simp add: page_split)
  also have "\<dots> \<longleftrightarrow> a AND m = 0"
    by (simp only: add_left_cancel)
  finally show ?thesis .
qed

text \<open>
  C6, as the code has it. For the word \<open>0xB0000000\<close> (\<open>adrp x0\<close> with a page offset of 1)
  at the address \<open>0x1004\<close>, \<open>disassemble_arm64\<close> gives kind ADRP with \<open>imm = 0x1000\<close> and
  \<open>get_branch_target\<close> returns \<open>address + imm = 0x2004\<close>, while the target of the
  instruction is \<open>0x2000\<close>, the page of the address plus the offset. For the word
  \<open>0x14000010\<close> at \<open>0x1000\<close> the two agree: \<open>imm = 0x40\<close> and the target is \<open>0x1040\<close>.
\<close>

theorem adrp_target_divergence:
  "(case disassemble_arm64 0xB0000000 0x1004 of (ok, r) \<Rightarrow>
      ok \<and> type r = INST_TYPE_ADRP \<and> imm r = 0x1000 \<and>
      get_branch_target r = Some 0x2004 \<and>
      arch_branch_target 0xB0000000 0x1004 = Some 0x2000 \<and>
      get_branch_target r \<noteq> arch_branch_target 0xB0000000 0x1004) \<and>
   (case disassemble_arm64 0x14000010 0x1000 of (ok, r) \<Rightarrow>
      ok \<and> type r = INST_TYPE_B \<and> imm r = 0x40 \<and>
      get_branch_target r = Some 0x1040 \<and>
      arch_branch_target 0x14000010 0x1000 = Some 0x1040)"
  by code_simp

text \<open>
  C6, amended. For every word and address that \<open>disassemble_arm64\<close> decodes: when the
  kind is one of B, BL, CBZ, CBNZ, TBZ, TBNZ, ADR, ADRP, \<open>get_branch_target\<close> gives
  exactly \<open>address + imm\<close>, and the record's address is the one of the call. For the
  kinds other than ADRP this is the architectural target. For ADRP the architectural
  target is the address with its low 12 bits cleared plus \<open>imm\<close>, so \<open>address + imm\<close> is
  the architectural target exactly when the address is 4KB-aligned. For every other
  kind \<open>get_branch_target\<close> gives nothing. For the B/BL words the kind is B or BL and
  \<open>imm\<close> is the sign-extended \<open>imm26\<close> times 4.
\<close>

theorem branch_target_law:
  assumes "disassemble_arm64 w a = (True, r)"
  shows "(branch_target_kind (type r) \<longrightarrow>
            get_branch_target r = Some (address r + imm r) \<and> address r = a \<and>
            (type r \<noteq> INST_TYPE_ADRP \<longrightarrow> arch_branch_target w a = Some (a + imm r)) \<and>
            (type r = INST_TYPE_ADRP \<longrightarrow>
               arch_branch_target w a = Some ((a AND NOT 0xFFF) + imm r) \<and>
               (get_branch_target r = arch_branch_target w a \<longleftrightarrow> a AND 0xFFF = 0))) \<and>
         (\<not> branch_target_kind (type r) \<longrightarrow> get_branch_target r = None) \<and>
         (w AND 0x7C000000 = 0x14000000 \<longrightarrow>
            (type r = INST_TYPE_B \<or> type r = INST_TYPE_BL) \<and>
            imm r = word_of_int (sint (ucast w :: 26 word) * 4))"
proof -
  have r: "snd (disassemble_arm64 w a) = r" using assms by simp
  have k: "target_law w a r" if "branch_target_kind (type r)"
    using shape_law[OF disassemble_target_shape[OF assms that], of a] r by simp
  have b: "(type r = INST_TYPE_B \<or> type r = INST_TYPE_BL) \<and>
           imm r = word_of_int (sint (ucast w :: 26 word) * 4)"
    if "w AND 0x7C000000 = 0x14000000"
    using law_b[OF that, of a] r by simp
  have g: "get_branch_target r = Some (a + imm r) \<and> address r = a"
    if "branch_target_kind (type r)"
    using k[OF that] that by (simp add: get_branch_target_kind target_law_def)
  have n: "arch_branch_target w a = Some (a + imm r)"
    if "branch_target_kind (type r)" "type r \<noteq> INST_TYPE_ADRP"
    using k[OF that(1)] that(2) by (simp add: target_law_def)
  have p: "arch_branch_target w a = Some ((a AND NOT 0xFFF) + imm r)"
    if "branch_target_kind (type r)" "type r = INST_TYPE_ADRP"
    using k[OF that(1)] that(2) by (simp add: target_law_def)
  have e: "get_branch_target r = arch_branch_target w a \<longleftrightarrow> a AND 0xFFF = 0"
    if "branch_target_kind (type r)" "type r = INST_TYPE_ADRP"
    unfolding p[OF that] using g[OF that(1)] page_eq[of a "imm r" "0xFFF"]
    by (simp only: option.inject)
  have z: "get_branch_target r = None" if "\<not> branch_target_kind (type r)"
    using that by (simp add: get_branch_target_kind)
  show ?thesis
    using g n p e z b by blast
qed

text \<open>
  Three instances: \<open>adrp x0\<close> at \<open>0x1004\<close> (\<open>address + imm = 0x2004\<close>, architectural
  target \<open>0x2000\<close>, address not 4KB-aligned), \<open>b\<close> at \<open>0x1000\<close> (\<open>imm = 0x40\<close>, target
  \<open>0x1040\<close>) and \<open>add x0, x1, #1\<close> (no target).
\<close>

theorem branch_target_law_witness:
  "(let r = snd (disassemble_arm64 0xB0000000 0x1004)
    in fst (disassemble_arm64 0xB0000000 0x1004) \<and> branch_target_kind (type r) \<and>
       type r = INST_TYPE_ADRP \<and> address r = 0x1004 \<and> imm r = 0x1000 \<and>
       get_branch_target r = Some 0x2004 \<and>
       arch_branch_target 0xB0000000 0x1004 = Some 0x2000 \<and>
       get_branch_target r \<noteq> arch_branch_target 0xB0000000 0x1004) \<and>
   (let r = snd (disassemble_arm64 0x14000010 0x1000)
    in fst (disassemble_arm64 0x14000010 0x1000) \<and> branch_target_kind (type r) \<and>
       type r = INST_TYPE_B \<and> (0x14000010 :: 32 word) AND 0x7C000000 = 0x14000000 \<and>
       address r = 0x1000 \<and> imm r = 0x40 \<and>
       get_branch_target r = Some 0x1040 \<and>
       arch_branch_target 0x14000010 0x1000 = Some 0x1040) \<and>
   (let r = snd (disassemble_arm64 0x91000420 0x1000)
    in fst (disassemble_arm64 0x91000420 0x1000) \<and> \<not> branch_target_kind (type r) \<and>
       get_branch_target r = None)"
proof -
  have a1: "disassemble_arm64 0xB0000000 0x1004 = (True, snd (disassemble_arm64 0xB0000000 0x1004))"
    by code_simp
  have a2: "type (snd (disassemble_arm64 0xB0000000 0x1004)) = INST_TYPE_ADRP \<and>
            imm (snd (disassemble_arm64 0xB0000000 0x1004)) = 0x1000"
    by code_simp
  have a3: "(0x1004 :: 64 word) AND 0xFFF \<noteq> 0" "(0x1004 :: 64 word) AND NOT 0xFFF = 0x1000"
    by simp_all
  have b1: "disassemble_arm64 0x14000010 0x1000 = (True, snd (disassemble_arm64 0x14000010 0x1000))"
    by code_simp
  have b2: "type (snd (disassemble_arm64 0x14000010 0x1000)) = INST_TYPE_B \<and>
            imm (snd (disassemble_arm64 0x14000010 0x1000)) = 0x40"
    by code_simp
  have b3: "(0x14000010 :: 32 word) AND 0x7C000000 = 0x14000000" by simp
  have c1: "disassemble_arm64 0x91000420 0x1000 = (True, snd (disassemble_arm64 0x91000420 0x1000))"
    by code_simp
  have c2: "type (snd (disassemble_arm64 0x91000420 0x1000)) = INST_TYPE_ADD"
    by code_simp
  have ne: "INST_TYPE_B \<noteq> INST_TYPE_ADRP" by (simp add: inst_type_t_defs)
  from a1 have a0: "fst (disassemble_arm64 0xB0000000 0x1004)" by (metis fst_conv)
  from b1 have b0: "fst (disassemble_arm64 0x14000010 0x1000)" by (metis fst_conv)
  from c1 have c0: "fst (disassemble_arm64 0x91000420 0x1000)" by (metis fst_conv)
  show ?thesis
    using branch_target_law[OF a1] branch_target_law[OF b1] branch_target_law[OF c1]
      a0 a2 a3 b0 b2 b3 c0 c2 ne
    by (simp add: Let_def branch_target_kind_true branch_target_kind_false)
qed

end
